theory Spec2Isabelle
  imports Main "HOL-Library.AList" "HOL-Library.Sublist"
begin

section \<open>Python values, JSON documents and exceptions\<close>

text \<open>
  The extractors handle dynamically typed data: the parsed body of an HTTP response and the
  dictionaries built from it. \<open>pyval\<close> is the fragment of Python's values they can meet:
  \<open>None\<close>, booleans, (unbounded) integers, strings, lists, tuples, dictionaries with string
  keys (the records are \<open>Dict[str, Any]\<close>) and, as \<open>PObject\<close>, any other object (a
  \<open>datetime\<close>, a \<open>set\<close>, ...), named by a label. Floating point numbers are left out.
  A dictionary is an association list in insertion order.
\<close>

datatype pyval =
    PNone
  | PBool bool
  | PInt int
  | PStr string
  | PList "pyval list"
  | PTuple "pyval list"
  | PDict "(string \<times> pyval) list"
  | PObject string

type_synonym pydict = "(string \<times> pyval) list"

text \<open>
  A JSON document. The text that \<open>json.dumps\<close> writes and that \<open>json.loads\<close> and
  \<open>response.json()\<close> read is represented by the document it spells.
\<close>

datatype json =
    JNull
  | JBool bool
  | JNum int
  | JStr string
  | JArr "json list"
  | JObj "(string \<times> json) list"

text \<open>
  The exception classes raised by the operations below. \<open>HTTPError\<close>, \<open>ConnectionError\<close> and
  \<open>JSONDecodeError\<close> are the ones of \<open>requests.exceptions\<close>, subclasses of
  \<open>RequestException\<close>; \<open>SnowflakeError\<close> is an error of the warehouse connector.
\<close>

datatype exn =
    HTTPError nat
  | ConnectionError string
  | JSONDecodeError
  | ValueError string
  | TypeError
  | AttributeError
  | KeyError
  | IndexError
  | SnowflakeError string

fun isinstance_RequestException :: "exn \<Rightarrow> bool" where
  "isinstance_RequestException (HTTPError _) = True"
| "isinstance_RequestException (ConnectionError _) = True"
| "isinstance_RequestException JSONDecodeError = True"
| "isinstance_RequestException _ = False"

fun isinstance_Exception :: "exn \<Rightarrow> bool" where
  "isinstance_Exception _ = True"

text \<open>A computation that may raise: \<open>Inl\<close> is the exception, \<open>Inr\<close> the value.\<close>

definition bind_exn :: "exn + 'a \<Rightarrow> ('a \<Rightarrow> exn + 'b) \<Rightarrow> exn + 'b" where
  "bind_exn m f = (case m of Inl e \<Rightarrow> Inl e | Inr x \<Rightarrow> f x)"

subsection \<open>The operations of Python the extractors use\<close>

text \<open>Truth value testing (\<open>if x:\<close>).\<close>

fun truthy :: "pyval \<Rightarrow> bool" where
  "truthy PNone = False"
| "truthy (PBool b) = b"
| "truthy (PInt n) = (n \<noteq> 0)"
| "truthy (PStr s) = (s \<noteq> [])"
| "truthy (PList xs) = (xs \<noteq> [])"
| "truthy (PTuple xs) = (xs \<noteq> [])"
| "truthy (PDict kvs) = (kvs \<noteq> [])"
| "truthy (PObject _) = True"

text \<open>\<open>d.get(k, default)\<close>: only a dictionary has the method.\<close>

fun py_get :: "pyval \<Rightarrow> string \<Rightarrow> pyval \<Rightarrow> exn + pyval" where
  "py_get (PDict kvs) k d = Inr (case map_of kvs k of Some v \<Rightarrow> v | None \<Rightarrow> d)"
| "py_get _ k d = Inl AttributeError"

text \<open>\<open>len(x)\<close>.\<close>

fun py_len :: "pyval \<Rightarrow> exn + pyval" where
  "py_len (PStr s) = Inr (PInt (int (length s)))"
| "py_len (PList xs) = Inr (PInt (int (length xs)))"
| "py_len (PTuple xs) = Inr (PInt (int (length xs)))"
| "py_len (PDict kvs) = Inr (PInt (int (length kvs)))"
| "py_len _ = Inl TypeError"

text \<open>Whether a value can be a dictionary key or be looked up in one.\<close>

fun hashable :: "pyval \<Rightarrow> bool" where
  "hashable (PList _) = False"
| "hashable (PDict _) = False"
| "hashable (PTuple xs) = list_all hashable xs"
| "hashable _ = True"

text \<open>
  Sequence indexing \<open>xs[i]\<close>: a negative index counts from the end, and an index outside
  the sequence raises \<open>IndexError\<close>.
\<close>

definition seq_index :: "'a list \<Rightarrow> int \<Rightarrow> exn + 'a" where
  "seq_index xs i =
     (if 0 \<le> i \<and> i < int (length xs) then Inr (xs ! nat i)
      else if i < 0 \<and> 0 \<le> int (length xs) + i then Inr (xs ! nat (int (length xs) + i))
      else Inl IndexError)"

text \<open>An index must be an integer; \<open>bool\<close> is a subclass of \<open>int\<close>.\<close>

fun as_index :: "pyval \<Rightarrow> int option" where
  "as_index (PInt n) = Some n"
| "as_index (PBool b) = Some (if b then 1 else 0)"
| "as_index _ = None"

text \<open>The subscript \<open>c[i]\<close>.\<close>

fun py_subscript :: "pyval \<Rightarrow> pyval \<Rightarrow> exn + pyval" where
  "py_subscript (PList xs) i =
     (case as_index i of None \<Rightarrow> Inl TypeError | Some n \<Rightarrow> seq_index xs n)"
| "py_subscript (PTuple xs) i =
     (case as_index i of None \<Rightarrow> Inl TypeError | Some n \<Rightarrow> seq_index xs n)"
| "py_subscript (PStr s) i =
     (case as_index i of None \<Rightarrow> Inl TypeError
      | Some n \<Rightarrow> bind_exn (seq_index s n) (\<lambda>c. Inr (PStr [c])))"
| "py_subscript (PDict kvs) i =
     (if \<not> hashable i then Inl TypeError
      else case i of
        PStr k \<Rightarrow> (case map_of kvs k of Some v \<Rightarrow> Inr v | None \<Rightarrow> Inl KeyError)
      | _ \<Rightarrow> Inl KeyError)"
| "py_subscript _ i = Inl TypeError"

text \<open>
  Python's \<open>==\<close>: numbers compare by value (\<open>True == 1\<close>), sequences element by element,
  dictionaries key by key whatever the order, a list never equals a tuple, and an object
  of another class only itself.
\<close>

fun py_eq :: "pyval \<Rightarrow> pyval \<Rightarrow> bool" where
  "py_eq PNone y = (y = PNone)"
| "py_eq (PBool b) y = (as_index y = Some (if b then 1 else 0))"
| "py_eq (PInt n) y = (as_index y = Some n)"
| "py_eq (PStr s) y = (y = PStr s)"
| "py_eq (PList xs) y = (case y of PList ys \<Rightarrow> list_all2 py_eq xs ys | _ \<Rightarrow> False)"
| "py_eq (PTuple xs) y = (case y of PTuple ys \<Rightarrow> list_all2 py_eq xs ys | _ \<Rightarrow> False)"
| "py_eq (PDict kvs) y =
     (case y of
        PDict kvs' \<Rightarrow>
          length kvs = length kvs' \<and>
          list_all (\<lambda>(k, v). case map_of kvs' k of None \<Rightarrow> False | Some v' \<Rightarrow> py_eq v v') kvs
      | _ \<Rightarrow> False)"
| "py_eq (PObject a) y = (y = PObject a)"

text \<open>The membership test \<open>x in c\<close>.\<close>

fun py_contains :: "pyval \<Rightarrow> pyval \<Rightarrow> exn + bool" where
  "py_contains x (PDict kvs) =
     (if \<not> hashable x then Inl TypeError
      else Inr (case x of PStr k \<Rightarrow> k \<in> set (map fst kvs) | _ \<Rightarrow> False))"
| "py_contains x (PList ys) = Inr (list_ex (\<lambda>y. py_eq y x) ys)"
| "py_contains x (PTuple ys) = Inr (list_ex (\<lambda>y. py_eq y x) ys)"
| "py_contains x (PStr s) =
     (case x of PStr t \<Rightarrow> Inr (sublist t s) | _ \<Rightarrow> Inl TypeError)"
| "py_contains x _ = Inl TypeError"

subsection \<open>\<open>json.loads\<close> and \<open>json.dumps\<close>\<close>

text \<open>
  Building a dictionary from a sequence of items: a key met again keeps its place and
  takes the new value.
\<close>

definition dict_of_items :: "(string \<times> 'a) list \<Rightarrow> (string \<times> 'a) list" where
  "dict_of_items kvs = foldl (\<lambda>d (k, v). AList.update k v d) [] kvs"

fun json_loads :: "json \<Rightarrow> pyval" where
  "json_loads JNull = PNone"
| "json_loads (JBool b) = PBool b"
| "json_loads (JNum n) = PInt n"
| "json_loads (JStr s) = PStr s"
| "json_loads (JArr xs) = PList (map json_loads xs)"
| "json_loads (JObj kvs) = PDict (dict_of_items (map (\<lambda>(k, v). (k, json_loads v)) kvs))"

text \<open>Evaluating a sequence of computations in order; the first exception wins.\<close>

fun sequence_exn :: "(exn + 'a) list \<Rightarrow> exn + 'a list" where
  "sequence_exn [] = Inr []"
| "sequence_exn (m # ms) =
     bind_exn m (\<lambda>x. bind_exn (sequence_exn ms) (\<lambda>xs. Inr (x # xs)))"

text \<open>
  \<open>json.dumps\<close> with its default encoder: a tuple is written as an array, and an object
  of any other class raises \<open>TypeError\<close>.
\<close>

fun json_dumps :: "pyval \<Rightarrow> exn + json" where
  "json_dumps PNone = Inr JNull"
| "json_dumps (PBool b) = Inr (JBool b)"
| "json_dumps (PInt n) = Inr (JNum n)"
| "json_dumps (PStr s) = Inr (JStr s)"
| "json_dumps (PList xs) = bind_exn (sequence_exn (map json_dumps xs)) (\<lambda>js. Inr (JArr js))"
| "json_dumps (PTuple xs) = bind_exn (sequence_exn (map json_dumps xs)) (\<lambda>js. Inr (JArr js))"
| "json_dumps (PDict kvs) =
     bind_exn
       (sequence_exn (map (\<lambda>(k, v). bind_exn (json_dumps v) (\<lambda>j. Inr (k, j))) kvs))
       (\<lambda>js. Inr (JObj js))"
| "json_dumps (PObject _) = Inl TypeError"

text \<open>
  A dictionary display \<open>{k1: e1, k2: e2, ...}\<close>: the entries are evaluated in order and
  the first exception wins.
\<close>

fun dict_display :: "(string \<times> (exn + pyval)) list \<Rightarrow> exn + pydict" where
  "dict_display [] = Inr []"
| "dict_display ((k, m) # rest) =
     bind_exn m (\<lambda>v. bind_exn (dict_display rest) (\<lambda>d. Inr ((k, v) # d)))"

section \<open>The world around the extractors\<close>

datatype source = GitHub | PyPI

datatype level = INFO | WARNING | ERROR

text \<open>The messages the extractors log, by what they report.\<close>

datatype logmsg =
    RateLimitHit string
  | ExtractedEntity string
  | FetchError string exn
  | UnexpectedError string exn
  | NoDataToSave
  | JsonFailed pyval exn
  | NoValidData
  | SavedRows nat
  | SaveError exn
  | StartingExtraction nat
  | Extracting string
  | ExtractionCompleted nat
  | StartingRun
  | RunCompleted
  | NoDataExtracted
  | RunFailed exn

datatype stmt = UseSchema | CreateTemp source | InsertTemp source | Promote source

text \<open>A staged row: \<open>(extracted_at, entity key, raw JSON text)\<close>.\<close>

type_synonym row = "int \<times> pyval \<times> json"

text \<open>Everything an extractor does to the outside, in the order it does it.\<close>

datatype event =
    Log level logmsg
  | HttpGet string
  | Sleep nat
  | Connect
  | OpenCursor
  | Execute stmt
  | ExecuteMany stmt "row list"
  | Commit
  | Rollback
  | CursorClose
  | ConnClose

text \<open>The answer to one \<open>requests.get\<close>: no answer, or a status code and a body (\<open>None\<close>
  when the body is not JSON).\<close>

datatype reply = NetworkFailure string | Response nat "json option"

text \<open>
  The environment of a run: the answer to the \<open>n\<close>-th HTTP call (it may depend on the URL),
  the \<open>n\<close>-th reading of the wall clock \<open>datetime.now(timezone.utc)\<close> in microseconds,
  \<open>datetime.isoformat\<close>, and for each warehouse call whether it raises (with which
  message).
\<close>

record env =
  http :: "nat \<Rightarrow> string \<Rightarrow> reply"
  clock :: "nat \<Rightarrow> int"
  isoformat :: "int \<Rightarrow> string"
  warehouse :: "event \<Rightarrow> string option"

record state =
  n_http :: nat
  n_clock :: nat
  events :: "event list"

definition state0 :: state where
  "state0 = \<lparr>n_http = 0, n_clock = 0, events = []\<rparr>"

text \<open>A statement sequence: it changes the state and returns a value or raises.\<close>

type_synonym 'a prog = "state \<Rightarrow> (exn + 'a) \<times> state"

definition ret :: "'a \<Rightarrow> 'a prog" where
  "ret x = (\<lambda>s. (Inr x, s))"

definition raise :: "exn \<Rightarrow> 'a prog" where
  "raise e = (\<lambda>s. (Inl e, s))"

definition lift :: "exn + 'a \<Rightarrow> 'a prog" where
  "lift m = (\<lambda>s. (m, s))"

definition and_then :: "'a prog \<Rightarrow> ('a \<Rightarrow> 'b prog) \<Rightarrow> 'b prog" where
  "and_then m f = (\<lambda>s. case m s of (Inl e, s') \<Rightarrow> (Inl e, s') | (Inr x, s') \<Rightarrow> f x s')"

definition emit :: "event \<Rightarrow> unit prog" where
  "emit ev = (\<lambda>s. (Inr (), s\<lparr>events := events s @ [ev]\<rparr>))"

definition now :: "env \<Rightarrow> int prog" where
  "now env = (\<lambda>s. (Inr (clock env (n_clock s)), s\<lparr>n_clock := Suc (n_clock s)\<rparr>))"

subsection \<open>HTTP\<close>

type_synonym response = "nat \<times> json option"

definition requests_get :: "env \<Rightarrow> string \<Rightarrow> response prog" where
  "requests_get env url = (\<lambda>s.
     let s' = s\<lparr>n_http := Suc (n_http s), events := events s @ [HttpGet url]\<rparr>
     in case http env (n_http s) url of
          NetworkFailure msg \<Rightarrow> (Inl (ConnectionError msg), s')
        | Response status body \<Rightarrow> (Inr (status, body), s'))"

definition status_code :: "response \<Rightarrow> nat" where
  "status_code r = fst r"

text \<open>\<open>Response.raise_for_status\<close> of requests raises for the 4xx and 5xx codes.\<close>

definition raise_for_status :: "response \<Rightarrow> exn + unit" where
  "raise_for_status r =
     (if 400 \<le> status_code r \<and> status_code r < 600 then Inl (HTTPError (status_code r))
      else Inr ())"

definition response_json :: "response \<Rightarrow> exn + pyval" where
  "response_json r = (case snd r of None \<Rightarrow> Inl JSONDecodeError | Some j \<Rightarrow> Inr (json_loads j))"

subsection \<open>The warehouse\<close>

definition wh_call :: "env \<Rightarrow> event \<Rightarrow> unit prog" where
  "wh_call env ev = (\<lambda>s.
     let s' = s\<lparr>events := events s @ [ev]\<rparr>
     in case warehouse env ev of
          None \<Rightarrow> (Inr (), s')
        | Some msg \<Rightarrow> (Inl (SnowflakeError msg), s'))"

section \<open>The fetchers\<close>

text \<open>
  The two handlers that close both fetchers (\<open>except RequestException\<close>, then
  \<open>except Exception\<close>): each logs the entity with the error and returns \<open>None\<close>.
\<close>

definition fetch_handlers :: "string \<Rightarrow> pydict prog \<Rightarrow> pydict option prog" where
  "fetch_handlers name body = (\<lambda>s.
     case body s of
       (Inr d, s') \<Rightarrow> (Inr (Some d), s')
     | (Inl e, s') \<Rightarrow>
         if isinstance_RequestException e
         then and_then (emit (Log ERROR (FetchError name e))) (\<lambda>_. ret None) s'
         else if isinstance_Exception e
         then and_then (emit (Log ERROR (UnexpectedError name e))) (\<lambda>_. ret None) s'
         else (Inl e, s'))"

subsection \<open>\<open>GitHubExtractor.get_repo_data\<close>\<close>

definition github_base_url :: string where
  "github_base_url = ''https://api.github.com''"

text \<open>The primary call, with the cooldown and the single retry on a 403.\<close>

definition github_primary_request :: "env \<Rightarrow> string \<Rightarrow> string \<Rightarrow> response prog" where
  "github_primary_request env repo_name repo_url =
     and_then (requests_get env repo_url) (\<lambda>response.
     if status_code response = 403
     then and_then (emit (Log WARNING (RateLimitHit repo_name))) (\<lambda>_.
          and_then (emit (Sleep 60)) (\<lambda>_.
          requests_get env repo_url))
     else ret response)"

text \<open>The entries of \<open>extracted_data\<close> before \<open>extracted_at\<close>.\<close>

definition github_extracted_fields ::
  "string \<Rightarrow> pyval \<Rightarrow> pyval \<Rightarrow> pyval \<Rightarrow> exn + pydict" where
  "github_extracted_fields repo_name repo_data contributors_count releases =
     dict_display
       [(''repo_name'', Inr (PStr repo_name)),
        (''full_name'', py_get repo_data ''full_name'' PNone),
        (''description'', py_get repo_data ''description'' PNone),
        (''language'', py_get repo_data ''language'' PNone),
        (''stars'', py_get repo_data ''stargazers_count'' (PInt 0)),
        (''forks'', py_get repo_data ''forks_count'' (PInt 0)),
        (''watchers'', py_get repo_data ''watchers_count'' (PInt 0)),
        (''open_issues'', py_get repo_data ''open_issues_count'' (PInt 0)),
        (''size'', py_get repo_data ''size'' (PInt 0)),
        (''created_at'', py_get repo_data ''created_at'' PNone),
        (''updated_at'', py_get repo_data ''updated_at'' PNone),
        (''pushed_at'', py_get repo_data ''pushed_at'' PNone),
        (''default_branch'', py_get repo_data ''default_branch'' PNone),
        (''contributors_count'', Inr contributors_count),
        (''releases_count'', py_len releases),
        (''latest_release'',
           if truthy releases then py_subscript releases (PInt 0) else Inr PNone),
        (''topics'', py_get repo_data ''topics'' (PList [])),
        (''license'',
           bind_exn (py_get repo_data ''license'' PNone) (\<lambda>c.
             if truthy c
             then bind_exn (py_get repo_data ''license'' (PDict [])) (\<lambda>l.
                    py_get l ''name'' PNone)
             else Inr PNone))]"

text \<open>The \<open>try\<close> block from \<open>raise_for_status\<close> on.\<close>

definition github_compile :: "env \<Rightarrow> string \<Rightarrow> string \<Rightarrow> response \<Rightarrow> pydict prog" where
  "github_compile env repo_name repo_url response =
     and_then (lift (raise_for_status response)) (\<lambda>_.
     and_then (lift (response_json response)) (\<lambda>repo_data.
     and_then (requests_get env (repo_url @ ''/contributors'')) (\<lambda>contributors_response.
     and_then (lift (if status_code contributors_response = 200
                     then bind_exn (response_json contributors_response) py_len
                     else Inr (PInt 0))) (\<lambda>contributors_count.
     and_then (requests_get env (repo_url @ ''/releases'')) (\<lambda>releases_response.
     and_then (lift (if status_code releases_response = 200
                     then response_json releases_response
                     else Inr (PList []))) (\<lambda>releases.
     and_then (lift (github_extracted_fields repo_name repo_data contributors_count
                       releases)) (\<lambda>fields.
     and_then (now env) (\<lambda>t.
     and_then (emit (Log INFO (ExtractedEntity repo_name))) (\<lambda>_.
     ret (fields @ [(''extracted_at'', PStr (isoformat env t))]))))))))))"

text \<open>The \<open>try\<close> block.\<close>

definition github_get_repo_data_try :: "env \<Rightarrow> string \<Rightarrow> pydict prog" where
  "github_get_repo_data_try env repo_name =
     (let repo_url = github_base_url @ ''/repos/'' @ repo_name in
      and_then (github_primary_request env repo_name repo_url)
        (github_compile env repo_name repo_url))"

definition github_get_repo_data :: "env \<Rightarrow> string \<Rightarrow> pydict option prog" where
  "github_get_repo_data env repo_name =
     fetch_handlers repo_name (github_get_repo_data_try env repo_name)"

subsection \<open>\<open>PyPIExtractor.get_package_info\<close>\<close>

definition pypi_base_url :: string where
  "pypi_base_url = ''https://pypi.org/pypi''"

definition pypi_stats_url :: string where
  "pypi_stats_url = ''https://pypistats.org/api''"

text \<open>\<open>stats_data.get("data", {}).get(k, 0)\<close>\<close>

definition recent_downloads :: "pyval \<Rightarrow> string \<Rightarrow> exn + pyval" where
  "recent_downloads stats_data k =
     bind_exn (py_get stats_data ''data'' (PDict [])) (\<lambda>d. py_get d k (PInt 0))"

text \<open>\<open>latest_files[0].get(k)\<close>\<close>

definition first_file_get :: "pyval \<Rightarrow> string \<Rightarrow> exn + pyval" where
  "first_file_get latest_files k =
     bind_exn (py_subscript latest_files (PInt 0)) (\<lambda>f. py_get f k PNone)"

text \<open>\<open>download_stats\<close>: empty unless the statistics call answered 200.\<close>

definition pypi_download_stats :: "response \<Rightarrow> exn + pydict" where
  "pypi_download_stats stats_response =
     (if status_code stats_response = 200
      then bind_exn (response_json stats_response) (\<lambda>stats_data.
             dict_display
               [(''downloads_last_day'', recent_downloads stats_data ''last_day''),
                (''downloads_last_week'', recent_downloads stats_data ''last_week''),
                (''downloads_last_month'', recent_downloads stats_data ''last_month'')])
      else Inr [])"

text \<open>\<open>latest_release_info\<close>: empty unless the latest version has files.\<close>

definition pypi_latest_release_info :: "pyval \<Rightarrow> pyval \<Rightarrow> exn + pydict" where
  "pypi_latest_release_info latest_version releases =
     (if truthy latest_version
      then bind_exn (py_contains latest_version releases) (\<lambda>present.
             if present
             then bind_exn (py_subscript releases latest_version) (\<lambda>latest_files.
                    if truthy latest_files
                    then dict_display
                      [(''upload_time'', first_file_get latest_files ''upload_time''),
                       (''python_version'', first_file_get latest_files ''python_version''),
                       (''size'', first_file_get latest_files ''size''),
                       (''filename'', first_file_get latest_files ''filename'')]
                    else Inr [])
             else Inr [])
      else Inr [])"

text \<open>The entries of \<open>extracted_data\<close> before \<open>**download_stats\<close>.\<close>

definition pypi_extracted_fields ::
  "string \<Rightarrow> pyval \<Rightarrow> pyval \<Rightarrow> pyval \<Rightarrow> pydict \<Rightarrow> exn + pydict" where
  "pypi_extracted_fields package_name info releases latest_version latest_release_info =
     dict_display
       [(''package_name'', Inr (PStr package_name)),
        (''version'', Inr latest_version),
        (''summary'', py_get info ''summary'' PNone),
        (''description_content_type'', py_get info ''description_content_type'' PNone),
        (''home_page'', py_get info ''home_page'' PNone),
        (''author'', py_get info ''author'' PNone),
        (''author_email'', py_get info ''author_email'' PNone),
        (''maintainer'', py_get info ''maintainer'' PNone),
        (''license'', py_get info ''license'' PNone),
        (''keywords'', py_get info ''keywords'' PNone),
        (''classifiers'', py_get info ''classifiers'' (PList [])),
        (''requires_dist'', py_get info ''requires_dist'' (PList [])),
        (''requires_python'', py_get info ''requires_python'' PNone),
        (''project_urls'', py_get info ''project_urls'' (PDict [])),
        (''release_count'', py_len releases),
        (''latest_release_info'', Inr (PDict latest_release_info))]"

text \<open>The \<open>try\<close> block.\<close>

definition pypi_get_package_info_try :: "env \<Rightarrow> string \<Rightarrow> pydict prog" where
  "pypi_get_package_info_try env package_name =
     and_then (requests_get env (pypi_base_url @ ''/'' @ package_name @ ''/json'')) (\<lambda>response.
     and_then (lift (raise_for_status response)) (\<lambda>_.
     and_then (lift (response_json response)) (\<lambda>package_data.
     and_then (requests_get env
                 (pypi_stats_url @ ''/packages/'' @ package_name @ ''/recent'')) (\<lambda>stats_response.
     and_then (lift (pypi_download_stats stats_response)) (\<lambda>download_stats.
     and_then (lift (py_get package_data ''info'' (PDict []))) (\<lambda>info.
     and_then (lift (py_get package_data ''releases'' (PDict []))) (\<lambda>releases.
     and_then (lift (py_get info ''version'' PNone)) (\<lambda>latest_version.
     and_then (lift (pypi_latest_release_info latest_version releases)) (\<lambda>latest_release_info.
     and_then (lift (pypi_extracted_fields package_name info releases latest_version
                       latest_release_info)) (\<lambda>fields.
     and_then (now env) (\<lambda>t.
     and_then (emit (Log INFO (ExtractedEntity package_name))) (\<lambda>_.
     ret (fields @ download_stats
            @ [(''extracted_at'', PStr (isoformat env t))])))))))))))))"

definition pypi_get_package_info :: "env \<Rightarrow> string \<Rightarrow> pydict option prog" where
  "pypi_get_package_info env package_name =
     fetch_handlers package_name (pypi_get_package_info_try env package_name)"

section \<open>The extraction drivers\<close>

text \<open>
  The loop of \<open>extract_all_repositories\<close> and \<open>extract_all_packages\<close>: log, fetch, append the
  result when it is truthy, sleep one second, go on.
\<close>

fun extract_loop ::
  "(string \<Rightarrow> pydict option prog) \<Rightarrow> string list \<Rightarrow> pydict list \<Rightarrow> pydict list prog" where
  "extract_loop fetch [] extracted_data = ret extracted_data"
| "extract_loop fetch (entity # rest) extracted_data =
     and_then (emit (Log INFO (Extracting entity))) (\<lambda>_.
     and_then (fetch entity) (\<lambda>entity_data.
     and_then (emit (Sleep 1)) (\<lambda>_.
     extract_loop fetch rest
       (case entity_data of
          None \<Rightarrow> extracted_data
        | Some d \<Rightarrow> if truthy (PDict d) then extracted_data @ [d] else extracted_data))))"

definition extract_all ::
  "(string \<Rightarrow> pydict option prog) \<Rightarrow> string list \<Rightarrow> pydict list prog" where
  "extract_all fetch catalog =
     and_then (emit (Log INFO (StartingExtraction (length catalog)))) (\<lambda>_.
     and_then (extract_loop fetch catalog []) (\<lambda>extracted_data.
     and_then (emit (Log INFO (ExtractionCompleted (length extracted_data)))) (\<lambda>_.
     ret extracted_data)))"

definition github_extract_all_repositories :: "env \<Rightarrow> string list \<Rightarrow> pydict list prog" where
  "github_extract_all_repositories env repositories =
     extract_all (github_get_repo_data env) repositories"

definition pypi_extract_all_packages :: "env \<Rightarrow> string list \<Rightarrow> pydict list prog" where
  "pypi_extract_all_packages env packages =
     extract_all (pypi_get_package_info env) packages"

text \<open>The catalogs set in the constructors.\<close>

definition github_repositories :: "string list" where
  "github_repositories =
     [''apache/airflow'', ''dbt-labs/dbt-core'', ''apache/spark'', ''pandas-dev/pandas'',
      ''sqlalchemy/sqlalchemy'', ''great-expectations/great_expectations'',
      ''prefecthq/prefect'', ''apache/kafka'', ''snowflakedb/snowflake-connector-python'',
      ''duckdb/duckdb'']"

definition pypi_packages :: "string list" where
  "pypi_packages =
     [''apache-airflow'', ''dbt-core'', ''pyspark'', ''pandas'', ''sqlalchemy'',
      ''great-expectations'', ''prefect'', ''kafka-python'', ''snowflake-connector-python'',
      ''duckdb'']"

section \<open>The loader\<close>

text \<open>
  \<open>GitHubExtractor.save_to_snowflake\<close> and \<open>PyPIExtractor.save_to_snowflake\<close> are the same
  text up to the names of the tables and of the key field; \<open>source\<close> chooses them.
\<close>

definition key_field :: "source \<Rightarrow> string" where
  "key_field src = (case src of GitHub \<Rightarrow> ''repo_name'' | PyPI \<Rightarrow> ''package_name'')"

text \<open>\<open>repo_data.get('repo_name')\<close> on a record.\<close>

definition entity_key :: "source \<Rightarrow> pydict \<Rightarrow> pyval" where
  "entity_key src d = (case map_of d (key_field src) of Some v \<Rightarrow> v | None \<Rightarrow> PNone)"

text \<open>\<open>except (TypeError, ValueError)\<close>; a \<open>JSONDecodeError\<close> is a \<open>ValueError\<close>.\<close>

fun isinstance_TypeError_ValueError :: "exn \<Rightarrow> bool" where
  "isinstance_TypeError_ValueError TypeError = True"
| "isinstance_TypeError_ValueError (ValueError _) = True"
| "isinstance_TypeError_ValueError JSONDecodeError = True"
| "isinstance_TypeError_ValueError _ = False"

text \<open>
  The validation gate: \<open>json_str = json.dumps(repo_data)\<close>, then \<open>json.loads(json_str)\<close>,
  whose result is thrown away.
\<close>

definition serialize_and_validate :: "pydict \<Rightarrow> exn + json" where
  "serialize_and_validate d =
     bind_exn (json_dumps (PDict d)) (\<lambda>json_str.
     bind_exn (Inr (json_loads json_str)) (\<lambda>_. Inr json_str))"

text \<open>The loop that fills \<open>insert_data\<close>.\<close>

fun prepare_insert_data ::
  "source \<Rightarrow> env \<Rightarrow> pydict list \<Rightarrow> row list \<Rightarrow> row list prog" where
  "prepare_insert_data src env [] insert_data = ret insert_data"
| "prepare_insert_data src env (d # rest) insert_data =
     (if truthy (PDict d)
      then (case serialize_and_validate d of
              Inr json_str \<Rightarrow>
                and_then (now env) (\<lambda>t.
                prepare_insert_data src env rest
                  (insert_data @ [(t, entity_key src d, json_str)]))
            | Inl e \<Rightarrow>
                if isinstance_TypeError_ValueError e
                then and_then (emit (Log ERROR (JsonFailed (entity_key src d) e))) (\<lambda>_.
                     prepare_insert_data src env rest insert_data)
                else raise e)
      else prepare_insert_data src env rest insert_data)"

text \<open>The \<open>try\<close> block from \<open>USE SCHEMA\<close> on, once the connection and the cursor exist.\<close>

definition load_statements :: "source \<Rightarrow> env \<Rightarrow> pydict list \<Rightarrow> unit prog" where
  "load_statements src env data =
     and_then (wh_call env (Execute UseSchema)) (\<lambda>_.
     and_then (wh_call env (Execute (CreateTemp src))) (\<lambda>_.
     and_then (prepare_insert_data src env data []) (\<lambda>insert_data.
     if insert_data = []
     then emit (Log WARNING NoValidData)
     else and_then (wh_call env (ExecuteMany (InsertTemp src) insert_data)) (\<lambda>_.
          and_then (wh_call env (Execute (Promote src))) (\<lambda>_.
          and_then (wh_call env Commit) (\<lambda>_.
          emit (Log INFO (SavedRows (length insert_data)))))))))"

text \<open>
  \<open>except Exception as e\<close>: log, roll back when \<open>conn\<close> is set, raise \<open>e\<close> again. An error
  of the rollback itself takes the place of \<open>e\<close>.
\<close>

definition except_clause :: "env \<Rightarrow> bool \<Rightarrow> unit prog \<Rightarrow> unit prog" where
  "except_clause env conn body = (\<lambda>s.
     case body s of
       (Inr x, s') \<Rightarrow> (Inr x, s')
     | (Inl e, s') \<Rightarrow>
         if isinstance_Exception e
         then and_then (emit (Log ERROR (SaveError e))) (\<lambda>_.
              and_then (if conn then wh_call env Rollback else ret ()) (\<lambda>_.
              raise e)) s'
         else (Inl e, s'))"

text \<open>
  \<open>finally\<close>: close the cursor when the name is bound, then the connection when it is
  set, and let the outcome of the block through. An error of a close call takes its place.
\<close>

definition finally_clause :: "env \<Rightarrow> bool \<Rightarrow> bool \<Rightarrow> unit prog \<Rightarrow> unit prog" where
  "finally_clause env cursor conn body = (\<lambda>s.
     case body s of
       (r, s') \<Rightarrow>
         (case and_then (if cursor then wh_call env CursorClose else ret ()) (\<lambda>_.
                if conn then wh_call env ConnClose else ret ()) s' of
            (Inl e', s'') \<Rightarrow> (Inl e', s'')
          | (Inr _, s'') \<Rightarrow> (r, s'')))"

text \<open>
  \<open>save_to_snowflake\<close>. \<open>conn\<close> is set once \<open>get_snowflake_connection\<close> has returned and
  \<open>cursor\<close> is bound once \<open>conn.cursor()\<close> has. Every \<open>return\<close> of the function is a bare
  one: the value is \<open>None\<close>.
\<close>

definition save_to_snowflake :: "source \<Rightarrow> env \<Rightarrow> pydict list \<Rightarrow> pyval prog" where
  "save_to_snowflake src env data =
     (if data = []
      then and_then (emit (Log WARNING NoDataToSave)) (\<lambda>_. ret PNone)
      else (\<lambda>s.
        case wh_call env Connect s of
          (Inl e, s1) \<Rightarrow>
            and_then (finally_clause env False False (except_clause env False (raise e)))
              (\<lambda>_. ret PNone) s1
        | (Inr _, s1) \<Rightarrow>
            (case wh_call env OpenCursor s1 of
               (Inl e, s2) \<Rightarrow>
                 and_then (finally_clause env False True (except_clause env True (raise e)))
                   (\<lambda>_. ret PNone) s2
             | (Inr _, s2) \<Rightarrow>
                 and_then (finally_clause env True True
                             (except_clause env True (load_statements src env data)))
                   (\<lambda>_. ret PNone) s2)))"

section \<open>The run controllers\<close>

text \<open>The outer \<open>except Exception as e\<close> of both \<open>run\<close> methods: log and raise again.\<close>

definition run_handler :: "unit prog \<Rightarrow> pyval prog" where
  "run_handler body = (\<lambda>s.
     case body s of
       (Inr _, s') \<Rightarrow> (Inr PNone, s')
     | (Inl e, s') \<Rightarrow>
         if isinstance_Exception e
         then and_then (emit (Log ERROR (RunFailed e))) (\<lambda>_. raise e) s'
         else (Inl e, s'))"

text \<open>What \<open>os.getenv\<close> gives: \<open>None\<close> for a variable that is not set.\<close>

definition getenv_value :: "string option \<Rightarrow> pyval" where
  "getenv_value v = (case v of None \<Rightarrow> PNone | Some t \<Rightarrow> PStr t)"

definition token_error :: exn where
  "token_error = ValueError ''GitHub token not provided. Set GITHUB_TOKEN environment variable.''"

definition github_run :: "env \<Rightarrow> string option \<Rightarrow> string list \<Rightarrow> pyval prog" where
  "github_run env github_token repositories =
     run_handler
       (if \<not> truthy (getenv_value github_token)
        then raise token_error
        else and_then (emit (Log INFO StartingRun)) (\<lambda>_.
             and_then (github_extract_all_repositories env repositories) (\<lambda>data.
             if data \<noteq> []
             then and_then (save_to_snowflake GitHub env data) (\<lambda>_.
                  emit (Log INFO RunCompleted))
             else emit (Log WARNING NoDataExtracted))))"

definition pypi_run :: "env \<Rightarrow> string list \<Rightarrow> pyval prog" where
  "pypi_run env packages =
     run_handler
       (and_then (emit (Log INFO StartingRun)) (\<lambda>_.
        and_then (pypi_extract_all_packages env packages) (\<lambda>data.
        if data \<noteq> []
        then and_then (save_to_snowflake PyPI env data) (\<lambda>_.
             emit (Log INFO RunCompleted))
        else emit (Log WARNING NoDataExtracted))))"

section \<open>Vocabulary for the statements\<close>

text \<open>
  The records of a batch that the loop of the loader takes (they are truthy and pass the
  gate) and the ones it drops with a log line (they are truthy and the gate raises).
\<close>

definition accepted :: "pydict list \<Rightarrow> pydict list" where
  "accepted data = filter (\<lambda>d. truthy (PDict d) \<and> \<not> isl (serialize_and_validate d)) data"

definition rejected :: "pydict list \<Rightarrow> pydict list" where
  "rejected data = filter (\<lambda>d. truthy (PDict d) \<and> isl (serialize_and_validate d)) data"

text \<open>
  The rows built from the accepted records when the clock has been read \<open>n\<close> times before:
  the \<open>i\<close>-th of them carries the reading number \<open>n + i\<close>.
\<close>

definition staged_rows :: "source \<Rightarrow> env \<Rightarrow> nat \<Rightarrow> pydict list \<Rightarrow> row list" where
  "staged_rows src env n data =
     map (\<lambda>(i, d). (clock env i, entity_key src d, projr (serialize_and_validate d)))
       (enumerate n (accepted data))"

definition rejection_log :: "source \<Rightarrow> pydict list \<Rightarrow> event list" where
  "rejection_log src data =
     map (\<lambda>d. Log ERROR (JsonFailed (entity_key src d) (projl (serialize_and_validate d))))
       (rejected data)"

text \<open>The events a fetcher produces before its last log line.\<close>

definition fetch_internal :: "event \<Rightarrow> bool" where
  "fetch_internal ev =
     (case ev of HttpGet _ \<Rightarrow> True | Sleep n \<Rightarrow> n = 60 | Log WARNING (RateLimitHit _) \<Rightarrow> True
      | _ \<Rightarrow> False)"

text \<open>From \<open>s\<close> to \<open>s'\<close> the clock was not read and only such events were added.\<close>

definition quiet_step :: "state \<Rightarrow> state \<Rightarrow> bool" where
  "quiet_step s s' \<longleftrightarrow>
     n_clock s' = n_clock s \<and> (\<exists>evs. events s' = events s @ evs \<and> list_all fetch_internal evs)"

text \<open>The URLs of the primary calls and of the statistics call.\<close>

definition github_repo_url :: "string \<Rightarrow> string" where
  "github_repo_url repo_name = github_base_url @ ''/repos/'' @ repo_name"

definition pypi_package_url :: "string \<Rightarrow> string" where
  "pypi_package_url package_name = pypi_base_url @ ''/'' @ package_name @ ''/json''"


text \<open>From \<open>s\<close> to \<open>s'\<close> only events of \<open>A\<close> were added.\<close>

definition adds :: "event set \<Rightarrow> state \<Rightarrow> state \<Rightarrow> bool" where
  "adds A s s' \<longleftrightarrow> (\<exists>evs. events s' = events s @ evs \<and> set evs \<subseteq> A)"

text \<open>The status code of an answer, when there is one.\<close>

definition reply_status :: "reply \<Rightarrow> nat option" where
  "reply_status r = (case r of NetworkFailure _ \<Rightarrow> None | Response status _ \<Rightarrow> Some status)"

text \<open>The keys of the records of the two fetchers, in the order of the dictionary.\<close>

definition github_fields :: "string list" where
  "github_fields =
     [''repo_name'', ''full_name'', ''description'', ''language'', ''stars'', ''forks'',
      ''watchers'', ''open_issues'', ''size'', ''created_at'', ''updated_at'', ''pushed_at'',
      ''default_branch'', ''contributors_count'', ''releases_count'', ''latest_release'',
      ''topics'', ''license'', ''extracted_at'']"

definition pypi_core_fields :: "string list" where
  "pypi_core_fields =
     [''package_name'', ''version'', ''summary'', ''description_content_type'', ''home_page'',
      ''author'', ''author_email'', ''maintainer'', ''license'', ''keywords'', ''classifiers'',
      ''requires_dist'', ''requires_python'', ''project_urls'', ''release_count'',
      ''latest_release_info'']"

definition pypi_download_fields :: "string list" where
  "pypi_download_fields = [''downloads_last_day'', ''downloads_last_week'', ''downloads_last_month'']"

text \<open>
  What the log of a driver shows: the entities whose fetch it announced, the entities whose
  fetch logged a success, and its one-second pauses.
\<close>

definition attempted :: "event list \<Rightarrow> string list" where
  "attempted evs =
     concat (map (\<lambda>ev. case ev of Log INFO (Extracting e) \<Rightarrow> [e] | _ \<Rightarrow> []) evs)"

definition extracted :: "event list \<Rightarrow> string list" where
  "extracted evs =
     concat (map (\<lambda>ev. case ev of Log INFO (ExtractedEntity e) \<Rightarrow> [e] | _ \<Rightarrow> []) evs)"

definition pacing :: "event list \<Rightarrow> event list" where
  "pacing evs = filter (\<lambda>ev. ev = Sleep 1) evs"

text \<open>
  What the drivers need of a fetcher: it never raises; when it returns a record, the
  record is not empty, carries the entity under \<open>key\<close> and the reading of the clock taken by
  this fetch under \<open>extracted_at\<close>, and the last event is the success line; when it returns
  \<open>None\<close> the clock was not read and the last event is an error line.
\<close>

definition well_behaved :: "string \<Rightarrow> env \<Rightarrow> (string \<Rightarrow> pydict option prog) \<Rightarrow> bool" where
  "well_behaved key env fetch \<longleftrightarrow>
     (\<forall>name s. \<exists>r s' evs.
        fetch name s = (Inr r, s') \<and> list_all fetch_internal evs \<and>
        (case r of
           Some d \<Rightarrow>
             d \<noteq> [] \<and> map_of d key = Some (PStr name) \<and>
             map_of d ''extracted_at'' = Some (PStr (isoformat env (clock env (n_clock s)))) \<and>
             n_clock s' = Suc (n_clock s) \<and>
             events s' = events s @ evs @ [Log INFO (ExtractedEntity name)]
         | None \<Rightarrow>
             n_clock s' = n_clock s \<and>
             (\<exists>e. events s' = events s @ evs @ [Log ERROR (FetchError name e)] \<or>
                  events s' = events s @ evs @ [Log ERROR (UnexpectedError name e)])))"

text \<open>
  A call of the fetcher made by a driver: the entity, the state in which the fetcher is
  called, what it returns, and the state in which it returns. \<open>is_call_of\<close> says that this
  is what the fetcher does on this entity in this state.
\<close>

type_synonym fetch_call = "string \<times> state \<times> pydict option \<times> state"

definition is_call_of :: "(string \<Rightarrow> pydict option prog) \<Rightarrow> fetch_call \<Rightarrow> bool" where
  "is_call_of fetch c = (case c of (e, a, r, b) \<Rightarrow> fetch e a = (Inr r, b))"

text \<open>
  The calls follow one another from \<open>s\<close> to \<open>s_end\<close>: each is made in the state left by the
  one before, after the line that announces it, and is followed by a pause of one second;
  nothing else happens in between.
\<close>

fun in_sequence :: "state \<Rightarrow> fetch_call list \<Rightarrow> state \<Rightarrow> bool" where
  "in_sequence s [] s_end = (s_end = s)"
| "in_sequence s ((e, a, r, b) # calls) s_end =
     (a = s\<lparr>events := events s @ [Log INFO (Extracting e)]\<rparr> \<and>
      in_sequence (b\<lparr>events := events b @ [Sleep 1]\<rparr>) calls s_end)"

text \<open>The records that the calls returned, in the order of the calls.\<close>

definition fetched :: "fetch_call list \<Rightarrow> pydict list" where
  "fetched calls = List.map_filter (\<lambda>(e, a, r, b). r) calls"

text \<open>The events that are not calls to the warehouse.\<close>

definition no_warehouse :: "event \<Rightarrow> bool" where
  "no_warehouse ev =
     (case ev of Log _ _ \<Rightarrow> True | HttpGet _ \<Rightarrow> True | Sleep _ \<Rightarrow> True | _ \<Rightarrow> False)"

text \<open>
  The values that JSON has a form for: no tuple and no other object inside, and no key
  twice in a dictionary.
\<close>

fun json_native :: "pyval \<Rightarrow> bool" where
  "json_native (PList xs) = list_all json_native xs"
| "json_native (PDict kvs) =
     (distinct (map fst kvs) \<and> list_all (\<lambda>(k, v). json_native v) kvs)"
| "json_native (PTuple xs) = False"
| "json_native (PObject a) = False"
| "json_native v = True"

text \<open>The document that \<open>json.dumps\<close> writes for such a value.\<close>

fun to_json :: "pyval \<Rightarrow> json" where
  "to_json PNone = JNull"
| "to_json (PBool b) = JBool b"
| "to_json (PInt n) = JNum n"
| "to_json (PStr s) = JStr s"
| "to_json (PList xs) = JArr (map to_json xs)"
| "to_json (PTuple xs) = JArr (map to_json xs)"
| "to_json (PDict kvs) = JObj (map (\<lambda>(k, v). (k, to_json v)) kvs)"
| "to_json (PObject a) = JNull"

section \<open>Concrete environments and inputs\<close>

text \<open>
  A stand-in for \<open>datetime.isoformat\<close> on the first ten microseconds of the epoch; the
  fraction is left out when it is zero.
\<close>

definition example_isoformat :: "int \<Rightarrow> string" where
  "example_isoformat t =
     ''1970-01-01T00:00:00''
     @ (if t = 0 then [] else ''.00000'' @ [''0123456789'' ! nat t])
     @ ''+00:00''"

text \<open>Every HTTP call is answered 404, the clock counts its readings, the warehouse works.\<close>

definition quiet_env :: env where
  "quiet_env =
     \<lparr>http = (\<lambda>n url. Response 404 None), clock = (\<lambda>n. int n),
      isoformat = example_isoformat, warehouse = (\<lambda>ev. None)\<rparr>"

text \<open>The same, with other answers to the HTTP calls.\<close>

definition http_env :: "(nat \<Rightarrow> string \<Rightarrow> reply) \<Rightarrow> env" where
  "http_env answers = quiet_env\<lparr>http := answers\<rparr>"

text \<open>Answers to the HTTP calls: no network, a body that is not JSON, a JSON body that is
  not an object, an empty object to every call, an empty object to the first call and 404
  to the others, 403 to every call, and 403 to the first call, 302 with an empty object to
  the second and 404 to the others.\<close>

definition network_down :: "nat \<Rightarrow> string \<Rightarrow> reply" where
  "network_down = (\<lambda>n url. NetworkFailure ''timed out'')"

definition not_json :: "nat \<Rightarrow> string \<Rightarrow> reply" where
  "not_json = (\<lambda>n url. Response 200 None)"

definition wrong_shape :: "nat \<Rightarrow> string \<Rightarrow> reply" where
  "wrong_shape = (\<lambda>n url. Response 200 (Some (JArr [])))"

definition empty_objects :: "nat \<Rightarrow> string \<Rightarrow> reply" where
  "empty_objects = (\<lambda>n url. Response 200 (Some (JObj [])))"


definition forbidden :: "nat \<Rightarrow> string \<Rightarrow> reply" where
  "forbidden = (\<lambda>n url. Response 403 None)"

definition forbidden_then_redirect :: "nat \<Rightarrow> string \<Rightarrow> reply" where
  "forbidden_then_redirect =
     (\<lambda>n url. if n = 0 then Response 403 None
              else if n = 1 then Response 302 (Some (JObj []))
              else Response 404 None)"

text \<open>
  The answers of a run over two repositories: 403 to the first call, the empty object to
  the three calls that follow, 404 from then on.
\<close>

definition scenario_answers :: "nat \<Rightarrow> string \<Rightarrow> reply" where
  "scenario_answers =
     (\<lambda>n url. if n = 0 then Response 403 None
              else if n < 4 then Response 200 (Some (JObj []))
              else Response 404 None)"

text \<open>Every call is answered with the empty object, and the clock runs backwards.\<close>

definition backwards_clock_env :: env where
  "backwards_clock_env = (http_env empty_objects)\<lparr>clock := (\<lambda>n. 9 - int n)\<rparr>"

text \<open>The same, but the warehouse loses the connection at the commit.\<close>

definition commit_fails_env :: env where
  "commit_fails_env =
     quiet_env\<lparr>warehouse := (\<lambda>ev. if ev = Commit then Some ''connection lost'' else None)\<rparr>"

text \<open>The same, but the promotion statement fails.\<close>

definition promote_fails_env :: env where
  "promote_fails_env =
     quiet_env\<lparr>warehouse := (\<lambda>ev. if ev = Execute (Promote GitHub) then Some ''bad json'' else None)\<rparr>"

text \<open>The commit fails and then the rollback fails too.\<close>

definition rollback_fails_env :: env where
  "rollback_fails_env =
     quiet_env\<lparr>warehouse := (\<lambda>ev. if ev = Commit then Some ''connection lost''
                                  else if ev = Rollback then Some ''rollback failed''
                                  else None)\<rparr>"

text \<open>The commit fails and then \<open>cursor.close\<close> fails.\<close>

definition cursor_close_fails_env :: env where
  "cursor_close_fails_env =
     quiet_env\<lparr>warehouse := (\<lambda>ev. if ev = Commit then Some ''connection lost''
                                  else if ev = CursorClose then Some ''cursor gone''
                                  else None)\<rparr>"

text \<open>A record that serializes, and one that does not: it holds a \<open>datetime\<close>.\<close>

definition example_good :: "string \<Rightarrow> pydict" where
  "example_good name = [(''repo_name'', PStr name), (''stars'', PInt 1)]"

definition example_bad :: "string \<Rightarrow> pydict" where
  "example_bad name = [(''repo_name'', PStr name), (''seen'', PObject ''datetime'')]"

text \<open>A record that serializes but holds a tuple.\<close>

definition example_tuple :: pydict where
  "example_tuple = [(''repo_name'', PStr ''x''), (''tags'', PTuple [PStr ''a''])]"

definition example_batch :: "pydict list" where
  "example_batch = [example_good ''a'', example_bad ''b'', example_good ''c'']"

section \<open>Facts about serialization and the loader's loop\<close>

lemma sequence_exn_Inl: "sequence_exn ms = Inl e \<Longrightarrow> Inl e \<in> set ms"
  by (induction ms arbitrary: e) (auto simp: bind_exn_def split: sum.splits)

lemma json_dumps_TypeError: "json_dumps v = Inl e \<Longrightarrow> e = TypeError"
proof (induction v arbitrary: e rule: json_dumps.induct)
  case (5 xs)
  from "5.prems" have "sequence_exn (map json_dumps xs) = Inl e"
    by (simp add: bind_exn_def split: sum.splits)
  then have "Inl e \<in> set (map json_dumps xs)" by (rule sequence_exn_Inl)
  then obtain x where "x \<in> set xs" "json_dumps x = Inl e" by auto
  then show ?case by (rule "5.IH")
next
  case (6 xs)
  from "6.prems" have "sequence_exn (map json_dumps xs) = Inl e"
    by (simp add: bind_exn_def split: sum.splits)
  then have "Inl e \<in> set (map json_dumps xs)" by (rule sequence_exn_Inl)
  then obtain x where "x \<in> set xs" "json_dumps x = Inl e" by auto
  then show ?case by (rule "6.IH")
next
  case (7 kvs)
  let ?f = "\<lambda>(k, v). bind_exn (json_dumps v) (\<lambda>j. Inr (k, j))"
  from "7.prems" have "sequence_exn (map ?f kvs) = Inl e"
    by (simp add: bind_exn_def split: sum.splits)
  then have "Inl e \<in> set (map ?f kvs)" by (rule sequence_exn_Inl)
  then obtain k v where kv: "(k, v) \<in> set kvs" and "?f (k, v) = Inl e" by auto
  then have "json_dumps v = Inl e" by (simp add: bind_exn_def split: sum.splits)
  with kv "7.IH" show ?case by blast
qed simp_all

lemma serialize_and_validate_error:
  "serialize_and_validate d = Inl e \<Longrightarrow> e = TypeError"
proof -
  assume "serialize_and_validate d = Inl e"
  then have "json_dumps (PDict d) = Inl e"
    unfolding serialize_and_validate_def bind_exn_def by (cases "json_dumps (PDict d)") simp_all
  then show "e = TypeError" by (rule json_dumps_TypeError)
qed

lemma prepare_insert_data_eq:
  "prepare_insert_data src env data acc s =
     (Inr (acc @ staged_rows src env (n_clock s) data),
      s\<lparr>n_clock := n_clock s + length (accepted data),
        events := events s @ rejection_log src data\<rparr>)"
proof (induction data arbitrary: acc s)
  case Nil
  then show ?case
    by (simp add: ret_def staged_rows_def accepted_def rejection_log_def rejected_def)
next
  case (Cons d data)
  show ?case
  proof (cases "truthy (PDict d)")
    case False
    then show ?thesis using Cons[of acc s]
      by (simp add: staged_rows_def accepted_def rejection_log_def rejected_def)
  next
    case True
    show ?thesis
    proof (cases "serialize_and_validate d")
      case (Inl e)
      then show ?thesis using True serialize_and_validate_error[OF Inl]
        apply (simp add: and_then_def emit_def Cons)
        apply (simp add: staged_rows_def accepted_def rejection_log_def rejected_def)
        done
    next
      case (Inr js)
      then show ?thesis using True
        apply (simp add: and_then_def now_def Cons)
        apply (simp add: staged_rows_def accepted_def rejection_log_def rejected_def)
        done
    qed
  qed
qed

lemma length_staged_rows: "length (staged_rows src env n data) = length (accepted data)"
  by (simp add: staged_rows_def)

lemma staged_rows_empty: "staged_rows src env n data = [] \<longleftrightarrow> accepted data = []"
  by (cases "accepted data") (simp_all add: staged_rows_def)

lemma accepted_nonempty_data: "accepted data \<noteq> [] \<Longrightarrow> data \<noteq> []"
  by (auto simp: accepted_def)

lemma Commit_notin_rejection_log: "Commit \<notin> set (rejection_log src data)"
  by (auto simp: rejection_log_def)

lemma load_statements_no_commit:
  "warehouse env (Execute (Promote src)) \<noteq> None \<Longrightarrow> Commit \<notin> set (events s) \<Longrightarrow>
   Commit \<notin> set (events (snd (load_statements src env data s)))"
  by (auto simp: load_statements_def wh_call_def and_then_def emit_def prepare_insert_data_eq
        Commit_notin_rejection_log Let_def split: option.splits)

lemma except_clause_no_commit:
  "Commit \<notin> set (events (snd (body s))) \<Longrightarrow>
   Commit \<notin> set (events (snd (except_clause env conn body s)))"
  by (auto simp: except_clause_def wh_call_def and_then_def emit_def ret_def raise_def Let_def
      split: option.splits sum.splits prod.splits)

lemma finally_clause_no_commit:
  "Commit \<notin> set (events (snd (body s))) \<Longrightarrow>
   Commit \<notin> set (events (snd (finally_clause env cursor conn body s)))"
  by (auto simp: finally_clause_def wh_call_def and_then_def emit_def ret_def raise_def Let_def
      split: option.splits sum.splits prod.splits)

lemma and_then_ret_events: "events (snd (and_then m (\<lambda>_. ret x) s)) = events (snd (m s))"
  by (auto simp: and_then_def ret_def split: prod.splits sum.splits)

lemma save_to_snowflake_no_commit:
  assumes "warehouse env (Execute (Promote src)) \<noteq> None" "Commit \<notin> set (events s)"
  shows "Commit \<notin> set (events (snd (save_to_snowflake src env data s)))"
proof (cases "data = []")
  case True
  then show ?thesis using assms by (simp add: save_to_snowflake_def and_then_def emit_def ret_def)
next
  case False
  obtain r1 s1 where c1: "wh_call env Connect s = (r1, s1)" by (cases "wh_call env Connect s")
  then have e1: "Commit \<notin> set (events s1)" using assms(2)
    by (auto simp: wh_call_def Let_def split: option.splits)
  obtain r2 s2 where c2: "wh_call env OpenCursor s1 = (r2, s2)"
    by (cases "wh_call env OpenCursor s1")
  then have e2: "Commit \<notin> set (events s2)" using e1
    by (auto simp: wh_call_def Let_def split: option.splits)
  have raise_ok: "\<And>e t. Commit \<notin> set (events t) \<Longrightarrow> Commit \<notin> set (events (snd (raise e t)))"
    by (simp add: raise_def)
  show ?thesis
  proof (cases r1)
    case (Inl e)
    then show ?thesis using False c1 e1
      by (simp add: save_to_snowflake_def and_then_ret_events finally_clause_no_commit
            except_clause_no_commit raise_ok)
  next
    case (Inr u)
    note r1 = this
    show ?thesis
    proof (cases r2)
      case (Inl e)
      then show ?thesis using False c1 c2 r1 e2
        by (simp add: save_to_snowflake_def and_then_ret_events finally_clause_no_commit
              except_clause_no_commit raise_ok)
    next
      case (Inr u')
      then show ?thesis using False c1 c2 r1 e2 assms(1)
        by (simp add: save_to_snowflake_def and_then_ret_events finally_clause_no_commit
              except_clause_no_commit load_statements_no_commit)
    qed
  qed
qed

lemma save_to_snowflake_fails:
  assumes prep: "warehouse env Connect = None" "warehouse env OpenCursor = None"
      "warehouse env (Execute UseSchema) = None" "warehouse env (Execute (CreateTemp src)) = None"
    and acc: "accepted data \<noteq> []"
    and calls: "(warehouse env (ExecuteMany (InsertTemp src) (staged_rows src env (n_clock s) data)) = Some msg \<and>
               calls = [ExecuteMany (InsertTemp src) (staged_rows src env (n_clock s) data)])
            \<or> (warehouse env (ExecuteMany (InsertTemp src) (staged_rows src env (n_clock s) data)) = None \<and>
               warehouse env (Execute (Promote src)) = Some msg \<and>
               calls = [ExecuteMany (InsertTemp src) (staged_rows src env (n_clock s) data), Execute (Promote src)])
            \<or> (warehouse env (ExecuteMany (InsertTemp src) (staged_rows src env (n_clock s) data)) = None \<and>
               warehouse env (Execute (Promote src)) = None \<and> warehouse env Commit = Some msg \<and>
               calls = [ExecuteMany (InsertTemp src) (staged_rows src env (n_clock s) data), Execute (Promote src), Commit])"
  shows "save_to_snowflake src env data s =
     (Inl (SnowflakeError
            (case warehouse env CursorClose of
               Some m \<Rightarrow> m
             | None \<Rightarrow>
                 (case warehouse env ConnClose of
                    Some m \<Rightarrow> m
                  | None \<Rightarrow> (case warehouse env Rollback of Some m \<Rightarrow> m | None \<Rightarrow> msg)))),
      s\<lparr>n_clock := n_clock s + length (accepted data),
        events := events s @ [Connect, OpenCursor, Execute UseSchema, Execute (CreateTemp src)]
          @ rejection_log src data @ calls
          @ [Log ERROR (SaveError (SnowflakeError msg)), Rollback, CursorClose]
          @ (if warehouse env CursorClose = None then [ConnClose] else [])\<rparr>)"
proof -
  have ne: "data \<noteq> []" using acc by (rule accepted_nonempty_data)
  from calls show ?thesis
    using prep acc ne
    by (elim disjE conjE)
       (simp_all add: save_to_snowflake_def finally_clause_def except_clause_def load_statements_def
        wh_call_def and_then_def emit_def ret_def raise_def prepare_insert_data_eq
        staged_rows_empty split: option.splits)
qed

lemma save_to_snowflake_succeeds:
  assumes ok: "\<forall>ev. warehouse env ev = None" and ne: "data \<noteq> []"
  shows "save_to_snowflake src env data s =
     (Inr PNone,
      s\<lparr>n_clock := n_clock s + length (accepted data),
        events := events s
           @ [Connect, OpenCursor, Execute UseSchema, Execute (CreateTemp src)]
           @ rejection_log src data
           @ (if accepted data = [] then [Log WARNING NoValidData]
              else [ExecuteMany (InsertTemp src) (staged_rows src env (n_clock s) data),
                    Execute (Promote src), Commit,
                    Log INFO (SavedRows (length (accepted data)))])
           @ [CursorClose, ConnClose]\<rparr>)"
  using ok ne
  by (simp add: save_to_snowflake_def finally_clause_def except_clause_def load_statements_def
        wh_call_def and_then_def emit_def ret_def raise_def prepare_insert_data_eq
        staged_rows_empty length_staged_rows)

lemma serialize_example_good:
  "serialize_and_validate (example_good name) = Inr (JObj [(''repo_name'', JStr name), (''stars'', JNum 1)])"
  by (simp add: serialize_and_validate_def example_good_def bind_exn_def)

lemma serialize_example_bad: "serialize_and_validate (example_bad name) = Inl TypeError"
  by (simp add: serialize_and_validate_def example_bad_def bind_exn_def)

lemma serialize_empty: "serialize_and_validate [] = Inr (JObj [])"
  by (simp add: serialize_and_validate_def bind_exn_def)

lemma truthy_examples: "example_good name \<noteq> []" "example_bad name \<noteq> []"
  by (simp_all add: example_good_def example_bad_def)

lemma entity_key_examples:
  "entity_key GitHub (example_good name) = PStr name" "entity_key GitHub (example_bad name) = PStr name"
  by (simp_all add: entity_key_def key_field_def example_good_def example_bad_def)

lemmas example_simps = serialize_example_good serialize_example_bad serialize_empty
  truthy_examples entity_key_examples accepted_def rejected_def staged_rows_def rejection_log_def

lemma accepted_rejected_length:
  assumes "\<forall>d \<in> set data. truthy (PDict d)"
  shows "length (accepted data) + length (filter (\<lambda>d. isl (serialize_and_validate d)) data) = length data"
    and "length (rejected data) = length (filter (\<lambda>d. isl (serialize_and_validate d)) data)"
proof -
  have a: "accepted data = filter (\<lambda>d. \<not> isl (serialize_and_validate d)) data"
    unfolding accepted_def using assms by (intro filter_cong) auto
  have r: "rejected data = filter (\<lambda>d. isl (serialize_and_validate d)) data"
    unfolding rejected_def using assms by (intro filter_cong) auto
  show "length (accepted data) + length (filter (\<lambda>d. isl (serialize_and_validate d)) data) = length data"
    unfolding a using sum_length_filter_compl[of "\<lambda>d. isl (serialize_and_validate d)" data] by simp
  show "length (rejected data) = length (filter (\<lambda>d. isl (serialize_and_validate d)) data)"
    unfolding r ..
qed

section \<open>Facts about the fetchers\<close>

lemma dict_display_keys: "dict_display items = Inr d \<Longrightarrow> map fst d = map fst items"
  by (induction items arbitrary: d) (auto simp: bind_exn_def split: sum.splits)

lemma dict_display_first:
  "dict_display ((k, Inr v) # rest) = Inr d \<Longrightarrow> map_of d k = Some v"
  by (auto simp: bind_exn_def split: sum.splits)

lemma and_then_Inr:
  "and_then m f s = (Inr y, s') \<longleftrightarrow> (\<exists>x s1. m s = (Inr x, s1) \<and> f x s1 = (Inr y, s'))"
  by (auto simp: and_then_def split: prod.splits sum.splits)

lemma and_then_Inl:
  "and_then m f s = (Inl e, s') \<longleftrightarrow>
     m s = (Inl e, s') \<or> (\<exists>x s1. m s = (Inr x, s1) \<and> f x s1 = (Inl e, s'))"
  by (auto simp: and_then_def split: prod.splits sum.splits)

lemma requests_get_eq:
  "requests_get env url s = (r, s') \<longleftrightarrow>
     s' = s\<lparr>n_http := Suc (n_http s), events := events s @ [HttpGet url]\<rparr> \<and>
     r = (case http env (n_http s) url of
            NetworkFailure msg \<Rightarrow> Inl (ConnectionError msg)
          | Response status body \<Rightarrow> Inr (status, body))"
  by (auto simp: requests_get_def Let_def split: reply.splits)

lemma lift_eq: "lift m s = (r, s') \<longleftrightarrow> r = m \<and> s' = s"
  by (auto simp: lift_def)

lemma ret_eq: "ret x s = (r, s') \<longleftrightarrow> r = Inr x \<and> s' = s"
  by (auto simp: ret_def)

lemma emit_eq: "emit ev s = (r, s') \<longleftrightarrow> r = Inr () \<and> s' = s\<lparr>events := events s @ [ev]\<rparr>"
  by (auto simp: emit_def)

lemma now_eq:
  "now env s = (r, s') \<longleftrightarrow> r = Inr (clock env (n_clock s)) \<and> s' = s\<lparr>n_clock := Suc (n_clock s)\<rparr>"
  by (auto simp: now_def)

lemmas prog_eqs = and_then_Inr and_then_Inl requests_get_eq lift_eq ret_eq emit_eq now_eq

lemma quiet_step_refl: "quiet_step s s"
  by (simp add: quiet_step_def)

lemma quiet_step_trans: "quiet_step s s1 \<Longrightarrow> quiet_step s1 s2 \<Longrightarrow> quiet_step s s2"
  by (auto simp: quiet_step_def)

lemma quiet_requests_get: "requests_get env url s = (r, s') \<Longrightarrow> quiet_step s s'"
  by (auto simp: requests_get_eq quiet_step_def fetch_internal_def)

lemma quiet_github_primary_request:
  "github_primary_request env name url s = (r, s') \<Longrightarrow> quiet_step s s'"
  unfolding github_primary_request_def
  by (cases r) (auto simp: prog_eqs quiet_step_def fetch_internal_def split: if_splits)


lemma github_extracted_fields_keys:
  "github_extracted_fields name rd cc rel = Inr fs \<Longrightarrow>
   map fst fs = butlast github_fields \<and> map_of fs ''repo_name'' = Some (PStr name)"
  unfolding github_extracted_fields_def
  by (auto simp: github_fields_def simp del: dict_display.simps
      dest: dict_display_keys dict_display_first)

lemma github_try_success:
  assumes "github_get_repo_data_try env repo s = (Inr d, s')"
  shows "map fst d = github_fields \<and> map_of d ''repo_name'' = Some (PStr repo)
     \<and> map_of d ''extracted_at'' = Some (PStr (isoformat env (clock env (n_clock s))))
     \<and> n_clock s' = Suc (n_clock s)
     \<and> (\<exists>evs. events s' = events s @ evs @ [Log INFO (ExtractedEntity repo)]
            \<and> list_all fetch_internal evs)"
proof -
  let ?url = "github_base_url @ ''/repos/'' @ repo"
  from assms obtain response s1 rd cres s2 cc rres s3 rel fs where
    p: "github_primary_request env repo ?url s = (Inr response, s1)"
    and c: "requests_get env (?url @ ''/contributors'') s1 = (Inr cres, s2)"
    and r: "requests_get env (?url @ ''/releases'') s2 = (Inr rres, s3)"
    and f: "github_extracted_fields repo rd cc rel = Inr fs"
    and d: "d = fs @ [(''extracted_at'', PStr (isoformat env (clock env (n_clock s3))))]"
    and s': "s' = s3\<lparr>n_clock := Suc (n_clock s3), events := events s3 @ [Log INFO (ExtractedEntity repo)]\<rparr>"
    unfolding github_get_repo_data_try_def github_compile_def Let_def
    by (auto simp: and_then_Inr lift_eq ret_eq emit_eq now_eq)
  have q: "quiet_step s s3"
    using quiet_github_primary_request[OF p] quiet_requests_get[OF c] quiet_requests_get[OF r]
    by (blast intro: quiet_step_trans)
  from github_extracted_fields_keys[OF f]
  have k: "map fst fs = butlast github_fields" "map_of fs ''repo_name'' = Some (PStr repo)"
    by simp_all
  have k1: "map fst d = github_fields" using k(1) by (simp add: d github_fields_def)
  have "''extracted_at'' \<notin> set (map fst fs)" unfolding k(1) by (simp add: github_fields_def)
  then have "map_of fs ''extracted_at'' = None" by (simp add: map_of_eq_None_iff)
  then have k3: "map_of d ''extracted_at'' = Some (PStr (isoformat env (clock env (n_clock s3))))"
    by (simp add: d map_add_def)
  have k2: "map_of d ''repo_name'' = Some (PStr repo)" using k(2) by (simp add: d map_add_def)
  from q show ?thesis using k1 k2 k3 by (auto simp: quiet_step_def s')
qed

lemma github_try_failure:
  assumes "github_get_repo_data_try env repo s = (Inl e, s')"
  shows "quiet_step s s'"
proof -
  let ?url = "github_base_url @ ''/repos/'' @ repo"
  from assms consider
    (a) "github_primary_request env repo ?url s = (Inl e, s')"
  | (b) response where "github_primary_request env repo ?url s = (Inr response, s')"
  | (c) response s1 r where "github_primary_request env repo ?url s = (Inr response, s1)"
       "requests_get env (?url @ ''/contributors'') s1 = (r, s')"
  | (d) response s1 cres s2 r where "github_primary_request env repo ?url s = (Inr response, s1)"
       "requests_get env (?url @ ''/contributors'') s1 = (Inr cres, s2)"
       "requests_get env (?url @ ''/releases'') s2 = (r, s')"
    unfolding github_get_repo_data_try_def github_compile_def Let_def
    by (simp add: and_then_Inl and_then_Inr lift_eq ret_eq emit_eq now_eq) blast
  then show ?thesis
  proof cases
    case a then show ?thesis by (rule quiet_github_primary_request)
  next
    case b then show ?thesis by (rule quiet_github_primary_request)
  next
    case c then show ?thesis
      by (blast intro: quiet_step_trans quiet_github_primary_request quiet_requests_get)
  next
    case d then show ?thesis
      by (blast intro: quiet_step_trans quiet_github_primary_request quiet_requests_get)
  qed
qed

lemma pypi_download_stats_keys:
  "pypi_download_stats resp = Inr ds \<Longrightarrow>
   map fst ds = (if status_code resp = 200 then pypi_download_fields else [])"
  unfolding pypi_download_stats_def
  by (auto simp: pypi_download_fields_def bind_exn_def simp del: dict_display.simps
      split: if_splits sum.splits dest: dict_display_keys)

lemma pypi_extracted_fields_keys:
  "pypi_extracted_fields name info rel lv lri = Inr fs \<Longrightarrow>
   map fst fs = pypi_core_fields \<and> map_of fs ''package_name'' = Some (PStr name)"
  unfolding pypi_extracted_fields_def
  by (auto simp: pypi_core_fields_def simp del: dict_display.simps
      dest: dict_display_keys dict_display_first)

lemma requests_get_Inr:
  "requests_get env url s = (Inr resp, s') \<Longrightarrow>
   reply_status (http env (n_http s) url) = Some (status_code resp) \<and> n_http s' = Suc (n_http s)"
  by (auto simp: requests_get_eq reply_status_def status_code_def split: reply.splits)

lemma pypi_try_success:
  assumes "pypi_get_package_info_try env name s = (Inr d, s')"
  shows "map fst d = pypi_core_fields
            @ (if reply_status (http env (Suc (n_http s))
                     (pypi_stats_url @ ''/packages/'' @ name @ ''/recent'')) = Some 200
               then pypi_download_fields else [])
            @ [''extracted_at'']
     \<and> map_of d ''package_name'' = Some (PStr name)
     \<and> map_of d ''extracted_at'' = Some (PStr (isoformat env (clock env (n_clock s))))
     \<and> n_clock s' = Suc (n_clock s)
     \<and> (\<exists>evs. events s' = events s @ evs @ [Log INFO (ExtractedEntity name)]
            \<and> list_all fetch_internal evs)"
proof -
  let ?url = "pypi_base_url @ ''/'' @ name @ ''/json''"
  let ?surl = "pypi_stats_url @ ''/packages/'' @ name @ ''/recent''"
  from assms obtain response s1 sres s2 ds info rel lv lri fs where
    p: "requests_get env ?url s = (Inr response, s1)"
    and c: "requests_get env ?surl s1 = (Inr sres, s2)"
    and dsk': "Inr ds = pypi_download_stats sres"
    and f': "Inr fs = pypi_extracted_fields name info rel lv lri"
    and d: "d = fs @ ds @ [(''extracted_at'', PStr (isoformat env (clock env (n_clock s2))))]"
    and s': "s' = s2\<lparr>n_clock := Suc (n_clock s2), events := events s2 @ [Log INFO (ExtractedEntity name)]\<rparr>"
    unfolding pypi_get_package_info_try_def
    by (auto simp: and_then_Inr lift_eq ret_eq emit_eq now_eq)
  note dsk = dsk'[symmetric] and f = f'[symmetric]
  have q: "quiet_step s s2"
    using quiet_requests_get[OF p] quiet_requests_get[OF c] by (blast intro: quiet_step_trans)
  have n1: "n_http s1 = Suc (n_http s)" using requests_get_Inr[OF p] by simp
  have st: "reply_status (http env (Suc (n_http s)) ?surl) = Some (status_code sres)"
    using requests_get_Inr[OF c] n1 by simp
  from pypi_extracted_fields_keys[OF f]
  have k: "map fst fs = pypi_core_fields" "map_of fs ''package_name'' = Some (PStr name)"
    by simp_all
  have dk: "map fst ds = (if status_code sres = 200 then pypi_download_fields else [])"
    by (rule pypi_download_stats_keys[OF dsk])
  have k1: "map fst d = pypi_core_fields
            @ (if reply_status (http env (Suc (n_http s)) ?surl) = Some 200
               then pypi_download_fields else [])
            @ [''extracted_at'']"
    using k(1) dk st by (simp add: d)
  have "''extracted_at'' \<notin> set (map fst fs)" unfolding k(1) by (simp add: pypi_core_fields_def)
  then have e1: "map_of fs ''extracted_at'' = None" by (simp add: map_of_eq_None_iff)
  have "''extracted_at'' \<notin> set (map fst ds)" unfolding dk by (simp add: pypi_download_fields_def)
  then have e2: "map_of ds ''extracted_at'' = None" by (simp add: map_of_eq_None_iff)
  have k3: "map_of d ''extracted_at'' = Some (PStr (isoformat env (clock env (n_clock s2))))"
    using e1 e2 by (simp add: d map_add_def)
  have k2: "map_of d ''package_name'' = Some (PStr name)" using k(2) by (simp add: d map_add_def)
  from q show ?thesis using k1 k2 k3 by (auto simp: quiet_step_def s')
qed

lemma pypi_try_failure:
  assumes "pypi_get_package_info_try env name s = (Inl e, s')"
  shows "quiet_step s s'"
proof -
  let ?url = "pypi_base_url @ ''/'' @ name @ ''/json''"
  let ?surl = "pypi_stats_url @ ''/packages/'' @ name @ ''/recent''"
  from assms consider
    (a) r where "requests_get env ?url s = (r, s')"
  | (b) response s1 r where "requests_get env ?url s = (Inr response, s1)"
       "requests_get env ?surl s1 = (r, s')"
    unfolding pypi_get_package_info_try_def
    by (simp add: and_then_Inl and_then_Inr lift_eq ret_eq emit_eq now_eq) blast
  then show ?thesis
  proof cases
    case a then show ?thesis by (rule quiet_requests_get)
  next
    case b then show ?thesis by (blast intro: quiet_step_trans quiet_requests_get)
  qed
qed

lemma fetch_handlers_Inr:
  "body s = (Inr d, s1) \<Longrightarrow> fetch_handlers name body s = (Inr (Some d), s1)"
  by (simp add: fetch_handlers_def)

lemma fetch_handlers_Inl:
  "body s = (Inl e, s1) \<Longrightarrow>
   fetch_handlers name body s =
     (Inr None,
      s1\<lparr>events := events s1 @
         [Log ERROR (if isinstance_RequestException e then FetchError name e
                     else UnexpectedError name e)]\<rparr>)"
  by (simp add: fetch_handlers_def and_then_def emit_def ret_def)

lemma fetch_handlers_never_raises: "\<exists>r s'. fetch_handlers name body s = (Inr r, s')"
proof (cases "body s")
  case (Pair r s1)
  then show ?thesis
    by (cases r) (auto simp: fetch_handlers_Inr fetch_handlers_Inl)
qed


lemma github_primary_403:
  assumes "http env (n_http s) url = Response 403 b"
  shows "github_primary_request env repo url s =
     (case http env (Suc (n_http s)) url of
        NetworkFailure m \<Rightarrow> Inl (ConnectionError m)
      | Response st b' \<Rightarrow> Inr (st, b'),
      s\<lparr>n_http := Suc (Suc (n_http s)),
        events := events s @ [HttpGet url, Log WARNING (RateLimitHit repo), Sleep 60, HttpGet url]\<rparr>)"
  using assms
  by (simp add: github_primary_request_def and_then_def requests_get_def emit_def status_code_def
      split: reply.splits)

lemma adds_refl: "adds A s s"
  by (simp add: adds_def)

lemma adds_trans: "adds A s s1 \<Longrightarrow> adds A s1 s2 \<Longrightarrow> adds A s s2"
  by (auto simp: adds_def)

lemma adds_requests_get: "requests_get env url s = (r, s') \<Longrightarrow> HttpGet url \<in> A \<Longrightarrow> adds A s s'"
  by (auto simp: requests_get_eq adds_def)

lemma adds_emit: "ev \<in> A \<Longrightarrow> adds A s (s\<lparr>n_clock := n, events := events s @ [ev]\<rparr>)"
  by (auto simp: adds_def)

lemma github_compile_http_error:
  "400 \<le> status_code resp \<Longrightarrow> status_code resp < 600 \<Longrightarrow>
   github_compile env repo url resp s = (Inl (HTTPError (status_code resp)), s)"
  by (simp add: github_compile_def and_then_def lift_def raise_for_status_def)

lemma github_compile_adds:
  assumes "github_compile env repo url resp s = (r, s')"
  shows "adds {HttpGet (url @ ''/contributors''), HttpGet (url @ ''/releases''),
               Log INFO (ExtractedEntity repo)} s s'"
    (is "adds ?A s s'")
proof (cases r)
  case (Inr d)
  with assms obtain cres s2 rres s3 where
    c: "requests_get env (url @ ''/contributors'') s = (Inr cres, s2)"
    and r: "requests_get env (url @ ''/releases'') s2 = (Inr rres, s3)"
    and s': "s' = s3\<lparr>n_clock := Suc (n_clock s3), events := events s3 @ [Log INFO (ExtractedEntity repo)]\<rparr>"
    unfolding github_compile_def
    by (auto simp: and_then_Inr lift_eq ret_eq emit_eq now_eq)
  have "adds ?A s s2" by (rule adds_requests_get[OF c]) simp
  moreover have "adds ?A s2 s3" by (rule adds_requests_get[OF r]) simp
  moreover have "adds ?A s3 s'" unfolding s' by (rule adds_emit) simp
  ultimately show ?thesis by (blast intro: adds_trans)
next
  case (Inl e)
  with assms consider
    (a) "s' = s"
  | (c) r where "requests_get env (url @ ''/contributors'') s = (r, s')"
  | (d) cres s2 r where "requests_get env (url @ ''/contributors'') s = (Inr cres, s2)"
       "requests_get env (url @ ''/releases'') s2 = (r, s')"
    unfolding github_compile_def
    by (simp add: and_then_Inl and_then_Inr lift_eq ret_eq emit_eq now_eq) blast
  then show ?thesis
  proof cases
    case a then show ?thesis by (simp add: adds_refl)
  next
    case c then show ?thesis by (rule adds_requests_get) simp
  next
    case d
    have "adds ?A s s2" by (rule adds_requests_get[OF d(1)]) simp
    moreover have "adds ?A s2 s'" by (rule adds_requests_get[OF d(2)]) simp
    ultimately show ?thesis by (rule adds_trans)
  qed
qed

lemmas fetch_eval =
  github_get_repo_data_def github_get_repo_data_try_def github_primary_request_def
  github_compile_def github_extracted_fields_def
  pypi_get_package_info_def pypi_get_package_info_try_def pypi_download_stats_def
  pypi_latest_release_info_def pypi_extracted_fields_def recent_downloads_def first_file_get_def
  fetch_handlers_def and_then_def requests_get_def lift_def ret_def emit_def now_def
  raise_for_status_def response_json_def status_code_def bind_exn_def Let_def
  http_env_def quiet_env_def state0_def github_base_url_def pypi_base_url_def pypi_stats_url_def
  dict_of_items_def

lemma example_github_network_down:
  "github_get_repo_data (http_env network_down) ''a/b'' state0 =
     (Inr None,
      \<lparr>n_http = 1, n_clock = 0,
       events = [HttpGet ''https://api.github.com/repos/a/b'',
                 Log ERROR (FetchError ''a/b'' (ConnectionError ''timed out''))]\<rparr>)"
  by (simp add: fetch_eval network_down_def)

lemma example_pypi_not_json:
  "pypi_get_package_info (http_env not_json) ''pandas'' state0 =
     (Inr None,
      \<lparr>n_http = 1, n_clock = 0,
       events = [HttpGet ''https://pypi.org/pypi/pandas/json'',
                 Log ERROR (FetchError ''pandas'' JSONDecodeError)]\<rparr>)"
  by (simp add: fetch_eval not_json_def)

lemma example_github_wrong_shape:
  "github_get_repo_data (http_env wrong_shape) ''a/b'' state0 =
     (Inr None,
      \<lparr>n_http = 3, n_clock = 0,
       events = [HttpGet ''https://api.github.com/repos/a/b'',
                 HttpGet ''https://api.github.com/repos/a/b/contributors'',
                 HttpGet ''https://api.github.com/repos/a/b/releases'',
                 Log ERROR (UnexpectedError ''a/b'' AttributeError)]\<rparr>)"
  by (simp add: fetch_eval wrong_shape_def)




lemma example_pypi_forbidden:
  "pypi_get_package_info (http_env forbidden) ''pandas'' state0 =
     (Inr None,
      \<lparr>n_http = 1, n_clock = 0,
       events = [HttpGet ''https://pypi.org/pypi/pandas/json'',
                 Log ERROR (FetchError ''pandas'' (HTTPError 403))]\<rparr>)"
  by (simp add: fetch_eval forbidden_def)

lemma example_github_forbidden:
  "github_get_repo_data (http_env forbidden) ''a/b'' state0 =
     (Inr None,
      \<lparr>n_http = 2, n_clock = 0,
       events = [HttpGet ''https://api.github.com/repos/a/b'',
                 Log WARNING (RateLimitHit ''a/b''), Sleep 60,
                 HttpGet ''https://api.github.com/repos/a/b'',
                 Log ERROR (FetchError ''a/b'' (HTTPError 403))]\<rparr>)"
  by (simp add: fetch_eval forbidden_def)

lemma example_github_forbidden_then_redirect:
  "github_get_repo_data (http_env forbidden_then_redirect) ''a/b'' state0 =
     (Inr (Some
        [(''repo_name'', PStr ''a/b''), (''full_name'', PNone), (''description'', PNone),
         (''language'', PNone), (''stars'', PInt 0), (''forks'', PInt 0), (''watchers'', PInt 0),
         (''open_issues'', PInt 0), (''size'', PInt 0), (''created_at'', PNone),
         (''updated_at'', PNone), (''pushed_at'', PNone), (''default_branch'', PNone),
         (''contributors_count'', PInt 0), (''releases_count'', PInt 0),
         (''latest_release'', PNone), (''topics'', PList []), (''license'', PNone),
         (''extracted_at'', PStr (example_isoformat 0))]),
      \<lparr>n_http = 4, n_clock = 1,
       events = [HttpGet ''https://api.github.com/repos/a/b'',
                 Log WARNING (RateLimitHit ''a/b''), Sleep 60,
                 HttpGet ''https://api.github.com/repos/a/b'',
                 HttpGet ''https://api.github.com/repos/a/b/contributors'',
                 HttpGet ''https://api.github.com/repos/a/b/releases'',
                 Log INFO (ExtractedEntity ''a/b'')]\<rparr>)"
  by (simp add: fetch_eval forbidden_then_redirect_def)



lemma github_try_403:
  assumes "http env (n_http s) (github_repo_url repo) = Response 403 b"
  shows "github_get_repo_data_try env repo s =
     (case http env (Suc (n_http s)) (github_repo_url repo) of
        NetworkFailure m \<Rightarrow>
          (Inl (ConnectionError m),
           s\<lparr>n_http := Suc (Suc (n_http s)),
             events := events s @ [HttpGet (github_repo_url repo),
               Log WARNING (RateLimitHit repo), Sleep 60, HttpGet (github_repo_url repo)]\<rparr>)
      | Response st b' \<Rightarrow>
          github_compile env repo (github_repo_url repo) (st, b')
            (s\<lparr>n_http := Suc (Suc (n_http s)),
               events := events s @ [HttpGet (github_repo_url repo),
                 Log WARNING (RateLimitHit repo), Sleep 60, HttpGet (github_repo_url repo)]\<rparr>))"
  using github_primary_403[OF assms, of repo]
  by (simp add: github_get_repo_data_try_def github_repo_url_def and_then_def Let_def
      split: reply.splits)

lemma fetch_handlers_events:
  "\<exists>tail. events (snd (fetch_handlers name body s)) = events (snd (body s)) @ tail
      \<and> (\<forall>ev \<in> set tail. \<exists>e. ev = Log ERROR (FetchError name e) \<or> ev = Log ERROR (UnexpectedError name e))"
proof (cases "body s")
  case (Pair r s1)
  then show ?thesis
    by (cases r) (auto simp: fetch_handlers_Inr fetch_handlers_Inl)
qed

lemma github_403_events:
  assumes "http env (n_http s) (github_repo_url repo) = Response 403 b"
  shows "\<exists>rest. events (snd (github_get_repo_data env repo s)) =
        events s @ [HttpGet (github_repo_url repo), Log WARNING (RateLimitHit repo), Sleep 60,
                    HttpGet (github_repo_url repo)] @ rest
        \<and> Sleep 60 \<notin> set rest \<and> HttpGet (github_repo_url repo) \<notin> set rest"
proof -
  let ?four = "[HttpGet (github_repo_url repo), Log WARNING (RateLimitHit repo), Sleep 60,
                HttpGet (github_repo_url repo)]"
  let ?s1 = "s\<lparr>n_http := Suc (Suc (n_http s)), events := events s @ ?four\<rparr>"
  have "\<exists>mid. events (snd (github_get_repo_data_try env repo s)) = events s @ ?four @ mid
      \<and> set mid \<subseteq> {HttpGet (github_repo_url repo @ ''/contributors''),
                     HttpGet (github_repo_url repo @ ''/releases''),
                     Log INFO (ExtractedEntity repo)}"
  proof (cases "http env (Suc (n_http s)) (github_repo_url repo)")
    case (NetworkFailure m)
    then show ?thesis using github_try_403[OF assms] by simp
  next
    case (Response st b')
    obtain r s2 where c: "github_compile env repo (github_repo_url repo) (st, b') ?s1 = (r, s2)"
      by (cases "github_compile env repo (github_repo_url repo) (st, b') ?s1")
    from github_compile_adds[OF c] obtain mid where
      "events s2 = events ?s1 @ mid"
      "set mid \<subseteq> {HttpGet (github_repo_url repo @ ''/contributors''),
                    HttpGet (github_repo_url repo @ ''/releases''),
                    Log INFO (ExtractedEntity repo)}"
      by (auto simp: adds_def)
    then show ?thesis using github_try_403[OF assms] Response c by simp
  qed
  then obtain mid where
    m1: "events (snd (github_get_repo_data_try env repo s)) = events s @ ?four @ mid"
    and m2: "set mid \<subseteq> {HttpGet (github_repo_url repo @ ''/contributors''),
                     HttpGet (github_repo_url repo @ ''/releases''),
                     Log INFO (ExtractedEntity repo)}"
    by blast
  from fetch_handlers_events[of repo "github_get_repo_data_try env repo" s]
  obtain tail where
    t1: "events (snd (github_get_repo_data env repo s)) =
           events (snd (github_get_repo_data_try env repo s)) @ tail"
    and t2: "\<forall>ev \<in> set tail. \<exists>e. ev = Log ERROR (FetchError repo e) \<or> ev = Log ERROR (UnexpectedError repo e)"
    unfolding github_get_repo_data_def by blast
  have "Sleep 60 \<notin> set (mid @ tail)" using m2 t2 by auto
  moreover have "HttpGet (github_repo_url repo) \<notin> set (mid @ tail)" using m2 t2 by auto
  moreover have "events (snd (github_get_repo_data env repo s)) = events s @ ?four @ (mid @ tail)"
    using t1 m1 by simp
  ultimately show ?thesis by blast
qed

lemma github_403_then_error:
  assumes "http env (n_http s) (github_repo_url repo) = Response 403 b"
    and "http env (Suc (n_http s)) (github_repo_url repo) = Response st b'"
    and "400 \<le> st" "st < 600"
  shows "github_get_repo_data env repo s =
     (Inr None,
      s\<lparr>n_http := Suc (Suc (n_http s)),
        events := events s @ [HttpGet (github_repo_url repo), Log WARNING (RateLimitHit repo),
          Sleep 60, HttpGet (github_repo_url repo),
          Log ERROR (FetchError repo (HTTPError st))]\<rparr>)"
proof -
  have "github_get_repo_data_try env repo s =
     (Inl (HTTPError st),
      s\<lparr>n_http := Suc (Suc (n_http s)),
        events := events s @ [HttpGet (github_repo_url repo), Log WARNING (RateLimitHit repo),
          Sleep 60, HttpGet (github_repo_url repo)]\<rparr>)"
    using github_try_403[OF assms(1)] assms(2-4)
    by (simp add: github_compile_http_error status_code_def)
  then show ?thesis
    unfolding github_get_repo_data_def by (simp add: fetch_handlers_Inl)
qed

lemma github_403_then_network_failure:
  assumes "http env (n_http s) (github_repo_url repo) = Response 403 b"
    and "http env (Suc (n_http s)) (github_repo_url repo) = NetworkFailure m"
  shows "github_get_repo_data env repo s =
     (Inr None,
      s\<lparr>n_http := Suc (Suc (n_http s)),
        events := events s @ [HttpGet (github_repo_url repo), Log WARNING (RateLimitHit repo),
          Sleep 60, HttpGet (github_repo_url repo),
          Log ERROR (FetchError repo (ConnectionError m))]\<rparr>)"
proof -
  have "github_get_repo_data_try env repo s =
     (Inl (ConnectionError m),
      s\<lparr>n_http := Suc (Suc (n_http s)),
        events := events s @ [HttpGet (github_repo_url repo), Log WARNING (RateLimitHit repo),
          Sleep 60, HttpGet (github_repo_url repo)]\<rparr>)"
    using github_try_403[OF assms(1)] assms(2) by simp
  then show ?thesis
    unfolding github_get_repo_data_def by (simp add: fetch_handlers_Inl)
qed

lemma pypi_http_error:
  assumes "http env (n_http s) (pypi_package_url name) = Response st b" "400 \<le> st" "st < 600"
  shows "pypi_get_package_info env name s =
     (Inr None,
      s\<lparr>n_http := Suc (n_http s),
        events := events s @ [HttpGet (pypi_package_url name),
          Log ERROR (FetchError name (HTTPError st))]\<rparr>)"
proof -
  have "pypi_get_package_info_try env name s =
     (Inl (HTTPError st),
      s\<lparr>n_http := Suc (n_http s), events := events s @ [HttpGet (pypi_package_url name)]\<rparr>)"
    using assms
    by (simp add: pypi_get_package_info_try_def pypi_package_url_def and_then_def
        requests_get_def lift_def raise_for_status_def status_code_def)
  then show ?thesis
    unfolding pypi_get_package_info_def by (simp add: fetch_handlers_Inl)
qed

section \<open>Facts about the drivers\<close>

lemma fetch_handlers_well_behaved:
  assumes ok: "\<And>name s d s'. body name s = (Inr d, s') \<Longrightarrow>
      d \<noteq> [] \<and> map_of d key = Some (PStr name)
      \<and> map_of d ''extracted_at'' = Some (PStr (isoformat env (clock env (n_clock s))))
      \<and> n_clock s' = Suc (n_clock s)
      \<and> (\<exists>evs. events s' = events s @ evs @ [Log INFO (ExtractedEntity name)]
            \<and> list_all fetch_internal evs)"
    and bad: "\<And>name s e s'. body name s = (Inl e, s') \<Longrightarrow> quiet_step s s'"
  shows "well_behaved key env (\<lambda>name. fetch_handlers name (body name))"
  unfolding well_behaved_def
proof (intro allI)
  fix name s
  obtain r s1 where b: "body name s = (r, s1)" by (cases "body name s")
  show "\<exists>r s' evs. fetch_handlers name (body name) s = (Inr r, s') \<and> list_all fetch_internal evs \<and>
        (case r of
           Some d \<Rightarrow>
             d \<noteq> [] \<and> map_of d key = Some (PStr name) \<and>
             map_of d ''extracted_at'' = Some (PStr (isoformat env (clock env (n_clock s)))) \<and>
             n_clock s' = Suc (n_clock s) \<and>
             events s' = events s @ evs @ [Log INFO (ExtractedEntity name)]
         | None \<Rightarrow>
             n_clock s' = n_clock s \<and>
             (\<exists>e. events s' = events s @ evs @ [Log ERROR (FetchError name e)] \<or>
                  events s' = events s @ evs @ [Log ERROR (UnexpectedError name e)]))"
  proof (cases r)
    case (Inr d)
    with b have "body name s = (Inr d, s1)" by simp
    from ok[OF this] fetch_handlers_Inr[of "body name" s d s1 name, OF this] show ?thesis by auto
  next
    case (Inl e)
    with b have be: "body name s = (Inl e, s1)" by simp
    from bad[OF this] obtain evs where
      "n_clock s1 = n_clock s" "events s1 = events s @ evs" "list_all fetch_internal evs"
      by (auto simp: quiet_step_def)
    with fetch_handlers_Inl[of "body name" s e s1 name, OF be] show ?thesis
      by (cases "isinstance_RequestException e") auto
  qed
qed

lemma github_well_behaved: "well_behaved ''repo_name'' env (github_get_repo_data env)"
proof -
  have "well_behaved ''repo_name'' env
          (\<lambda>name. fetch_handlers name (github_get_repo_data_try env name))"
  proof (rule fetch_handlers_well_behaved)
    fix name s d s'
    assume a: "github_get_repo_data_try env name s = (Inr d, s')"
    from github_try_success[OF a] have "map fst d = github_fields" by simp
    then have "d \<noteq> []" by (auto simp: github_fields_def)
    with github_try_success[OF a]
    show "d \<noteq> [] \<and> map_of d ''repo_name'' = Some (PStr name)
      \<and> map_of d ''extracted_at'' = Some (PStr (isoformat env (clock env (n_clock s))))
      \<and> n_clock s' = Suc (n_clock s)
      \<and> (\<exists>evs. events s' = events s @ evs @ [Log INFO (ExtractedEntity name)]
            \<and> list_all fetch_internal evs)"
      by simp
  qed (rule github_try_failure)
  then show ?thesis by (simp add: github_get_repo_data_def[abs_def])
qed

lemma pypi_well_behaved: "well_behaved ''package_name'' env (pypi_get_package_info env)"
proof -
  have "well_behaved ''package_name'' env
          (\<lambda>name. fetch_handlers name (pypi_get_package_info_try env name))"
  proof (rule fetch_handlers_well_behaved)
    fix name s d s'
    assume a: "pypi_get_package_info_try env name s = (Inr d, s')"
    from pypi_try_success[OF a] have "map fst d \<noteq> []" by (simp add: pypi_core_fields_def)
    then have "d \<noteq> []" by auto
    with pypi_try_success[OF a]
    show "d \<noteq> [] \<and> map_of d ''package_name'' = Some (PStr name)
      \<and> map_of d ''extracted_at'' = Some (PStr (isoformat env (clock env (n_clock s))))
      \<and> n_clock s' = Suc (n_clock s)
      \<and> (\<exists>evs. events s' = events s @ evs @ [Log INFO (ExtractedEntity name)]
            \<and> list_all fetch_internal evs)"
      by simp
  qed (rule pypi_try_failure)
  then show ?thesis by (simp add: pypi_get_package_info_def[abs_def])
qed

lemma attempted_append: "attempted (xs @ ys) = attempted xs @ attempted ys"
  by (simp add: attempted_def)

lemma extracted_append: "extracted (xs @ ys) = extracted xs @ extracted ys"
  by (simp add: extracted_def)

lemma pacing_append: "pacing (xs @ ys) = pacing xs @ pacing ys"
  by (simp add: pacing_def)

lemma internal_silent:
  "list_all fetch_internal evs \<Longrightarrow> attempted evs = [] \<and> extracted evs = [] \<and> pacing evs = []"
  by (induction evs)
     (auto simp: attempted_def extracted_def pacing_def fetch_internal_def
           split: event.splits level.splits logmsg.splits)

lemma internal_no_warehouse: "list_all fetch_internal evs \<Longrightarrow> list_all no_warehouse evs"
  by (induction evs) (auto simp: fetch_internal_def no_warehouse_def split: event.splits)

lemma projections_Cons:
  "attempted (Log INFO (Extracting e) # evs) = e # attempted evs"
  "extracted (Log INFO (Extracting e) # evs) = extracted evs"
  "pacing (Log INFO (Extracting e) # evs) = pacing evs"
  "attempted (Log INFO (ExtractedEntity e) # evs) = attempted evs"
  "extracted (Log INFO (ExtractedEntity e) # evs) = e # extracted evs"
  "pacing (Log INFO (ExtractedEntity e) # evs) = pacing evs"
  "attempted (Log ERROR m # evs) = attempted evs"
  "extracted (Log ERROR m # evs) = extracted evs"
  "pacing (Log ERROR m # evs) = pacing evs"
  "attempted (Sleep 1 # evs) = attempted evs"
  "extracted (Sleep 1 # evs) = extracted evs"
  "pacing (Sleep 1 # evs) = Sleep 1 # pacing evs"
  "attempted [] = []" "extracted [] = []" "pacing [] = []"
  "no_warehouse (Log l m)" "no_warehouse (Sleep n)"
  by (simp_all add: attempted_def extracted_def pacing_def no_warehouse_def)

lemma extract_loop_spec:
  assumes wb: "well_behaved key env fetch"
  shows "\<exists>batch s' evs.
     extract_loop fetch catalog acc s = (Inr (acc @ batch), s')
     \<and> events s' = events s @ evs
     \<and> attempted evs = catalog
     \<and> map (\<lambda>d. map_of d key) batch = map (\<lambda>e. Some (PStr e)) (extracted evs)
     \<and> subseq (extracted evs) catalog
     \<and> length (pacing evs) = length catalog
     \<and> list_all no_warehouse evs
     \<and> [] \<notin> set batch
     \<and> n_clock s \<le> n_clock s'
     \<and> (\<forall>d \<in> set batch. \<exists>i. n_clock s \<le> i \<and> i < n_clock s' \<and>
           map_of d ''extracted_at'' = Some (PStr (isoformat env (clock env i))))"
proof (induction catalog arbitrary: acc s)
  case Nil
  show ?case
    by (rule exI[of _ "[]"], rule exI[of _ s], rule exI[of _ "[]"])
       (simp add: ret_def attempted_def extracted_def pacing_def)
next
  case (Cons e rest)
  let ?s0 = "s\<lparr>events := events s @ [Log INFO (Extracting e)]\<rparr>"
  from wb[unfolded well_behaved_def, rule_format, of e ?s0]
  obtain r s1 evs1 where
    f: "fetch e ?s0 = (Inr r, s1)" and int: "list_all fetch_internal evs1"
    and c: "case r of
           Some d \<Rightarrow>
             d \<noteq> [] \<and> map_of d key = Some (PStr e) \<and>
             map_of d ''extracted_at'' = Some (PStr (isoformat env (clock env (n_clock ?s0)))) \<and>
             n_clock s1 = Suc (n_clock ?s0) \<and>
             events s1 = events ?s0 @ evs1 @ [Log INFO (ExtractedEntity e)]
         | None \<Rightarrow>
             n_clock s1 = n_clock ?s0 \<and>
             (\<exists>x. events s1 = events ?s0 @ evs1 @ [Log ERROR (FetchError e x)] \<or>
                  events s1 = events ?s0 @ evs1 @ [Log ERROR (UnexpectedError e x)])"
    by blast
  let ?s2 = "s1\<lparr>events := events s1 @ [Sleep 1]\<rparr>"
  let ?acc = "case r of None \<Rightarrow> acc | Some d \<Rightarrow> if truthy (PDict d) then acc @ [d] else acc"
  have step: "extract_loop fetch (e # rest) acc s = extract_loop fetch rest ?acc ?s2"
    using f by (simp add: and_then_def emit_def)
  from Cons.IH[of ?acc ?s2] obtain batch s' evs where
    ih: "extract_loop fetch rest ?acc ?s2 = (Inr (?acc @ batch), s')"
      "events s' = events ?s2 @ evs" "attempted evs = rest"
      "map (\<lambda>d. map_of d key) batch = map (\<lambda>e. Some (PStr e)) (extracted evs)"
      "subseq (extracted evs) rest" "length (pacing evs) = length rest"
      "list_all no_warehouse evs" "[] \<notin> set batch" "n_clock ?s2 \<le> n_clock s'"
      "\<forall>d \<in> set batch. \<exists>i. n_clock ?s2 \<le> i \<and> i < n_clock s' \<and>
           map_of d ''extracted_at'' = Some (PStr (isoformat env (clock env i)))"
    by blast
  note sil = internal_silent[OF int] internal_no_warehouse[OF int]
  show ?case
  proof (cases r)
    case None
    with c obtain x where n: "n_clock s1 = n_clock s"
      and ev: "events s1 = events s @ [Log INFO (Extracting e)] @ evs1 @ [Log ERROR (FetchError e x)]
             \<or> events s1 = events s @ [Log INFO (Extracting e)] @ evs1 @ [Log ERROR (UnexpectedError e x)]"
      by auto
    have "\<exists>m. events s1 = events s @ [Log INFO (Extracting e)] @ evs1 @ [Log ERROR m]"
      using ev by auto
    then obtain m where ev': "events s1 = events s @ [Log INFO (Extracting e)] @ evs1 @ [Log ERROR m]"
      by blast
    show ?thesis
      apply (rule exI[of _ batch], rule exI[of _ s'],
             rule exI[of _ "[Log INFO (Extracting e)] @ evs1 @ [Log ERROR m] @ [Sleep 1] @ evs"])
      using ih sil None n ev' step
      by (simp add: attempted_append extracted_append pacing_append projections_Cons
            list_emb_Cons subseq_Cons2 del: One_nat_def)
  next
    case (Some d)
    with c have d: "d \<noteq> []" "map_of d key = Some (PStr e)"
      "map_of d ''extracted_at'' = Some (PStr (isoformat env (clock env (n_clock s))))"
      "n_clock s1 = Suc (n_clock s)"
      "events s1 = events s @ [Log INFO (Extracting e)] @ evs1 @ [Log INFO (ExtractedEntity e)]"
      by auto
    have clk: "\<forall>d' \<in> set (d # batch). \<exists>i. n_clock s \<le> i \<and> i < n_clock s' \<and>
           map_of d' ''extracted_at'' = Some (PStr (isoformat env (clock env i)))"
    proof
      fix d' assume "d' \<in> set (d # batch)"
      then consider "d' = d" | "d' \<in> set batch" by auto
      then show "\<exists>i. n_clock s \<le> i \<and> i < n_clock s' \<and>
           map_of d' ''extracted_at'' = Some (PStr (isoformat env (clock env i)))"
      proof cases
        case 1
        then show ?thesis using d(3,4) ih(9) by (intro exI[of _ "n_clock s"]) simp
      next
        case 2
        with ih(10) obtain i where "n_clock ?s2 \<le> i" "i < n_clock s'"
          "map_of d' ''extracted_at'' = Some (PStr (isoformat env (clock env i)))" by blast
        then show ?thesis using d(4) by (intro exI[of _ i]) simp
      qed
    qed
    show ?thesis
      apply (rule exI[of _ "d # batch"], rule exI[of _ s'],
             rule exI[of _ "[Log INFO (Extracting e)] @ evs1 @ [Log INFO (ExtractedEntity e)] @ [Sleep 1] @ evs"])
      using ih(1-9) sil Some d clk step
      by (simp add: attempted_append extracted_append pacing_append projections_Cons
            list_emb_Cons subseq_Cons2 del: One_nat_def)
  qed
qed

lemma extract_all_spec:
  assumes wb: "well_behaved key env fetch"
  shows "\<exists>batch s' evs.
     extract_all fetch catalog s = (Inr batch, s')
     \<and> events s' = events s @ [Log INFO (StartingExtraction (length catalog))] @ evs
          @ [Log INFO (ExtractionCompleted (length batch))]
     \<and> attempted evs = catalog
     \<and> map (\<lambda>d. map_of d key) batch = map (\<lambda>e. Some (PStr e)) (extracted evs)
     \<and> subseq (extracted evs) catalog
     \<and> length (pacing evs) = length catalog
     \<and> list_all no_warehouse evs
     \<and> [] \<notin> set batch
     \<and> n_clock s \<le> n_clock s'
     \<and> (\<forall>d \<in> set batch. \<exists>i. n_clock s \<le> i \<and> i < n_clock s' \<and>
           map_of d ''extracted_at'' = Some (PStr (isoformat env (clock env i))))"
proof -
  let ?s0 = "s\<lparr>events := events s @ [Log INFO (StartingExtraction (length catalog))]\<rparr>"
  from extract_loop_spec[OF wb, of catalog "[]" ?s0] obtain batch s1 evs where
    l: "extract_loop fetch catalog [] ?s0 = (Inr batch, s1)"
      "events s1 = events ?s0 @ evs" "attempted evs = catalog"
      "map (\<lambda>d. map_of d key) batch = map (\<lambda>e. Some (PStr e)) (extracted evs)"
      "subseq (extracted evs) catalog" "length (pacing evs) = length catalog"
      "list_all no_warehouse evs" "[] \<notin> set batch" "n_clock ?s0 \<le> n_clock s1"
      "\<forall>d \<in> set batch. \<exists>i. n_clock ?s0 \<le> i \<and> i < n_clock s1 \<and>
           map_of d ''extracted_at'' = Some (PStr (isoformat env (clock env i)))"
    by auto
  show ?thesis
    apply (rule exI[of _ batch],
           rule exI[of _ "s1\<lparr>events := events s1 @ [Log INFO (ExtractionCompleted (length batch))]\<rparr>"],
           rule exI[of _ evs])
    using l by (simp add: extract_all_def and_then_def emit_def ret_def)
qed

lemma keys_as_entity_keys:
  "map (\<lambda>d. map_of d (key_field src)) batch = map (\<lambda>e. Some (PStr e)) names \<Longrightarrow>
   map (entity_key src) batch = map PStr names"
proof (induction batch arbitrary: names)
  case Nil then show ?case by simp
next
  case (Cons d batch)
  then show ?case by (cases names) (auto simp: entity_key_def)
qed

lemma example_scenario:
  "github_extract_all_repositories (http_env scenario_answers) [''orgA/repoX'', ''orgB/repoY'']
     state0 =
     (Inr [[(''repo_name'', PStr ''orgA/repoX''), (''full_name'', PNone), (''description'', PNone),
            (''language'', PNone), (''stars'', PInt 0), (''forks'', PInt 0),
            (''watchers'', PInt 0), (''open_issues'', PInt 0), (''size'', PInt 0),
            (''created_at'', PNone), (''updated_at'', PNone), (''pushed_at'', PNone),
            (''default_branch'', PNone), (''contributors_count'', PInt 0),
            (''releases_count'', PInt 0), (''latest_release'', PNone), (''topics'', PList []),
            (''license'', PNone), (''extracted_at'', PStr (example_isoformat 0))]],
      \<lparr>n_http = 5, n_clock = 1,
       events =
         [Log INFO (StartingExtraction 2),
          Log INFO (Extracting ''orgA/repoX''),
          HttpGet ''https://api.github.com/repos/orgA/repoX'',
          Log WARNING (RateLimitHit ''orgA/repoX''), Sleep 60,
          HttpGet ''https://api.github.com/repos/orgA/repoX'',
          HttpGet ''https://api.github.com/repos/orgA/repoX/contributors'',
          HttpGet ''https://api.github.com/repos/orgA/repoX/releases'',
          Log INFO (ExtractedEntity ''orgA/repoX''), Sleep 1,
          Log INFO (Extracting ''orgB/repoY''),
          HttpGet ''https://api.github.com/repos/orgB/repoY'',
          Log ERROR (FetchError ''orgB/repoY'' (HTTPError 404)), Sleep 1,
          Log INFO (ExtractionCompleted 1)]\<rparr>)"
  by (simp add: github_extract_all_repositories_def extract_all_def fetch_eval
      scenario_answers_def)

lemma load_statements_raises:
  "load_statements src env data s = (Inl e, s') \<Longrightarrow> \<exists>m. e = SnowflakeError m"
  by (auto simp: load_statements_def wh_call_def and_then_def emit_def prepare_insert_data_eq
        Let_def split: option.splits if_splits)

lemma except_clause_raises:
  assumes "\<And>e s1. body s = (Inl e, s1) \<Longrightarrow> \<exists>m. e = SnowflakeError m"
    and "except_clause env conn body s = (Inl e, s')"
  shows "\<exists>m. e = SnowflakeError m"
proof (cases "body s")
  case (Pair r s1)
  show ?thesis
  proof (cases r)
    case (Inr x)
    with Pair assms(2) show ?thesis by (simp add: except_clause_def)
  next
    case (Inl e0)
    with Pair assms(1) obtain m0 where "e0 = SnowflakeError m0" by blast
    with Pair Inl assms(2) show ?thesis
      by (auto simp: except_clause_def wh_call_def and_then_def emit_def ret_def raise_def Let_def
          split: option.splits if_splits)
  qed
qed

lemma finally_clause_raises:
  assumes "\<And>e s1. body s = (Inl e, s1) \<Longrightarrow> \<exists>m. e = SnowflakeError m"
    and "finally_clause env cursor conn body s = (Inl e, s')"
  shows "\<exists>m. e = SnowflakeError m"
proof (cases "body s")
  case (Pair r s1)
  with assms show ?thesis
    by (cases r)
       (auto simp: finally_clause_def wh_call_def and_then_def ret_def Let_def
          split: option.splits if_splits)
qed

lemma and_then_ret_Inl:
  "and_then m (\<lambda>_. ret x) s = (Inl e, s') \<longleftrightarrow> m s = (Inl e, s')"
  by (auto simp: and_then_def ret_def split: prod.splits sum.splits)

lemma save_to_snowflake_raises:
  assumes "save_to_snowflake src env data s = (Inl e, s')"
  shows "\<exists>m. e = SnowflakeError m"
proof (cases "data = []")
  case True
  with assms show ?thesis by (simp add: save_to_snowflake_def and_then_def emit_def ret_def)
next
  case False
  obtain r1 s1 where c1: "wh_call env Connect s = (r1, s1)" by (cases "wh_call env Connect s")
  obtain r2 s2 where c2: "wh_call env OpenCursor s1 = (r2, s2)"
    by (cases "wh_call env OpenCursor s1")
  have w: "\<And>ev t e t'. wh_call env ev t = (Inl e, t') \<Longrightarrow> \<exists>m. e = SnowflakeError m"
    by (auto simp: wh_call_def Let_def split: option.splits)
  show ?thesis
  proof (cases r1)
    case (Inl e1)
    with w c1 obtain m1 where m1: "e1 = SnowflakeError m1" by blast
    have "finally_clause env False False (except_clause env False (raise e1)) s1 = (Inl e, s')"
      using assms False c1 Inl by (simp add: save_to_snowflake_def and_then_ret_Inl)
    then show ?thesis
      by (rule finally_clause_raises[rotated], elim except_clause_raises[rotated])
         (auto simp: raise_def m1)
  next
    case (Inr u)
    note r1 = this
    show ?thesis
    proof (cases r2)
      case (Inl e2)
      with w c2 obtain m2 where m2: "e2 = SnowflakeError m2" by blast
      have "finally_clause env False True (except_clause env True (raise e2)) s2 = (Inl e, s')"
        using assms False c1 c2 r1 Inl by (simp add: save_to_snowflake_def and_then_ret_Inl)
      then show ?thesis
        by (rule finally_clause_raises[rotated], elim except_clause_raises[rotated])
           (auto simp: raise_def m2)
    next
      case (Inr u')
      have "finally_clause env True True
              (except_clause env True (load_statements src env data)) s2 = (Inl e, s')"
        using assms False c1 c2 r1 Inr by (simp add: save_to_snowflake_def and_then_ret_Inl)
      then show ?thesis
        by (rule finally_clause_raises[rotated], elim except_clause_raises[rotated])
           (rule load_statements_raises)
    qed
  qed
qed

lemma run_handler_Inl:
  "run_handler body s = (Inl e, s') \<longleftrightarrow>
     (\<exists>s1. body s = (Inl e, s1) \<and> s' = s1\<lparr>events := events s1 @ [Log ERROR (RunFailed e)]\<rparr>)"
proof (cases "body s")
  case (Pair r s1)
  then show ?thesis
    by (cases r) (auto simp: run_handler_def and_then_def emit_def raise_def)
qed

lemma run_body_raises:
  assumes wb: "well_behaved key env fetch"
    and "and_then (emit (Log INFO StartingRun)) (\<lambda>_.
         and_then (extract_all fetch catalog) (\<lambda>data.
         if data \<noteq> []
         then and_then (save_to_snowflake src env data) (\<lambda>_. emit (Log INFO RunCompleted))
         else emit (Log WARNING NoDataExtracted))) s = (Inl e, s')"
  shows "\<exists>m. e = SnowflakeError m"
proof -
  let ?s0 = "s\<lparr>events := events s @ [Log INFO StartingRun]\<rparr>"
  from extract_all_spec[OF wb, of catalog ?s0] obtain batch s1 where
    x: "extract_all fetch catalog ?s0 = (Inr batch, s1)" by blast
  from assms(2) x have "\<exists>t. save_to_snowflake src env batch s1 = (Inl e, t)"
    by (auto simp: and_then_def emit_def split: if_splits prod.splits sum.splits)
  then show ?thesis using save_to_snowflake_raises by blast
qed

lemma well_behaved_call:
  assumes wb: "well_behaved key env fetch"
  obtains r s' where "fetch name s = (Inr r, s')" "r \<noteq> Some []"
proof -
  from wb[unfolded well_behaved_def, rule_format, of name s] obtain r s' evs where
    f: "fetch name s = (Inr r, s')" and
    c: "case r of
           Some d \<Rightarrow>
             d \<noteq> [] \<and> map_of d key = Some (PStr name) \<and>
             map_of d ''extracted_at'' = Some (PStr (isoformat env (clock env (n_clock s)))) \<and>
             n_clock s' = Suc (n_clock s) \<and>
             events s' = events s @ evs @ [Log INFO (ExtractedEntity name)]
         | None \<Rightarrow>
             n_clock s' = n_clock s \<and>
             (\<exists>e. events s' = events s @ evs @ [Log ERROR (FetchError name e)] \<or>
                  events s' = events s @ evs @ [Log ERROR (UnexpectedError name e)])"
    by (elim exE conjE)
  from c have "r \<noteq> Some []" by (cases r) simp_all
  with f show thesis by (rule that)
qed

lemma fetched_Cons:
  "fetched ((e, a, r, b) # calls) = (case r of None \<Rightarrow> fetched calls | Some d \<Rightarrow> d # fetched calls)"
  by (simp add: fetched_def List.map_filter_simps split: option.splits)

lemma fetched_Nil: "fetched [] = []"
  by (simp add: fetched_def List.map_filter_simps)

lemma extract_loop_calls:
  assumes wb: "well_behaved key env fetch"
  shows "\<exists>calls s'.
     extract_loop fetch catalog acc s = (Inr (acc @ fetched calls), s')
     \<and> map fst calls = catalog
     \<and> list_all (is_call_of fetch) calls
     \<and> in_sequence s calls s'"
proof (induction catalog arbitrary: acc s)
  case Nil
  have "extract_loop fetch [] acc s = (Inr (acc @ fetched []), s)
     \<and> map fst ([] :: fetch_call list) = []
     \<and> list_all (is_call_of fetch) []
     \<and> in_sequence s [] s"
    by (simp add: ret_def fetched_Nil)
  then show ?case by blast
next
  case (Cons e es)
  define a where "a = s\<lparr>events := events s @ [Log INFO (Extracting e)]\<rparr>"
  from wb obtain r b where f: "fetch e a = (Inr r, b)" and r: "r \<noteq> Some []"
    by (rule well_behaved_call)
  define acc' where "acc' = (case r of None \<Rightarrow> acc | Some d \<Rightarrow> acc @ [d])"
  define c where "c = b\<lparr>events := events b @ [Sleep 1]\<rparr>"
  from Cons.IH[of acc' c] obtain calls s' where
    ih: "extract_loop fetch es acc' c = (Inr (acc' @ fetched calls), s')"
        "map fst calls = es" "list_all (is_call_of fetch) calls" "in_sequence c calls s'"
    by blast
  have step: "extract_loop fetch (e # es) acc s = extract_loop fetch es acc' c"
    using f r by (cases r) (simp_all add: and_then_def emit_def a_def c_def acc'_def)
  have res: "acc' @ fetched calls = acc @ fetched ((e, a, r, b) # calls)"
    by (cases r) (simp_all add: acc'_def fetched_Cons)
  have 1: "extract_loop fetch (e # es) acc s = (Inr (acc @ fetched ((e, a, r, b) # calls)), s')"
    unfolding step res[symmetric] by (rule ih(1))
  have 2: "map fst ((e, a, r, b) # calls) = e # es"
    using ih(2) by simp
  have 3: "list_all (is_call_of fetch) ((e, a, r, b) # calls)"
    using ih(3) f by (simp add: is_call_of_def)
  have 4: "in_sequence s ((e, a, r, b) # calls) s'"
    using ih(4) by (simp add: a_def c_def)
  show ?case
    by (rule exI[of _ "(e, a, r, b) # calls"], rule exI[of _ s']) (intro conjI 1 2 3 4)
qed

lemma extract_all_calls:
  assumes wb: "well_behaved key env fetch"
  shows "\<exists>calls s1.
     extract_all fetch catalog s =
       (Inr (fetched calls),
        s1\<lparr>events := events s1 @ [Log INFO (ExtractionCompleted (length (fetched calls)))]\<rparr>)
     \<and> map fst calls = catalog
     \<and> list_all (is_call_of fetch) calls
     \<and> in_sequence (s\<lparr>events := events s @ [Log INFO (StartingExtraction (length catalog))]\<rparr>)
          calls s1"
proof -
  from extract_loop_calls[OF wb, of catalog "[]"
      "s\<lparr>events := events s @ [Log INFO (StartingExtraction (length catalog))]\<rparr>"]
  obtain calls s1 where
    l: "extract_loop fetch catalog []
          (s\<lparr>events := events s @ [Log INFO (StartingExtraction (length catalog))]\<rparr>) =
        (Inr (fetched calls), s1)"
       "map fst calls = catalog" "list_all (is_call_of fetch) calls"
       "in_sequence (s\<lparr>events := events s @ [Log INFO (StartingExtraction (length catalog))]\<rparr>)
          calls s1"
    by auto
  have "extract_all fetch catalog s =
       (Inr (fetched calls),
        s1\<lparr>events := events s1 @ [Log INFO (ExtractionCompleted (length (fetched calls)))]\<rparr>)"
    using l(1) by (simp add: extract_all_def and_then_def emit_def ret_def)
  with l(2-4) show ?thesis by blast
qed

section \<open>Facts about the round trip through JSON\<close>

lemma sequence_exn_map_Inr:
  "(\<And>x. x \<in> set xs \<Longrightarrow> f x = Inr (g x)) \<Longrightarrow> sequence_exn (map f xs) = Inr (map g xs)"
  by (induction xs) (simp_all add: bind_exn_def)

lemma update_fresh: "k \<notin> fst ` set al \<Longrightarrow> AList.update k v al = al @ [(k, v)]"
proof (induction al)
  case Nil then show ?case by simp
next
  case (Cons p al)
  then show ?case by (cases p) auto
qed

lemma foldl_update_distinct:
  "distinct (map fst (acc @ kvs)) \<Longrightarrow>
   foldl (\<lambda>d (k, v). AList.update k v d) acc kvs = acc @ kvs"
proof (induction kvs arbitrary: acc)
  case Nil then show ?case by simp
next
  case (Cons kv kvs)
  obtain k v where kv: "kv = (k, v)" by (cases kv)
  from Cons.prems have fresh: "k \<notin> fst ` set acc" by (auto simp: kv)
  from Cons.prems have "distinct (map fst ((acc @ [(k, v)]) @ kvs))" by (simp add: kv)
  from Cons.IH[OF this] have "foldl (\<lambda>d (k, v). AList.update k v d) (acc @ [(k, v)]) kvs
      = (acc @ [(k, v)]) @ kvs" .
  then show ?case unfolding kv by (simp add: update_fresh[OF fresh])
qed

lemma dict_of_items_distinct: "distinct (map fst kvs) \<Longrightarrow> dict_of_items kvs = kvs"
  using foldl_update_distinct[of "[]" kvs] by (simp add: dict_of_items_def)

lemma json_dumps_native: "json_native v \<Longrightarrow> json_dumps v = Inr (to_json v)"
proof (induction v rule: json_native.induct)
  case (1 xs)
  have "sequence_exn (map json_dumps xs) = Inr (map to_json xs)"
  proof (rule sequence_exn_map_Inr)
    fix x assume x: "x \<in> set xs"
    with "1.prems" have "json_native x" by (simp add: list_all_iff)
    with x show "json_dumps x = Inr (to_json x)" by (rule "1.IH")
  qed
  then show ?case by (simp add: bind_exn_def)
next
  case (2 kvs)
  have "sequence_exn (map (\<lambda>(k, v). bind_exn (json_dumps v) (\<lambda>j. Inr (k, j))) kvs)
      = Inr (map (\<lambda>(k, v). (k, to_json v)) kvs)"
  proof (rule sequence_exn_map_Inr)
    fix x assume x: "x \<in> set kvs"
    obtain k v where kv: "x = (k, v)" by (cases x)
    from x "2.prems" have "json_native v" by (auto simp: list_all_iff kv)
    with x kv have "json_dumps v = Inr (to_json v)" using "2.IH" by blast
    then show "(case x of (k, v) \<Rightarrow> bind_exn (json_dumps v) (\<lambda>j. Inr (k, j)))
        = Inr (case x of (k, v) \<Rightarrow> (k, to_json v))"
      by (simp add: kv bind_exn_def)
  qed
  then show ?case by (simp add: bind_exn_def)
qed simp_all

lemma json_loads_native: "json_native v \<Longrightarrow> json_loads (to_json v) = v"
proof (induction v rule: json_native.induct)
  case (1 xs)
  have "map (\<lambda>x. json_loads (to_json x)) xs = map (\<lambda>x. x) xs"
  proof (rule map_cong[OF refl])
    fix x assume x: "x \<in> set xs"
    with "1.prems" have "json_native x" by (simp add: list_all_iff)
    with x show "json_loads (to_json x) = x" by (rule "1.IH")
  qed
  then show ?case by (simp add: comp_def)
next
  case (2 kvs)
  have "map (\<lambda>x. case (case x of (k, v) \<Rightarrow> (k, to_json v)) of (k, j) \<Rightarrow> (k, json_loads j)) kvs
      = map (\<lambda>x. x) kvs"
  proof (rule map_cong[OF refl])
    fix x assume x: "x \<in> set kvs"
    obtain k v where kv: "x = (k, v)" by (cases x)
    from x "2.prems" have "json_native v" by (auto simp: list_all_iff kv)
    with x kv have "json_loads (to_json v) = v" using "2.IH" by blast
    then show "(case (case x of (k, v) \<Rightarrow> (k, to_json v)) of (k, j) \<Rightarrow> (k, json_loads j)) = x"
      by (simp add: kv)
  qed
  then have "map (\<lambda>(k, j). (k, json_loads j)) (map (\<lambda>(k, v). (k, to_json v)) kvs) = kvs"
    by (simp add: comp_def)
  moreover from "2.prems" have "distinct (map fst kvs)" by simp
  ultimately show ?case by (simp add: dict_of_items_distinct)
qed simp_all

lemma serialize_and_validate_Inr:
  "serialize_and_validate d = Inr js \<longleftrightarrow> json_dumps (PDict d) = Inr js"
  unfolding serialize_and_validate_def bind_exn_def
  by (cases "json_dumps (PDict d)") auto

lemma staged_row_origin:
  assumes "(t, k, js) \<in> set (staged_rows src env n data)"
  shows "\<exists>d \<in> set data. k = entity_key src d \<and> json_dumps (PDict d) = Inr js"
proof -
  from assms obtain i d where id: "(i, d) \<in> set (enumerate n (accepted data))"
    and k: "k = entity_key src d" and js: "js = projr (serialize_and_validate d)"
    by (auto simp: staged_rows_def)
  from id have "d \<in> set (accepted data)" by (auto simp: in_set_enumerate_eq)
  then have d: "d \<in> set data" and ok: "\<not> isl (serialize_and_validate d)"
    by (auto simp: accepted_def)
  from ok js have "serialize_and_validate d = Inr js"
    by (cases "serialize_and_validate d") auto
  then have "json_dumps (PDict d) = Inr js" by (simp add: serialize_and_validate_Inr)
  with d k show ?thesis by blast
qed

lemma example_good_row:
  "prepare_insert_data GitHub quiet_env [example_good ''a''] [] state0 =
     (Inr [(0, PStr ''a'', JObj [(''repo_name'', JStr ''a''), (''stars'', JNum 1)])],
      \<lparr>n_http = 0, n_clock = 1, events = []\<rparr>)"
  by (simp add: and_then_def now_def ret_def example_simps quiet_env_def state0_def)

section \<open>Facts about a whole run\<close>

lemma adds_wh_call: "wh_call env ev s = (r, s') \<Longrightarrow> ev \<in> A \<Longrightarrow> adds A s s'"
  by (auto simp: wh_call_def adds_def Let_def split: option.splits)

lemma adds_emit_eq: "emit ev s = (r, s') \<Longrightarrow> ev \<in> A \<Longrightarrow> adds A s s'"
  by (auto simp: emit_eq adds_def)

lemma adds_mono: "adds A s s' \<Longrightarrow> A \<subseteq> B \<Longrightarrow> adds B s s'"
  by (auto simp: adds_def)

lemma adds_prepare:
  assumes "prepare_insert_data src env data [] s = (r, s')" "\<And>l m. Log l m \<in> A"
  shows "adds A s s'"
  using assms by (auto simp: prepare_insert_data_eq adds_def rejection_log_def)

lemma adds_load_statements:
  assumes "load_statements src env data s = (r, s')"
  shows "adds {ev. \<forall>st rs. ev = ExecuteMany st rs \<longrightarrow> rs = staged_rows src env (n_clock s) data}
           s s'"
    (is "adds ?A s s'")
proof -
  have L: "\<And>l m. Log l m \<in> ?A" by simp
  obtain r1 s1 where c1: "wh_call env (Execute UseSchema) s = (r1, s1)"
    by (cases "wh_call env (Execute UseSchema) s")
  have a1: "adds ?A s s1" by (rule adds_wh_call[OF c1]) simp
  have n1: "n_clock s1 = n_clock s" using c1 by (auto simp: wh_call_def Let_def split: option.splits)
  show ?thesis
  proof (cases r1)
    case (Inl e)
    with assms c1 have "s' = s1" by (simp add: load_statements_def and_then_def)
    with a1 show ?thesis by simp
  next
    case (Inr u)
    note r1 = this
    obtain r2 s2 where c2: "wh_call env (Execute (CreateTemp src)) s1 = (r2, s2)"
      by (cases "wh_call env (Execute (CreateTemp src)) s1")
    have a2: "adds ?A s1 s2" by (rule adds_wh_call[OF c2]) simp
    have n2: "n_clock s2 = n_clock s" using c2 n1
      by (auto simp: wh_call_def Let_def split: option.splits)
    show ?thesis
    proof (cases r2)
      case (Inl e)
      with assms c1 c2 r1 have "s' = s2" by (simp add: load_statements_def and_then_def)
      with a1 a2 show ?thesis by (blast intro: adds_trans)
    next
      case (Inr u2)
      note r2 = this
      let ?rows = "staged_rows src env (n_clock s) data"
      let ?s3 = "s2\<lparr>n_clock := n_clock s2 + length (accepted data),
                    events := events s2 @ rejection_log src data\<rparr>"
      have p: "prepare_insert_data src env data [] s2 = (Inr ?rows, ?s3)"
        by (simp add: prepare_insert_data_eq n2)
      have a3: "adds ?A s2 ?s3" by (rule adds_prepare[OF p]) simp
      show ?thesis
      proof (cases "?rows = []")
        case True
        with assms c1 c2 r1 r2 p have "emit (Log WARNING NoValidData) ?s3 = (r, s')"
          by (simp add: load_statements_def and_then_def)
        then have "adds ?A ?s3 s'" by (rule adds_emit_eq) simp
        with a1 a2 a3 show ?thesis by (blast intro: adds_trans)
      next
        case False
        obtain r4 s4 where c4: "wh_call env (ExecuteMany (InsertTemp src) ?rows) ?s3 = (r4, s4)"
          by (cases "wh_call env (ExecuteMany (InsertTemp src) ?rows) ?s3")
        have a4: "adds ?A ?s3 s4" by (rule adds_wh_call[OF c4]) simp
        obtain r5 s5 where c5: "wh_call env (Execute (Promote src)) s4 = (r5, s5)"
          by (cases "wh_call env (Execute (Promote src)) s4")
        have a5: "adds ?A s4 s5" by (rule adds_wh_call[OF c5]) simp
        obtain r6 s6 where c6: "wh_call env Commit s5 = (r6, s6)"
          by (cases "wh_call env Commit s5")
        have a6: "adds ?A s5 s6" by (rule adds_wh_call[OF c6]) simp
        have a7: "adds ?A s6 (s6\<lparr>events := events s6 @ [Log INFO (SavedRows (length ?rows))]\<rparr>)"
          by (auto simp: adds_def)
        have "s' = s4 \<or> s' = s5 \<or> s' = s6
            \<or> s' = s6\<lparr>events := events s6 @ [Log INFO (SavedRows (length ?rows))]\<rparr>"
          using assms c1 c2 r1 r2 p False c4 c5 c6
          by (cases r4; cases r5; cases r6)
             (simp_all add: load_statements_def and_then_def emit_def)
        with a1 a2 a3 a4 a5 a6 a7 show ?thesis by (blast intro: adds_trans)
      qed
    qed
  qed
qed

lemma adds_except_clause:
  assumes "except_clause env conn body s = (r, s')"
    and "adds A s (snd (body s))" and "\<And>l m. Log l m \<in> A" and "Rollback \<in> A"
  shows "adds A s s'"
proof (cases "body s")
  case (Pair rb s1)
  with assms(2) have a1: "adds A s s1" by simp
  show ?thesis
  proof (cases rb)
    case (Inr x)
    with Pair assms(1) have "s' = s1" by (simp add: except_clause_def)
    with a1 show ?thesis by simp
  next
    case (Inl e)
    let ?s2 = "s1\<lparr>events := events s1 @ [Log ERROR (SaveError e)]\<rparr>"
    have a2: "adds A s1 ?s2" using assms(3) by (auto simp: adds_def)
    show ?thesis
    proof (cases conn)
      case False
      with Pair Inl assms(1) have "s' = ?s2"
        by (simp add: except_clause_def and_then_def emit_def ret_def raise_def)
      with a1 a2 show ?thesis by (blast intro: adds_trans)
    next
      case True
      obtain r3 s3 where c3: "wh_call env Rollback ?s2 = (r3, s3)"
        by (cases "wh_call env Rollback ?s2")
      have a3: "adds A ?s2 s3" by (rule adds_wh_call[OF c3]) (rule assms(4))
      from Pair Inl assms(1) True c3 have "s' = s3"
        by (cases r3) (simp_all add: except_clause_def and_then_def emit_def raise_def)
      with a1 a2 a3 show ?thesis by (blast intro: adds_trans)
    qed
  qed
qed

lemma adds_finally_clause:
  assumes "finally_clause env cursor conn body s = (r, s')"
    and "adds A s (snd (body s))" and "CursorClose \<in> A" and "ConnClose \<in> A"
  shows "adds A s s'"
proof (cases "body s")
  case (Pair rb s1)
  with assms(2) have a1: "adds A s s1" by simp
  obtain r2 s2 where c2: "(if cursor then wh_call env CursorClose else ret ()) s1 = (r2, s2)"
    by (cases "(if cursor then wh_call env CursorClose else ret ()) s1")
  have a2: "adds A s1 s2"
    using c2 assms(3) by (cases cursor) (auto simp: ret_def adds_refl intro: adds_wh_call)
  obtain r3 s3 where c3: "(if conn then wh_call env ConnClose else ret ()) s2 = (r3, s3)"
    by (cases "(if conn then wh_call env ConnClose else ret ()) s2")
  have a3: "adds A s2 s3"
    using c3 assms(4) by (cases conn) (auto simp: ret_def adds_refl intro: adds_wh_call)
  have "s' = s2 \<or> s' = s3"
    using assms(1) Pair c2 c3
    by (cases r2; cases r3) (simp_all add: finally_clause_def and_then_def)
  with a1 a2 a3 show ?thesis by (blast intro: adds_trans)
qed

lemma wh_call_n_clock: "wh_call env ev s = (r, s') \<Longrightarrow> n_clock s' = n_clock s"
  by (auto simp: wh_call_def Let_def split: option.splits)

lemma and_then_ret_snd: "snd (and_then m (\<lambda>_. ret x) s) = snd (m s)"
  by (auto simp: and_then_def ret_def split: prod.splits sum.splits)

lemma adds_save_to_snowflake:
  assumes "save_to_snowflake src env data s = (r, s')"
  shows "adds {ev. \<forall>st rs. ev = ExecuteMany st rs \<longrightarrow> rs = staged_rows src env (n_clock s) data}
           s s'"
    (is "adds ?A s s'")
proof (cases "data = []")
  case True
  with assms show ?thesis
    by (auto simp: save_to_snowflake_def and_then_def emit_def ret_def adds_def)
next
  case False
  have s': "s' = snd (save_to_snowflake src env data s)" using assms by simp
  obtain r1 s1 where c1: "wh_call env Connect s = (r1, s1)" by (cases "wh_call env Connect s")
  have a1: "adds ?A s s1" by (rule adds_wh_call[OF c1]) simp
  obtain r2 s2 where c2: "wh_call env OpenCursor s1 = (r2, s2)"
    by (cases "wh_call env OpenCursor s1")
  have a2: "adds ?A s1 s2" by (rule adds_wh_call[OF c2]) simp
  have n2: "n_clock s2 = n_clock s" using wh_call_n_clock[OF c1] wh_call_n_clock[OF c2] by simp
  have wrap: "adds ?A t (snd (finally_clause env cu co (except_clause env co body) t))"
    if "adds ?A t (snd (body t))" for t cu co body
  proof -
    obtain rr tt where f: "finally_clause env cu co (except_clause env co body) t = (rr, tt)"
      by (cases "finally_clause env cu co (except_clause env co body) t")
    obtain re te where e: "except_clause env co body t = (re, te)"
      by (cases "except_clause env co body t")
    have "adds ?A t te" by (rule adds_except_clause[OF e that]) simp_all
    then have "adds ?A t (snd (except_clause env co body t))" by (simp add: e)
    from adds_finally_clause[OF f this] show ?thesis by (simp add: f)
  qed
  show ?thesis
  proof (cases r1)
    case (Inl e)
    have "adds ?A s1 (snd (raise e s1))" by (simp add: raise_def adds_refl)
    from wrap[of s1 "raise e" False False, OF this] have "adds ?A s1 s'"
      using False c1 Inl by (simp add: s' save_to_snowflake_def and_then_ret_snd)
    with a1 show ?thesis by (rule adds_trans)
  next
    case (Inr u)
    note r1 = this
    show ?thesis
    proof (cases r2)
      case (Inl e)
      have "adds ?A s2 (snd (raise e s2))" by (simp add: raise_def adds_refl)
      from wrap[of s2 "raise e" False True, OF this] have "adds ?A s2 s'"
        using False c1 c2 r1 Inl by (simp add: s' save_to_snowflake_def and_then_ret_snd)
      with a1 a2 show ?thesis by (blast intro: adds_trans)
    next
      case (Inr u')
      obtain rl sl where l: "load_statements src env data s2 = (rl, sl)"
        by (cases "load_statements src env data s2")
      from adds_load_statements[OF l] have "adds ?A s2 (snd (load_statements src env data s2))"
        by (simp add: l n2)
      from wrap[of s2 "load_statements src env data" True True, OF this] have "adds ?A s2 s'"
        using False c1 c2 r1 Inr by (simp add: s' save_to_snowflake_def and_then_ret_snd)
      with a1 a2 show ?thesis by (blast intro: adds_trans)
    qed
  qed
qed

lemma staged_row_stamp:
  assumes "(t, k, js) \<in> set (staged_rows src env n data)"
  shows "\<exists>d \<in> set data. \<exists>j \<ge> n. t = clock env j \<and> k = entity_key src d
           \<and> json_dumps (PDict d) = Inr js"
proof -
  from assms obtain i d where id: "(i, d) \<in> set (enumerate n (accepted data))"
    and t: "t = clock env i"
    and k: "k = entity_key src d" and js: "js = projr (serialize_and_validate d)"
    by (auto simp: staged_rows_def)
  from id have "d \<in> set (accepted data)" and i: "n \<le> i" by (auto simp: in_set_enumerate_eq)
  then have d: "d \<in> set data" and ok: "\<not> isl (serialize_and_validate d)"
    by (auto simp: accepted_def)
  from ok js have "serialize_and_validate d = Inr js"
    by (cases "serialize_and_validate d") auto
  then have "json_dumps (PDict d) = Inr js" by (simp add: serialize_and_validate_Inr)
  with d k t i show ?thesis by blast
qed

lemma adds_run_handler:
  assumes "run_handler body s = (r, s')" and "adds A s (snd (body s))" and "\<And>l m. Log l m \<in> A"
  shows "adds A s s'"
proof (cases "body s")
  case (Pair rb s1)
  with assms(2) have a1: "adds A s s1" by simp
  have "s' = s1 \<or> (\<exists>e. s' = s1\<lparr>events := events s1 @ [Log ERROR (RunFailed e)]\<rparr>)"
    using assms(1) Pair
    by (cases rb) (auto simp: run_handler_def and_then_def emit_def raise_def)
  moreover have "adds A s1 (s1\<lparr>events := events s1 @ [Log ERROR (RunFailed e)]\<rparr>)" for e
    using assms(3) by (auto simp: adds_def)
  ultimately show ?thesis using a1 by (auto intro: adds_trans)
qed

lemma run_staged_rows:
  assumes wb: "well_behaved key env fetch"
    and run: "run_handler
        (and_then (emit (Log INFO StartingRun)) (\<lambda>_.
         and_then (extract_all fetch catalog) (\<lambda>data.
         if data \<noteq> []
         then and_then (save_to_snowflake src env data) (\<lambda>_. emit (Log INFO RunCompleted))
         else emit (Log WARNING NoDataExtracted)))) s = (r, s')"
    and ex: "ExecuteMany st rows \<in> set (events s')" "ExecuteMany st rows \<notin> set (events s)"
    and row: "(t, k, js) \<in> set rows"
  shows "\<exists>d i j. i < j \<and> t = clock env j \<and> k = entity_key src d
           \<and> json_dumps (PDict d) = Inr js
           \<and> map_of d ''extracted_at'' = Some (PStr (isoformat env (clock env i)))"
proof -
  let ?body = "and_then (emit (Log INFO StartingRun)) (\<lambda>_.
         and_then (extract_all fetch catalog) (\<lambda>data.
         if data \<noteq> []
         then and_then (save_to_snowflake src env data) (\<lambda>_. emit (Log INFO RunCompleted))
         else emit (Log WARNING NoDataExtracted)))"
  let ?s0 = "s\<lparr>events := events s @ [Log INFO StartingRun]\<rparr>"
  from extract_all_spec[OF wb, of catalog ?s0] obtain batch s1 evs where
    x: "extract_all fetch catalog ?s0 = (Inr batch, s1)"
    and xe: "events s1 = events ?s0 @ [Log INFO (StartingExtraction (length catalog))] @ evs
          @ [Log INFO (ExtractionCompleted (length batch))]"
    and xw: "list_all no_warehouse evs"
    and xc: "\<forall>d \<in> set batch. \<exists>i. n_clock ?s0 \<le> i \<and> i < n_clock s1 \<and>
           map_of d ''extracted_at'' = Some (PStr (isoformat env (clock env i)))"
    by blast
  let ?R = "staged_rows src env (n_clock s1) batch"
  let ?B = "{ev. \<forall>st rs. ev = ExecuteMany st rs \<longrightarrow> rs = ?R}"
  have nw: "ev \<in> ?B" if "no_warehouse ev" for ev
    using that by (auto simp: no_warehouse_def)
  have "set evs \<subseteq> ?B" using xw nw by (auto simp: list_all_iff)
  then have a01: "adds ?B s s1"
    unfolding adds_def using xe by (intro exI[of _ "[Log INFO StartingRun]
        @ [Log INFO (StartingExtraction (length catalog))] @ evs
        @ [Log INFO (ExtractionCompleted (length batch))]"]) auto
  have body: "?body s = (if batch \<noteq> []
        then and_then (save_to_snowflake src env batch) (\<lambda>_. emit (Log INFO RunCompleted)) s1
        else emit (Log WARNING NoDataExtracted) s1)"
    using x by (simp add: and_then_def emit_def)
  have a1b: "adds ?B s1 (snd (?body s))"
  proof (cases "batch = []")
    case True
    then show ?thesis unfolding body by (auto simp: emit_def adds_def)
  next
    case False
    obtain r2 s2 where sv: "save_to_snowflake src env batch s1 = (r2, s2)"
      by (cases "save_to_snowflake src env batch s1")
    have a2: "adds ?B s1 s2" by (rule adds_save_to_snowflake[OF sv])
    have "snd (?body s) = s2 \<or> snd (?body s) = s2\<lparr>events := events s2 @ [Log INFO RunCompleted]\<rparr>"
      unfolding body using False sv by (cases r2) (simp_all add: and_then_def emit_def)
    moreover have "adds ?B s2 (s2\<lparr>events := events s2 @ [Log INFO RunCompleted]\<rparr>)"
      by (auto simp: adds_def)
    ultimately show ?thesis using a2 by (auto intro: adds_trans)
  qed
  have "adds ?B s (snd (?body s))" using a01 a1b by (rule adds_trans)
  from adds_run_handler[OF run this] have "adds ?B s s'" by simp
  then obtain new where "events s' = events s @ new" "set new \<subseteq> ?B" by (auto simp: adds_def)
  with ex have "ExecuteMany st rows \<in> ?B" by auto
  then have "rows = ?R" by simp
  with row have "(t, k, js) \<in> set ?R" by simp
  from staged_row_stamp[OF this] obtain d j where
    d: "d \<in> set batch" "n_clock s1 \<le> j" "t = clock env j" "k = entity_key src d"
       "json_dumps (PDict d) = Inr js"
    by blast
  from xc d(1) obtain i where "i < n_clock s1"
    "map_of d ''extracted_at'' = Some (PStr (isoformat env (clock env i)))" by blast
  with d show ?thesis by (intro exI[of _ d] exI[of _ i] exI[of _ j]) simp
qed

lemmas run_eval =
  github_run_def run_handler_def getenv_value_def github_extract_all_repositories_def
  extract_all_def save_to_snowflake_def finally_clause_def except_clause_def
  load_statements_def wh_call_def serialize_and_validate_def entity_key_def key_field_def
  raise_def

lemma example_run_forward:
  "github_run (http_env empty_objects) (Some ''ghp_x'') [''a/b''] state0 =
     (Inr PNone,
      \<lparr>n_http = 3, n_clock = 2,
       events =
         [Log INFO StartingRun, Log INFO (StartingExtraction 1),
          Log INFO (Extracting ''a/b''),
          HttpGet ''https://api.github.com/repos/a/b'',
          HttpGet ''https://api.github.com/repos/a/b/contributors'',
          HttpGet ''https://api.github.com/repos/a/b/releases'',
          Log INFO (ExtractedEntity ''a/b''), Sleep 1,
          Log INFO (ExtractionCompleted 1),
          Connect, OpenCursor, Execute UseSchema, Execute (CreateTemp GitHub),
          ExecuteMany (InsertTemp GitHub)
            [(1, PStr ''a/b'',
              JObj [(''repo_name'', JStr ''a/b''), (''full_name'', JNull),
                    (''description'', JNull), (''language'', JNull), (''stars'', JNum 0),
                    (''forks'', JNum 0), (''watchers'', JNum 0), (''open_issues'', JNum 0),
                    (''size'', JNum 0), (''created_at'', JNull), (''updated_at'', JNull),
                    (''pushed_at'', JNull), (''default_branch'', JNull),
                    (''contributors_count'', JNum 0), (''releases_count'', JNum 0),
                    (''latest_release'', JNull), (''topics'', JArr []), (''license'', JNull),
                    (''extracted_at'', JStr (example_isoformat 0))])],
          Execute (Promote GitHub), Commit, Log INFO (SavedRows 1),
          CursorClose, ConnClose, Log INFO RunCompleted]\<rparr>)"
  by (simp add: run_eval fetch_eval empty_objects_def)

lemma example_run_backwards:
  "github_run backwards_clock_env (Some ''ghp_x'') [''a/b''] state0 =
     (Inr PNone,
      \<lparr>n_http = 3, n_clock = 2,
       events =
         [Log INFO StartingRun, Log INFO (StartingExtraction 1),
          Log INFO (Extracting ''a/b''),
          HttpGet ''https://api.github.com/repos/a/b'',
          HttpGet ''https://api.github.com/repos/a/b/contributors'',
          HttpGet ''https://api.github.com/repos/a/b/releases'',
          Log INFO (ExtractedEntity ''a/b''), Sleep 1,
          Log INFO (ExtractionCompleted 1),
          Connect, OpenCursor, Execute UseSchema, Execute (CreateTemp GitHub),
          ExecuteMany (InsertTemp GitHub)
            [(8, PStr ''a/b'',
              JObj [(''repo_name'', JStr ''a/b''), (''full_name'', JNull),
                    (''description'', JNull), (''language'', JNull), (''stars'', JNum 0),
                    (''forks'', JNum 0), (''watchers'', JNum 0), (''open_issues'', JNum 0),
                    (''size'', JNum 0), (''created_at'', JNull), (''updated_at'', JNull),
                    (''pushed_at'', JNull), (''default_branch'', JNull),
                    (''contributors_count'', JNum 0), (''releases_count'', JNum 0),
                    (''latest_release'', JNull), (''topics'', JArr []), (''license'', JNull),
                    (''extracted_at'', JStr (example_isoformat 9))])],
          Execute (Promote GitHub), Commit, Log INFO (SavedRows 1),
          CursorClose, ConnClose, Log INFO RunCompleted]\<rparr>)"
  by (simp add: run_eval fetch_eval empty_objects_def backwards_clock_env_def)

section \<open>The loader on an empty batch\<close>

text \<open>
  Claim C4, as the code has it. For the empty batch \<open>save_to_snowflake\<close> logs a warning and
  returns at once: its value is \<open>None\<close> (the \<open>return\<close> is a bare one, as every \<open>return\<close> of the
  function), the only event is the log line, so no connection is opened and no statement
  is executed, and the clock is not read.
\<close>

theorem C4_empty_batch_returns_none_without_session:
  "save_to_snowflake src env [] s =
     (Inr PNone, s\<lparr>events := events s @ [Log WARNING NoDataToSave]\<rparr>)"
  by (simp add: save_to_snowflake_def and_then_def emit_def ret_def)

text \<open>
  Claim C4 as stated says that the value returned for the empty batch is \<open>0\<close>. It is not:
  the value is \<open>None\<close>.
\<close>

theorem C4_empty_batch_does_not_return_zero:
  "fst (save_to_snowflake GitHub quiet_env [] state0) \<noteq> Inr (PInt 0)"
  by (simp add: save_to_snowflake_def and_then_def emit_def ret_def)

section \<open>The loader: failure of the load\<close>

text \<open>
  Claim C1, as the code has it. Take a batch with at least one record that passes the gate,
  so that the staging insert is reached, and a warehouse where the connection, the cursor,
  \<open>USE SCHEMA\<close> and \<open>CREATE TEMPORARY TABLE\<close> work. If the staging insert raises, or else the
  promotion \<open>INSERT ... SELECT\<close>, or else the commit, then after the failing call (\<open>calls\<close> is
  the list of the calls made from the staging insert on) \<open>save_to_snowflake\<close> logs the error,
  calls \<open>rollback\<close>, calls \<open>cursor.close\<close> and, when \<open>cursor.close\<close> returns, \<open>conn.close\<close>,
  in this order and nothing else, and it raises to its caller. Nothing guards the three
  cleanup calls: the error raised is the one of \<open>cursor.close\<close> if it raises, else the one of
  \<open>conn.close\<close> if it raises, else the one of \<open>rollback\<close> if it raises, and the error of the
  load itself when the three of them return. The commit is in \<open>calls\<close> only in the third
  case, after a promotion that succeeded; and in any warehouse whatever, when the promotion
  statement fails no commit is issued at all.
\<close>

theorem C1_load_failure_rolls_back_and_raises:
  "(warehouse env Connect = None \<and> warehouse env OpenCursor = None \<and>
    warehouse env (Execute UseSchema) = None \<and> warehouse env (Execute (CreateTemp src)) = None \<and>
    accepted data \<noteq> [] \<and> rows = staged_rows src env (n_clock s) data \<and>
    (warehouse env (ExecuteMany (InsertTemp src) rows) = Some msg \<and>
       calls = [ExecuteMany (InsertTemp src) rows]
     \<or> warehouse env (ExecuteMany (InsertTemp src) rows) = None \<and>
       warehouse env (Execute (Promote src)) = Some msg \<and>
       calls = [ExecuteMany (InsertTemp src) rows, Execute (Promote src)]
     \<or> warehouse env (ExecuteMany (InsertTemp src) rows) = None \<and>
       warehouse env (Execute (Promote src)) = None \<and> warehouse env Commit = Some msg \<and>
       calls = [ExecuteMany (InsertTemp src) rows, Execute (Promote src), Commit])
    \<longrightarrow> save_to_snowflake src env data s =
          (Inl (SnowflakeError
                 (case warehouse env CursorClose of
                    Some m \<Rightarrow> m
                  | None \<Rightarrow>
                      (case warehouse env ConnClose of
                         Some m \<Rightarrow> m
                       | None \<Rightarrow>
                           (case warehouse env Rollback of Some m \<Rightarrow> m | None \<Rightarrow> msg)))),
           s\<lparr>n_clock := n_clock s + length (accepted data),
             events := events s
               @ [Connect, OpenCursor, Execute UseSchema, Execute (CreateTemp src)]
               @ rejection_log src data @ calls
               @ [Log ERROR (SaveError (SnowflakeError msg)), Rollback, CursorClose]
               @ (if warehouse env CursorClose = None then [ConnClose] else [])\<rparr>))
   \<and> (warehouse env (Execute (Promote src)) \<noteq> None \<and> Commit \<notin> set (events s)
        \<longrightarrow> Commit \<notin> set (events (snd (save_to_snowflake src env data s))))"
proof (intro conjI impI)
  assume h: "warehouse env Connect = None \<and> warehouse env OpenCursor = None \<and>
    warehouse env (Execute UseSchema) = None \<and> warehouse env (Execute (CreateTemp src)) = None \<and>
    accepted data \<noteq> [] \<and> rows = staged_rows src env (n_clock s) data \<and>
    (warehouse env (ExecuteMany (InsertTemp src) rows) = Some msg \<and>
       calls = [ExecuteMany (InsertTemp src) rows]
     \<or> warehouse env (ExecuteMany (InsertTemp src) rows) = None \<and>
       warehouse env (Execute (Promote src)) = Some msg \<and>
       calls = [ExecuteMany (InsertTemp src) rows, Execute (Promote src)]
     \<or> warehouse env (ExecuteMany (InsertTemp src) rows) = None \<and>
       warehouse env (Execute (Promote src)) = None \<and> warehouse env Commit = Some msg \<and>
       calls = [ExecuteMany (InsertTemp src) rows, Execute (Promote src), Commit])"
  then have rows: "rows = staged_rows src env (n_clock s) data" by simp
  show "save_to_snowflake src env data s =
          (Inl (SnowflakeError
                 (case warehouse env CursorClose of
                    Some m \<Rightarrow> m
                  | None \<Rightarrow>
                      (case warehouse env ConnClose of
                         Some m \<Rightarrow> m
                       | None \<Rightarrow>
                           (case warehouse env Rollback of Some m \<Rightarrow> m | None \<Rightarrow> msg)))),
           s\<lparr>n_clock := n_clock s + length (accepted data),
             events := events s
               @ [Connect, OpenCursor, Execute UseSchema, Execute (CreateTemp src)]
               @ rejection_log src data @ calls
               @ [Log ERROR (SaveError (SnowflakeError msg)), Rollback, CursorClose]
               @ (if warehouse env CursorClose = None then [ConnClose] else [])\<rparr>)"
    by (rule save_to_snowflake_fails) (use h in \<open>simp_all add: rows\<close>)
next
  assume "warehouse env (Execute (Promote src)) \<noteq> None \<and> Commit \<notin> set (events s)"
  then show "Commit \<notin> set (events (snd (save_to_snowflake src env data s)))"
    using save_to_snowflake_no_commit by blast
qed

text \<open>
  Claim C1 on concrete inputs: a batch of three records of which the second does not
  serialize, with a warehouse that fails at the commit and whose cleanup calls return (the
  error of the commit is raised again), and with one that fails at the promotion.
\<close>

theorem C1_witness_commit_and_promotion_failures:
  "save_to_snowflake GitHub commit_fails_env example_batch state0 =
     (Inl (SnowflakeError ''connection lost''),
      \<lparr>n_http = 0, n_clock = 2,
       events =
         [Connect, OpenCursor, Execute UseSchema, Execute (CreateTemp GitHub),
          Log ERROR (JsonFailed (PStr ''b'') TypeError),
          ExecuteMany (InsertTemp GitHub)
            [(0, PStr ''a'', JObj [(''repo_name'', JStr ''a''), (''stars'', JNum 1)]),
             (1, PStr ''c'', JObj [(''repo_name'', JStr ''c''), (''stars'', JNum 1)])],
          Execute (Promote GitHub), Commit,
          Log ERROR (SaveError (SnowflakeError ''connection lost'')),
          Rollback, CursorClose, ConnClose]\<rparr>)
   \<and> Commit \<notin> set (events (snd (save_to_snowflake GitHub promote_fails_env example_batch state0)))"
proof
  show "save_to_snowflake GitHub commit_fails_env example_batch state0 =
     (Inl (SnowflakeError ''connection lost''),
      \<lparr>n_http = 0, n_clock = 2,
       events =
         [Connect, OpenCursor, Execute UseSchema, Execute (CreateTemp GitHub),
          Log ERROR (JsonFailed (PStr ''b'') TypeError),
          ExecuteMany (InsertTemp GitHub)
            [(0, PStr ''a'', JObj [(''repo_name'', JStr ''a''), (''stars'', JNum 1)]),
             (1, PStr ''c'', JObj [(''repo_name'', JStr ''c''), (''stars'', JNum 1)])],
          Execute (Promote GitHub), Commit,
          Log ERROR (SaveError (SnowflakeError ''connection lost'')),
          Rollback, CursorClose, ConnClose]\<rparr>)"
    using C1_load_failure_rolls_back_and_raises
      [of commit_fails_env GitHub example_batch
          "[(0, PStr ''a'', JObj [(''repo_name'', JStr ''a''), (''stars'', JNum 1)]),
            (1, PStr ''c'', JObj [(''repo_name'', JStr ''c''), (''stars'', JNum 1)])]"
          state0 "''connection lost''"
          "[ExecuteMany (InsertTemp GitHub)
             [(0, PStr ''a'', JObj [(''repo_name'', JStr ''a''), (''stars'', JNum 1)]),
              (1, PStr ''c'', JObj [(''repo_name'', JStr ''c''), (''stars'', JNum 1)])],
            Execute (Promote GitHub), Commit]"]
    by (simp add: commit_fails_env_def quiet_env_def example_batch_def state0_def example_simps)
  show "Commit \<notin> set (events (snd (save_to_snowflake GitHub promote_fails_env example_batch state0)))"
    using C1_load_failure_rolls_back_and_raises
      [of promote_fails_env GitHub example_batch rows state0 msg calls]
    by (simp add: promote_fails_env_def quiet_env_def state0_def)
qed

text \<open>
  Claim C1 as stated fails when a cleanup call raises. With a commit that fails and a
  rollback that fails too, the caller receives the error of the rollback, not the one of
  the commit. With a commit that fails and a \<open>cursor.close\<close> that fails, the caller receives
  the error of \<open>cursor.close\<close> and \<open>conn.close\<close> is never called: the connection is not
  released.
\<close>

theorem C1_counterexample_cleanup_call_raises:
  "save_to_snowflake GitHub rollback_fails_env example_batch state0 =
     (Inl (SnowflakeError ''rollback failed''),
      \<lparr>n_http = 0, n_clock = 2,
       events =
         [Connect, OpenCursor, Execute UseSchema, Execute (CreateTemp GitHub),
          Log ERROR (JsonFailed (PStr ''b'') TypeError),
          ExecuteMany (InsertTemp GitHub)
            [(0, PStr ''a'', JObj [(''repo_name'', JStr ''a''), (''stars'', JNum 1)]),
             (1, PStr ''c'', JObj [(''repo_name'', JStr ''c''), (''stars'', JNum 1)])],
          Execute (Promote GitHub), Commit,
          Log ERROR (SaveError (SnowflakeError ''connection lost'')),
          Rollback, CursorClose, ConnClose]\<rparr>)
   \<and> save_to_snowflake GitHub cursor_close_fails_env example_batch state0 =
     (Inl (SnowflakeError ''cursor gone''),
      \<lparr>n_http = 0, n_clock = 2,
       events =
         [Connect, OpenCursor, Execute UseSchema, Execute (CreateTemp GitHub),
          Log ERROR (JsonFailed (PStr ''b'') TypeError),
          ExecuteMany (InsertTemp GitHub)
            [(0, PStr ''a'', JObj [(''repo_name'', JStr ''a''), (''stars'', JNum 1)]),
             (1, PStr ''c'', JObj [(''repo_name'', JStr ''c''), (''stars'', JNum 1)])],
          Execute (Promote GitHub), Commit,
          Log ERROR (SaveError (SnowflakeError ''connection lost'')),
          Rollback, CursorClose]\<rparr>)"
proof
  show "save_to_snowflake GitHub rollback_fails_env example_batch state0 =
     (Inl (SnowflakeError ''rollback failed''),
      \<lparr>n_http = 0, n_clock = 2,
       events =
         [Connect, OpenCursor, Execute UseSchema, Execute (CreateTemp GitHub),
          Log ERROR (JsonFailed (PStr ''b'') TypeError),
          ExecuteMany (InsertTemp GitHub)
            [(0, PStr ''a'', JObj [(''repo_name'', JStr ''a''), (''stars'', JNum 1)]),
             (1, PStr ''c'', JObj [(''repo_name'', JStr ''c''), (''stars'', JNum 1)])],
          Execute (Promote GitHub), Commit,
          Log ERROR (SaveError (SnowflakeError ''connection lost'')),
          Rollback, CursorClose, ConnClose]\<rparr>)"
    using save_to_snowflake_fails
      [of rollback_fails_env GitHub example_batch state0 "''connection lost''"
          "[ExecuteMany (InsertTemp GitHub)
             [(0, PStr ''a'', JObj [(''repo_name'', JStr ''a''), (''stars'', JNum 1)]),
              (1, PStr ''c'', JObj [(''repo_name'', JStr ''c''), (''stars'', JNum 1)])],
            Execute (Promote GitHub), Commit]"]
    by (simp add: rollback_fails_env_def quiet_env_def example_batch_def state0_def example_simps)
  show "save_to_snowflake GitHub cursor_close_fails_env example_batch state0 =
     (Inl (SnowflakeError ''cursor gone''),
      \<lparr>n_http = 0, n_clock = 2,
       events =
         [Connect, OpenCursor, Execute UseSchema, Execute (CreateTemp GitHub),
          Log ERROR (JsonFailed (PStr ''b'') TypeError),
          ExecuteMany (InsertTemp GitHub)
            [(0, PStr ''a'', JObj [(''repo_name'', JStr ''a''), (''stars'', JNum 1)]),
             (1, PStr ''c'', JObj [(''repo_name'', JStr ''c''), (''stars'', JNum 1)])],
          Execute (Promote GitHub), Commit,
          Log ERROR (SaveError (SnowflakeError ''connection lost'')),
          Rollback, CursorClose]\<rparr>)"
    using save_to_snowflake_fails
      [of cursor_close_fails_env GitHub example_batch state0 "''connection lost''"
          "[ExecuteMany (InsertTemp GitHub)
             [(0, PStr ''a'', JObj [(''repo_name'', JStr ''a''), (''stars'', JNum 1)]),
              (1, PStr ''c'', JObj [(''repo_name'', JStr ''c''), (''stars'', JNum 1)])],
            Execute (Promote GitHub), Commit]"]
    by (simp add: cursor_close_fails_env_def quiet_env_def example_batch_def state0_def example_simps)
qed

section \<open>The loader: records that fail the gate\<close>

text \<open>
  Claim C6, as the code has it. When no warehouse call fails, \<open>save_to_snowflake\<close> on a
  non-empty batch returns \<open>None\<close>; it logs one error for each record that fails the gate
  and goes on; when at least one record is accepted it stages exactly the accepted
  records in one \<open>executemany\<close>, promotes, commits and logs their number; when none is, it
  logs a warning and neither stages nor promotes nor commits. In both cases it closes the
  cursor and the connection. In particular, for a batch of three non-empty records of
  which exactly one fails the gate, two rows are staged and one error is logged.
\<close>

theorem C6_invalid_records_dropped_individually:
  "((\<forall>ev. warehouse env ev = None) \<and> data \<noteq> [] \<longrightarrow>
      save_to_snowflake src env data s =
        (Inr PNone,
         s\<lparr>n_clock := n_clock s + length (accepted data),
           events := events s
             @ [Connect, OpenCursor, Execute UseSchema, Execute (CreateTemp src)]
             @ rejection_log src data
             @ (if accepted data = [] then [Log WARNING NoValidData]
                else [ExecuteMany (InsertTemp src) (staged_rows src env (n_clock s) data),
                      Execute (Promote src), Commit,
                      Log INFO (SavedRows (length (accepted data)))])
             @ [CursorClose, ConnClose]\<rparr>))
   \<and> (length data = 3 \<and> (\<forall>d \<in> set data. truthy (PDict d)) \<and>
       length (filter (\<lambda>d. isl (serialize_and_validate d)) data) = 1 \<longrightarrow>
         length (staged_rows src env (n_clock s) data) = 2 \<and>
         length (rejection_log src data) = 1)"
proof (intro conjI impI)
  assume "(\<forall>ev. warehouse env ev = None) \<and> data \<noteq> []"
  then show "save_to_snowflake src env data s =
        (Inr PNone,
         s\<lparr>n_clock := n_clock s + length (accepted data),
           events := events s
             @ [Connect, OpenCursor, Execute UseSchema, Execute (CreateTemp src)]
             @ rejection_log src data
             @ (if accepted data = [] then [Log WARNING NoValidData]
                else [ExecuteMany (InsertTemp src) (staged_rows src env (n_clock s) data),
                      Execute (Promote src), Commit,
                      Log INFO (SavedRows (length (accepted data)))])
             @ [CursorClose, ConnClose]\<rparr>)"
    using save_to_snowflake_succeeds by blast
next
  assume h: "length data = 3 \<and> (\<forall>d \<in> set data. truthy (PDict d)) \<and>
       length (filter (\<lambda>d. isl (serialize_and_validate d)) data) = 1"
  then show "length (staged_rows src env (n_clock s) data) = 2"
    using accepted_rejected_length(1)[of data] by (simp add: length_staged_rows)
  from h show "length (rejection_log src data) = 1"
    using accepted_rejected_length(2)[of data] by (simp add: rejection_log_def)
qed

text \<open>Claim C6 on a batch of three records of which the second does not serialize.\<close>

theorem C6_witness_one_of_three_dropped:
  "save_to_snowflake GitHub quiet_env example_batch state0 =
     (Inr PNone,
      \<lparr>n_http = 0, n_clock = 2,
       events =
         [Connect, OpenCursor, Execute UseSchema, Execute (CreateTemp GitHub),
          Log ERROR (JsonFailed (PStr ''b'') TypeError),
          ExecuteMany (InsertTemp GitHub)
            [(0, PStr ''a'', JObj [(''repo_name'', JStr ''a''), (''stars'', JNum 1)]),
             (1, PStr ''c'', JObj [(''repo_name'', JStr ''c''), (''stars'', JNum 1)])],
          Execute (Promote GitHub), Commit, Log INFO (SavedRows 2),
          CursorClose, ConnClose]\<rparr>)
   \<and> length (staged_rows GitHub quiet_env 0 example_batch) = 2"
  using C6_invalid_records_dropped_individually [of quiet_env example_batch GitHub state0]
  by (simp add: quiet_env_def example_batch_def state0_def example_simps)

text \<open>
  Claim C6 as stated fails in two places. When every record is dropped the value returned
  is \<open>None\<close>, not \<open>0\<close>. And an empty record is skipped by \<open>if repo_data:\<close> before the gate,
  without a log line: of the three records \<open>{}\<close>, a good one and a bad one, exactly one
  fails the gate, and one row is staged, not two.
\<close>

theorem C6_counterexample_none_returned_and_empty_record_skipped:
  "fst (save_to_snowflake GitHub quiet_env [example_bad ''b''] state0) \<noteq> Inr (PInt 0)
   \<and> [isl (serialize_and_validate []), isl (serialize_and_validate (example_good ''a'')),
       isl (serialize_and_validate (example_bad ''b''))] = [False, False, True]
   \<and> events (snd (save_to_snowflake GitHub quiet_env
                    [[], example_good ''a'', example_bad ''b''] state0)) =
       [Connect, OpenCursor, Execute UseSchema, Execute (CreateTemp GitHub),
        Log ERROR (JsonFailed (PStr ''b'') TypeError),
        ExecuteMany (InsertTemp GitHub)
          [(0, PStr ''a'', JObj [(''repo_name'', JStr ''a''), (''stars'', JNum 1)])],
        Execute (Promote GitHub), Commit, Log INFO (SavedRows 1),
        CursorClose, ConnClose]"
  by (simp add: save_to_snowflake_succeeds quiet_env_def state0_def example_simps)

section \<open>The fetchers: the keys of a record\<close>




section \<open>The fetchers: exceptions\<close>

text \<open>
  Claim C7. Neither fetcher ever raises: in every environment and state its outcome is a
  returned value. Whenever its \<open>try\<close> block raises an exception \<open>e\<close>, at whatever point,
  the fetcher returns \<open>None\<close> and the last thing it does is to log an error that names the
  entity and \<open>e\<close> (the line of the first handler for a \<open>RequestException\<close>, of the second
  otherwise).
\<close>

theorem C7_fetchers_catch_every_exception:
  "(\<exists>r s'. github_get_repo_data env name s = (Inr r, s'))
   \<and> (\<forall>e s1. github_get_repo_data_try env name s = (Inl e, s1) \<longrightarrow>
         github_get_repo_data env name s =
           (Inr None,
            s1\<lparr>events := events s1 @
               [Log ERROR (if isinstance_RequestException e then FetchError name e
                           else UnexpectedError name e)]\<rparr>))
   \<and> (\<exists>r s'. pypi_get_package_info env name s = (Inr r, s'))
   \<and> (\<forall>e s1. pypi_get_package_info_try env name s = (Inl e, s1) \<longrightarrow>
         pypi_get_package_info env name s =
           (Inr None,
            s1\<lparr>events := events s1 @
               [Log ERROR (if isinstance_RequestException e then FetchError name e
                           else UnexpectedError name e)]\<rparr>))"
  unfolding github_get_repo_data_def pypi_get_package_info_def
  by (intro conjI allI impI fetch_handlers_never_raises fetch_handlers_Inl)

text \<open>
  Claim C7 on a network error, on a body that is not JSON, and on a JSON body of an
  unexpected shape (a list where an object is expected).
\<close>

theorem C7_witness_three_kinds_of_failure:
  "github_get_repo_data (http_env network_down) ''a/b'' state0 =
     (Inr None,
      \<lparr>n_http = 1, n_clock = 0,
       events = [HttpGet ''https://api.github.com/repos/a/b'',
                 Log ERROR (FetchError ''a/b'' (ConnectionError ''timed out''))]\<rparr>)
   \<and> pypi_get_package_info (http_env not_json) ''pandas'' state0 =
     (Inr None,
      \<lparr>n_http = 1, n_clock = 0,
       events = [HttpGet ''https://pypi.org/pypi/pandas/json'',
                 Log ERROR (FetchError ''pandas'' JSONDecodeError)]\<rparr>)
   \<and> github_get_repo_data (http_env wrong_shape) ''a/b'' state0 =
     (Inr None,
      \<lparr>n_http = 3, n_clock = 0,
       events = [HttpGet ''https://api.github.com/repos/a/b'',
                 HttpGet ''https://api.github.com/repos/a/b/contributors'',
                 HttpGet ''https://api.github.com/repos/a/b/releases'',
                 Log ERROR (UnexpectedError ''a/b'' AttributeError)]\<rparr>)"
proof (intro conjI)
  have "github_get_repo_data_try (http_env network_down) ''a/b'' state0 =
     (Inl (ConnectionError ''timed out''),
      \<lparr>n_http = 1, n_clock = 0, events = [HttpGet ''https://api.github.com/repos/a/b'']\<rparr>)"
    by (simp add: fetch_eval network_down_def)
  then show "github_get_repo_data (http_env network_down) ''a/b'' state0 =
     (Inr None,
      \<lparr>n_http = 1, n_clock = 0,
       events = [HttpGet ''https://api.github.com/repos/a/b'',
                 Log ERROR (FetchError ''a/b'' (ConnectionError ''timed out''))]\<rparr>)"
    using C7_fetchers_catch_every_exception [of "http_env network_down" "''a/b''" state0]
    by simp
  have "pypi_get_package_info_try (http_env not_json) ''pandas'' state0 =
     (Inl JSONDecodeError,
      \<lparr>n_http = 1, n_clock = 0, events = [HttpGet ''https://pypi.org/pypi/pandas/json'']\<rparr>)"
    by (simp add: fetch_eval not_json_def)
  then show "pypi_get_package_info (http_env not_json) ''pandas'' state0 =
     (Inr None,
      \<lparr>n_http = 1, n_clock = 0,
       events = [HttpGet ''https://pypi.org/pypi/pandas/json'',
                 Log ERROR (FetchError ''pandas'' JSONDecodeError)]\<rparr>)"
    using C7_fetchers_catch_every_exception [of "http_env not_json" "''pandas''" state0]
    by simp
  have "github_get_repo_data_try (http_env wrong_shape) ''a/b'' state0 =
     (Inl AttributeError,
      \<lparr>n_http = 3, n_clock = 0,
       events = [HttpGet ''https://api.github.com/repos/a/b'',
                 HttpGet ''https://api.github.com/repos/a/b/contributors'',
                 HttpGet ''https://api.github.com/repos/a/b/releases'']\<rparr>)"
    by (simp add: fetch_eval wrong_shape_def)
  then show "github_get_repo_data (http_env wrong_shape) ''a/b'' state0 =
     (Inr None,
      \<lparr>n_http = 3, n_clock = 0,
       events = [HttpGet ''https://api.github.com/repos/a/b'',
                 HttpGet ''https://api.github.com/repos/a/b/contributors'',
                 HttpGet ''https://api.github.com/repos/a/b/releases'',
                 Log ERROR (UnexpectedError ''a/b'' AttributeError)]\<rparr>)"
    using C7_fetchers_catch_every_exception [of "http_env wrong_shape" "''a/b''" state0]
    by simp
qed

section \<open>The fetchers: the answer 403\<close>

text \<open>
  Claim C3, as the code has it. When the primary call of \<open>get_repo_data\<close> is answered 403,
  the fetcher logs a warning, sleeps 60 seconds and repeats the call; whatever follows,
  there is no other sleep of 60 seconds and no other primary call. When the repeated call
  is answered with a 4xx or 5xx code (403 again included), or is not answered, the fetcher
  logs the error and returns \<open>None\<close> at once. \<open>get_package_info\<close> has no cooldown and no
  retry: a 4xx or 5xx answer to its primary call, 403 included, ends the fetch with \<open>None\<close>
  after that single call.
\<close>

theorem C3_one_cooldown_one_retry_for_github_only:
  "(http env (n_http s) (github_repo_url repo) = Response 403 b \<longrightarrow>
      (\<exists>rest. events (snd (github_get_repo_data env repo s)) =
          events s @ [HttpGet (github_repo_url repo), Log WARNING (RateLimitHit repo),
                      Sleep 60, HttpGet (github_repo_url repo)] @ rest
          \<and> Sleep 60 \<notin> set rest \<and> HttpGet (github_repo_url repo) \<notin> set rest)
      \<and> (\<forall>st b'. http env (Suc (n_http s)) (github_repo_url repo) = Response st b'
             \<and> 400 \<le> st \<and> st < 600 \<longrightarrow>
           github_get_repo_data env repo s =
             (Inr None,
              s\<lparr>n_http := Suc (Suc (n_http s)),
                events := events s @ [HttpGet (github_repo_url repo),
                  Log WARNING (RateLimitHit repo), Sleep 60, HttpGet (github_repo_url repo),
                  Log ERROR (FetchError repo (HTTPError st))]\<rparr>))
      \<and> (\<forall>m. http env (Suc (n_http s)) (github_repo_url repo) = NetworkFailure m \<longrightarrow>
           github_get_repo_data env repo s =
             (Inr None,
              s\<lparr>n_http := Suc (Suc (n_http s)),
                events := events s @ [HttpGet (github_repo_url repo),
                  Log WARNING (RateLimitHit repo), Sleep 60, HttpGet (github_repo_url repo),
                  Log ERROR (FetchError repo (ConnectionError m))]\<rparr>)))
   \<and> (\<forall>st b. http env (n_http s) (pypi_package_url name) = Response st b
          \<and> 400 \<le> st \<and> st < 600 \<longrightarrow>
        pypi_get_package_info env name s =
          (Inr None,
           s\<lparr>n_http := Suc (n_http s),
             events := events s @ [HttpGet (pypi_package_url name),
               Log ERROR (FetchError name (HTTPError st))]\<rparr>))"
proof (intro conjI impI allI)
  assume "http env (n_http s) (github_repo_url repo) = Response 403 b"
  then show "\<exists>rest. events (snd (github_get_repo_data env repo s)) =
          events s @ [HttpGet (github_repo_url repo), Log WARNING (RateLimitHit repo),
                      Sleep 60, HttpGet (github_repo_url repo)] @ rest
          \<and> Sleep 60 \<notin> set rest \<and> HttpGet (github_repo_url repo) \<notin> set rest"
    by (rule github_403_events)
next
  fix st b'
  assume "http env (n_http s) (github_repo_url repo) = Response 403 b"
    and "http env (Suc (n_http s)) (github_repo_url repo) = Response st b'
           \<and> 400 \<le> st \<and> st < 600"
  then show "github_get_repo_data env repo s =
             (Inr None,
              s\<lparr>n_http := Suc (Suc (n_http s)),
                events := events s @ [HttpGet (github_repo_url repo),
                  Log WARNING (RateLimitHit repo), Sleep 60, HttpGet (github_repo_url repo),
                  Log ERROR (FetchError repo (HTTPError st))]\<rparr>)"
    using github_403_then_error by blast
next
  fix m
  assume "http env (n_http s) (github_repo_url repo) = Response 403 b"
    and "http env (Suc (n_http s)) (github_repo_url repo) = NetworkFailure m"
  then show "github_get_repo_data env repo s =
             (Inr None,
              s\<lparr>n_http := Suc (Suc (n_http s)),
                events := events s @ [HttpGet (github_repo_url repo),
                  Log WARNING (RateLimitHit repo), Sleep 60, HttpGet (github_repo_url repo),
                  Log ERROR (FetchError repo (ConnectionError m))]\<rparr>)"
    by (rule github_403_then_network_failure)
next
  fix st b
  assume "http env (n_http s) (pypi_package_url name) = Response st b
          \<and> 400 \<le> st \<and> st < 600"
  then show "pypi_get_package_info env name s =
          (Inr None,
           s\<lparr>n_http := Suc (n_http s),
             events := events s @ [HttpGet (pypi_package_url name),
               Log ERROR (FetchError name (HTTPError st))]\<rparr>)"
    using pypi_http_error by blast
qed

text \<open>Claim C3 when every call is answered 403.\<close>

theorem C3_witness_github_forbidden_twice:
  "github_get_repo_data (http_env forbidden) ''a/b'' state0 =
     (Inr None,
      \<lparr>n_http = 2, n_clock = 0,
       events = [HttpGet ''https://api.github.com/repos/a/b'',
                 Log WARNING (RateLimitHit ''a/b''), Sleep 60,
                 HttpGet ''https://api.github.com/repos/a/b'',
                 Log ERROR (FetchError ''a/b'' (HTTPError 403))]\<rparr>)
   \<and> pypi_get_package_info (http_env forbidden) ''pandas'' state0 =
     (Inr None,
      \<lparr>n_http = 1, n_clock = 0,
       events = [HttpGet ''https://pypi.org/pypi/pandas/json'',
                 Log ERROR (FetchError ''pandas'' (HTTPError 403))]\<rparr>)"
  using C3_one_cooldown_one_retry_for_github_only
    [of "http_env forbidden" state0 "''a/b''" None "''pandas''"]
  by (simp add: http_env_def quiet_env_def forbidden_def state0_def github_repo_url_def
      github_base_url_def pypi_package_url_def pypi_base_url_def)

text \<open>
  Claim C3 as stated fails in two places. \<open>get_package_info\<close> answered 403 neither sleeps
  nor retries. And a status that is not 2xx on the repeated call of \<open>get_repo_data\<close> is not
  always the end of the fetch: \<open>raise_for_status\<close> raises for 4xx and 5xx only, so after a
  302 whose body is a JSON object the fetch goes on and returns a record.
\<close>

theorem C3_counterexample_pypi_no_retry_and_redirect_not_terminal:
  "pypi_get_package_info (http_env forbidden) ''pandas'' state0 =
     (Inr None,
      \<lparr>n_http = 1, n_clock = 0,
       events = [HttpGet ''https://pypi.org/pypi/pandas/json'',
                 Log ERROR (FetchError ''pandas'' (HTTPError 403))]\<rparr>)
   \<and> forbidden_then_redirect 1 ''https://api.github.com/repos/a/b'' =
       Response 302 (Some (JObj []))
   \<and> github_get_repo_data (http_env forbidden_then_redirect) ''a/b'' state0 =
     (Inr (Some
        [(''repo_name'', PStr ''a/b''), (''full_name'', PNone), (''description'', PNone),
         (''language'', PNone), (''stars'', PInt 0), (''forks'', PInt 0), (''watchers'', PInt 0),
         (''open_issues'', PInt 0), (''size'', PInt 0), (''created_at'', PNone),
         (''updated_at'', PNone), (''pushed_at'', PNone), (''default_branch'', PNone),
         (''contributors_count'', PInt 0), (''releases_count'', PInt 0),
         (''latest_release'', PNone), (''topics'', PList []), (''license'', PNone),
         (''extracted_at'', PStr (example_isoformat 0))]),
      \<lparr>n_http = 4, n_clock = 1,
       events = [HttpGet ''https://api.github.com/repos/a/b'',
                 Log WARNING (RateLimitHit ''a/b''), Sleep 60,
                 HttpGet ''https://api.github.com/repos/a/b'',
                 HttpGet ''https://api.github.com/repos/a/b/contributors'',
                 HttpGet ''https://api.github.com/repos/a/b/releases'',
                 Log INFO (ExtractedEntity ''a/b'')]\<rparr>)"
proof (intro conjI)
  show "forbidden_then_redirect 1 ''https://api.github.com/repos/a/b'' =
       Response 302 (Some (JObj []))"
    by (simp add: forbidden_then_redirect_def)
qed (rule example_pypi_forbidden example_github_forbidden_then_redirect)+

section \<open>The drivers\<close>

text \<open>
  Claim C5. For every catalog and every environment, \<open>extract_all_repositories\<close> and
  \<open>extract_all_packages\<close> return a batch (they never raise and never stop early). The run
  is a sequence \<open>calls\<close> of calls of the fetcher, one for each entity of the catalog, in the
  order of the catalog: each is the call of \<open>get_repo_data\<close> (of \<open>get_package_info\<close>) on its
  entity in the state left by the call before it, whatever that call returned, after the
  line that announces it and before a pause of one second; the driver does nothing else
  between its first and its last log line. The batch is the list of the records that these
  calls returned, in this order: a call that returns \<open>None\<close> adds nothing. As the log shows
  it: the fetches announced are the entities of the catalog, each once and in order; there
  is one pause of a second for each entity; and the keys of the records of the batch are,
  in this order, the entities whose fetch logged a success, a subsequence of the catalog.
\<close>

theorem C5_each_entity_fetched_once_in_order:
  "(\<exists>batch s' evs calls s1.
      github_extract_all_repositories env catalog s = (Inr batch, s')
      \<and> map fst calls = catalog
      \<and> list_all (is_call_of (github_get_repo_data env)) calls
      \<and> in_sequence (s\<lparr>events := events s @ [Log INFO (StartingExtraction (length catalog))]\<rparr>)
           calls s1
      \<and> s' = s1\<lparr>events := events s1 @ [Log INFO (ExtractionCompleted (length batch))]\<rparr>
      \<and> batch = fetched calls
      \<and> events s' = events s @ [Log INFO (StartingExtraction (length catalog))] @ evs
           @ [Log INFO (ExtractionCompleted (length batch))]
      \<and> attempted evs = catalog
      \<and> map (entity_key GitHub) batch = map PStr (extracted evs)
      \<and> subseq (extracted evs) catalog
      \<and> length (pacing evs) = length catalog)
   \<and> (\<exists>batch s' evs calls s1.
      pypi_extract_all_packages env catalog s = (Inr batch, s')
      \<and> map fst calls = catalog
      \<and> list_all (is_call_of (pypi_get_package_info env)) calls
      \<and> in_sequence (s\<lparr>events := events s @ [Log INFO (StartingExtraction (length catalog))]\<rparr>)
           calls s1
      \<and> s' = s1\<lparr>events := events s1 @ [Log INFO (ExtractionCompleted (length batch))]\<rparr>
      \<and> batch = fetched calls
      \<and> events s' = events s @ [Log INFO (StartingExtraction (length catalog))] @ evs
           @ [Log INFO (ExtractionCompleted (length batch))]
      \<and> attempted evs = catalog
      \<and> map (entity_key PyPI) batch = map PStr (extracted evs)
      \<and> subseq (extracted evs) catalog
      \<and> length (pacing evs) = length catalog)"
proof
  from extract_all_spec[OF github_well_behaved, of env catalog s] obtain batch s' evs where
    l: "extract_all (github_get_repo_data env) catalog s = (Inr batch, s')"
      "events s' = events s @ [Log INFO (StartingExtraction (length catalog))] @ evs
          @ [Log INFO (ExtractionCompleted (length batch))]"
      "attempted evs = catalog"
      "map (\<lambda>d. map_of d ''repo_name'') batch = map (\<lambda>e. Some (PStr e)) (extracted evs)"
      "subseq (extracted evs) catalog" "length (pacing evs) = length catalog"
    by blast
  from extract_all_calls[OF github_well_behaved, of env catalog s] obtain calls s1 where
    c: "extract_all (github_get_repo_data env) catalog s =
          (Inr (fetched calls),
           s1\<lparr>events := events s1 @ [Log INFO (ExtractionCompleted (length (fetched calls)))]\<rparr>)"
      "map fst calls = catalog" "list_all (is_call_of (github_get_repo_data env)) calls"
      "in_sequence (s\<lparr>events := events s @ [Log INFO (StartingExtraction (length catalog))]\<rparr>)
         calls s1"
    by blast
  from l(1) c(1) have b: "batch = fetched calls" by simp
  from l(1) c(1)
  have s': "s' = s1\<lparr>events := events s1 @ [Log INFO (ExtractionCompleted (length batch))]\<rparr>"
    unfolding b by simp
  have k: "map (entity_key GitHub) batch = map PStr (extracted evs)"
    by (rule keys_as_entity_keys) (use l(4) in \<open>simp add: key_field_def\<close>)
  have r: "github_extract_all_repositories env catalog s = (Inr batch, s')"
    unfolding github_extract_all_repositories_def by (rule l(1))
  show "(\<exists>batch s' evs calls s1.
      github_extract_all_repositories env catalog s = (Inr batch, s')
      \<and> map fst calls = catalog
      \<and> list_all (is_call_of (github_get_repo_data env)) calls
      \<and> in_sequence (s\<lparr>events := events s @ [Log INFO (StartingExtraction (length catalog))]\<rparr>)
           calls s1
      \<and> s' = s1\<lparr>events := events s1 @ [Log INFO (ExtractionCompleted (length batch))]\<rparr>
      \<and> batch = fetched calls
      \<and> events s' = events s @ [Log INFO (StartingExtraction (length catalog))] @ evs
           @ [Log INFO (ExtractionCompleted (length batch))]
      \<and> attempted evs = catalog
      \<and> map (entity_key GitHub) batch = map PStr (extracted evs)
      \<and> subseq (extracted evs) catalog
      \<and> length (pacing evs) = length catalog)"
    by (rule exI[of _ batch], rule exI[of _ s'], rule exI[of _ evs], rule exI[of _ calls],
        rule exI[of _ s1])
       (intro conjI r c(2) c(3) c(4) s' b l(2) l(3) k l(5) l(6))
next
  from extract_all_spec[OF pypi_well_behaved, of env catalog s] obtain batch s' evs where
    l: "extract_all (pypi_get_package_info env) catalog s = (Inr batch, s')"
      "events s' = events s @ [Log INFO (StartingExtraction (length catalog))] @ evs
          @ [Log INFO (ExtractionCompleted (length batch))]"
      "attempted evs = catalog"
      "map (\<lambda>d. map_of d ''package_name'') batch = map (\<lambda>e. Some (PStr e)) (extracted evs)"
      "subseq (extracted evs) catalog" "length (pacing evs) = length catalog"
    by blast
  from extract_all_calls[OF pypi_well_behaved, of env catalog s] obtain calls s1 where
    c: "extract_all (pypi_get_package_info env) catalog s =
          (Inr (fetched calls),
           s1\<lparr>events := events s1 @ [Log INFO (ExtractionCompleted (length (fetched calls)))]\<rparr>)"
      "map fst calls = catalog" "list_all (is_call_of (pypi_get_package_info env)) calls"
      "in_sequence (s\<lparr>events := events s @ [Log INFO (StartingExtraction (length catalog))]\<rparr>)
         calls s1"
    by blast
  from l(1) c(1) have b: "batch = fetched calls" by simp
  from l(1) c(1)
  have s': "s' = s1\<lparr>events := events s1 @ [Log INFO (ExtractionCompleted (length batch))]\<rparr>"
    unfolding b by simp
  have k: "map (entity_key PyPI) batch = map PStr (extracted evs)"
    by (rule keys_as_entity_keys) (use l(4) in \<open>simp add: key_field_def\<close>)
  have r: "pypi_extract_all_packages env catalog s = (Inr batch, s')"
    unfolding pypi_extract_all_packages_def by (rule l(1))
  show "(\<exists>batch s' evs calls s1.
      pypi_extract_all_packages env catalog s = (Inr batch, s')
      \<and> map fst calls = catalog
      \<and> list_all (is_call_of (pypi_get_package_info env)) calls
      \<and> in_sequence (s\<lparr>events := events s @ [Log INFO (StartingExtraction (length catalog))]\<rparr>)
           calls s1
      \<and> s' = s1\<lparr>events := events s1 @ [Log INFO (ExtractionCompleted (length batch))]\<rparr>
      \<and> batch = fetched calls
      \<and> events s' = events s @ [Log INFO (StartingExtraction (length catalog))] @ evs
           @ [Log INFO (ExtractionCompleted (length batch))]
      \<and> attempted evs = catalog
      \<and> map (entity_key PyPI) batch = map PStr (extracted evs)
      \<and> subseq (extracted evs) catalog
      \<and> length (pacing evs) = length catalog)"
    by (rule exI[of _ batch], rule exI[of _ s'], rule exI[of _ evs], rule exI[of _ calls],
        rule exI[of _ s1])
       (intro conjI r c(2) c(3) c(4) s' b l(2) l(3) k l(5) l(6))
qed

text \<open>
  Claim C5 on the catalog \<open>orgA/repoX\<close>, \<open>orgB/repoY\<close>, where the first repository is
  answered 403 once and then found, and the second is answered 404: one record, one
  cooldown of 60 seconds and two pauses of one second.
\<close>

theorem C5_witness_two_repositories:
  "github_extract_all_repositories (http_env scenario_answers) [''orgA/repoX'', ''orgB/repoY'']
     state0 =
     (Inr [[(''repo_name'', PStr ''orgA/repoX''), (''full_name'', PNone), (''description'', PNone),
            (''language'', PNone), (''stars'', PInt 0), (''forks'', PInt 0),
            (''watchers'', PInt 0), (''open_issues'', PInt 0), (''size'', PInt 0),
            (''created_at'', PNone), (''updated_at'', PNone), (''pushed_at'', PNone),
            (''default_branch'', PNone), (''contributors_count'', PInt 0),
            (''releases_count'', PInt 0), (''latest_release'', PNone), (''topics'', PList []),
            (''license'', PNone), (''extracted_at'', PStr (example_isoformat 0))]],
      \<lparr>n_http = 5, n_clock = 1,
       events =
         [Log INFO (StartingExtraction 2),
          Log INFO (Extracting ''orgA/repoX''),
          HttpGet ''https://api.github.com/repos/orgA/repoX'',
          Log WARNING (RateLimitHit ''orgA/repoX''), Sleep 60,
          HttpGet ''https://api.github.com/repos/orgA/repoX'',
          HttpGet ''https://api.github.com/repos/orgA/repoX/contributors'',
          HttpGet ''https://api.github.com/repos/orgA/repoX/releases'',
          Log INFO (ExtractedEntity ''orgA/repoX''), Sleep 1,
          Log INFO (Extracting ''orgB/repoY''),
          HttpGet ''https://api.github.com/repos/orgB/repoY'',
          Log ERROR (FetchError ''orgB/repoY'' (HTTPError 404)), Sleep 1,
          Log INFO (ExtractionCompleted 1)]\<rparr>)"
  using C5_each_entity_fetched_once_in_order
    [of "http_env scenario_answers" "[''orgA/repoX'', ''orgB/repoY'']" state0]
  by (simp add: example_scenario)

section \<open>The run controllers\<close>

text \<open>
  Claim C8. The token is absent when the environment variable is not set or is empty:
  this is what \<open>if not self.github_token\<close> tests. \<open>GitHubExtractor.run\<close> raises the
  configuration error exactly when the token is absent; then the error is logged and
  raised and nothing else happens: no HTTP call, no pause, no call to the warehouse, no
  reading of the clock. Any other exception that \<open>GitHubExtractor.run\<close> raises, and any
  exception at all that \<open>PyPIExtractor.run\<close> raises, is an error of the warehouse:
  \<open>PyPIExtractor.run\<close> tests no token and never raises a configuration error.
\<close>

theorem C8_configuration_error_only_for_github_without_token:
  "((\<exists>s'. github_run env github_token repositories s = (Inl token_error, s'))
      \<longleftrightarrow> github_token = None \<or> github_token = Some [])
   \<and> (github_token = None \<or> github_token = Some [] \<longrightarrow>
        github_run env github_token repositories s =
          (Inl token_error, s\<lparr>events := events s @ [Log ERROR (RunFailed token_error)]\<rparr>))
   \<and> (\<forall>e s'. github_run env github_token repositories s = (Inl e, s') \<longrightarrow>
          e = token_error \<or> (\<exists>m. e = SnowflakeError m))
   \<and> (\<forall>e s'. pypi_run env packages s = (Inl e, s') \<longrightarrow> (\<exists>m. e = SnowflakeError m))"
proof -
  have absent: "\<not> truthy (getenv_value github_token) \<longleftrightarrow> github_token = None \<or> github_token = Some []"
    by (cases github_token) (simp_all add: getenv_value_def)
  have a: "github_run env github_token repositories s =
          (Inl token_error, s\<lparr>events := events s @ [Log ERROR (RunFailed token_error)]\<rparr>)"
    if "github_token = None \<or> github_token = Some []"
    using that absent
    by (simp add: github_run_def run_handler_def raise_def and_then_def emit_def)
  have b: "\<exists>m. e = SnowflakeError m"
    if "github_run env github_token repositories s = (Inl e, s')"
      and "\<not> (github_token = None \<or> github_token = Some [])" for e s'
  proof -
    from that absent have "truthy (getenv_value github_token)" by blast
    with that(1) obtain s1 where
      "and_then (emit (Log INFO StartingRun)) (\<lambda>_.
         and_then (extract_all (github_get_repo_data env) repositories) (\<lambda>data.
         if data \<noteq> []
         then and_then (save_to_snowflake GitHub env data) (\<lambda>_. emit (Log INFO RunCompleted))
         else emit (Log WARNING NoDataExtracted))) s = (Inl e, s1)"
      by (auto simp: github_run_def run_handler_Inl github_extract_all_repositories_def)
    then show ?thesis by (rule run_body_raises[OF github_well_behaved])
  qed
  have c: "\<exists>m. e = SnowflakeError m" if "pypi_run env packages s = (Inl e, s')" for e s'
  proof -
    from that obtain s1 where
      "and_then (emit (Log INFO StartingRun)) (\<lambda>_.
         and_then (extract_all (pypi_get_package_info env) packages) (\<lambda>data.
         if data \<noteq> []
         then and_then (save_to_snowflake PyPI env data) (\<lambda>_. emit (Log INFO RunCompleted))
         else emit (Log WARNING NoDataExtracted))) s = (Inl e, s1)"
      by (auto simp: pypi_run_def run_handler_Inl pypi_extract_all_packages_def)
    then show ?thesis by (rule run_body_raises[OF pypi_well_behaved])
  qed
  have d: "github_token = None \<or> github_token = Some []"
    if "github_run env github_token repositories s = (Inl token_error, s')" for s'
  proof (rule ccontr)
    assume "\<not> (github_token = None \<or> github_token = Some [])"
    from b[OF that this] show False by (simp add: token_error_def)
  qed
  show ?thesis
  proof (intro conjI allI impI iffI)
    assume "\<exists>s'. github_run env github_token repositories s = (Inl token_error, s')"
    then show "github_token = None \<or> github_token = Some []" using d by blast
  next
    assume "github_token = None \<or> github_token = Some []"
    from a[OF this]
    show "\<exists>s'. github_run env github_token repositories s = (Inl token_error, s')" by blast
  next
    assume "github_token = None \<or> github_token = Some []"
    then show "github_run env github_token repositories s =
          (Inl token_error, s\<lparr>events := events s @ [Log ERROR (RunFailed token_error)]\<rparr>)"
      by (rule a)
  next
    fix e s'
    assume r: "github_run env github_token repositories s = (Inl e, s')"
    show "e = token_error \<or> (\<exists>m. e = SnowflakeError m)"
    proof (cases "github_token = None \<or> github_token = Some []")
      case True
      from a[OF this] r show ?thesis by simp
    next
      case False
      from b[OF r this] show ?thesis by simp
    qed
  next
    fix e s'
    assume "pypi_run env packages s = (Inl e, s')"
    then show "\<exists>m. e = SnowflakeError m" by (rule c)
  qed
qed

text \<open>
  Claim C8 with the variable not set, with the variable empty, and with a token; and the
  PyPI run, which has none.
\<close>

theorem C8_witness_missing_and_present_token:
  "github_run quiet_env None github_repositories state0 =
     (Inl token_error,
      \<lparr>n_http = 0, n_clock = 0, events = [Log ERROR (RunFailed token_error)]\<rparr>)
   \<and> github_run quiet_env (Some []) github_repositories state0 =
     (Inl token_error,
      \<lparr>n_http = 0, n_clock = 0, events = [Log ERROR (RunFailed token_error)]\<rparr>)
   \<and> github_run quiet_env (Some ''ghp_x'') [''a/b''] state0 =
     (Inr PNone,
      \<lparr>n_http = 1, n_clock = 0,
       events = [Log INFO StartingRun, Log INFO (StartingExtraction 1),
                 Log INFO (Extracting ''a/b''),
                 HttpGet ''https://api.github.com/repos/a/b'',
                 Log ERROR (FetchError ''a/b'' (HTTPError 404)), Sleep 1,
                 Log INFO (ExtractionCompleted 0), Log WARNING NoDataExtracted]\<rparr>)
   \<and> pypi_run quiet_env [''pandas''] state0 =
     (Inr PNone,
      \<lparr>n_http = 1, n_clock = 0,
       events = [Log INFO StartingRun, Log INFO (StartingExtraction 1),
                 Log INFO (Extracting ''pandas''),
                 HttpGet ''https://pypi.org/pypi/pandas/json'',
                 Log ERROR (FetchError ''pandas'' (HTTPError 404)), Sleep 1,
                 Log INFO (ExtractionCompleted 0), Log WARNING NoDataExtracted]\<rparr>)"
proof (intro conjI)
  show "github_run quiet_env None github_repositories state0 =
     (Inl token_error,
      \<lparr>n_http = 0, n_clock = 0, events = [Log ERROR (RunFailed token_error)]\<rparr>)"
    using C8_configuration_error_only_for_github_without_token
      [of quiet_env None github_repositories state0]
    by (simp add: state0_def)
  show "github_run quiet_env (Some []) github_repositories state0 =
     (Inl token_error,
      \<lparr>n_http = 0, n_clock = 0, events = [Log ERROR (RunFailed token_error)]\<rparr>)"
    using C8_configuration_error_only_for_github_without_token
      [of quiet_env "Some []" github_repositories state0]
    by (simp add: state0_def)
  show "github_run quiet_env (Some ''ghp_x'') [''a/b''] state0 =
     (Inr PNone,
      \<lparr>n_http = 1, n_clock = 0,
       events = [Log INFO StartingRun, Log INFO (StartingExtraction 1),
                 Log INFO (Extracting ''a/b''),
                 HttpGet ''https://api.github.com/repos/a/b'',
                 Log ERROR (FetchError ''a/b'' (HTTPError 404)), Sleep 1,
                 Log INFO (ExtractionCompleted 0), Log WARNING NoDataExtracted]\<rparr>)"
    by (simp add: github_run_def run_handler_def getenv_value_def
        github_extract_all_repositories_def extract_all_def fetch_eval)
  show "pypi_run quiet_env [''pandas''] state0 =
     (Inr PNone,
      \<lparr>n_http = 1, n_clock = 0,
       events = [Log INFO StartingRun, Log INFO (StartingExtraction 1),
                 Log INFO (Extracting ''pandas''),
                 HttpGet ''https://pypi.org/pypi/pandas/json'',
                 Log ERROR (FetchError ''pandas'' (HTTPError 404)), Sleep 1,
                 Log INFO (ExtractionCompleted 0), Log WARNING NoDataExtracted]\<rparr>)"
    by (simp add: pypi_run_def run_handler_def
        pypi_extract_all_packages_def extract_all_def fetch_eval)
qed

section \<open>The loader: the validation gate\<close>

text \<open>
  Claim C9, as the code has it. Every row that the loop puts into \<open>insert_data\<close> comes from
  a record of the batch for which \<open>json.dumps\<close> succeeded, and carries the text it wrote.
  The gate parses that text and throws the result away: it compares nothing. Reading the
  text back gives the record again when the record is made of JSON's own forms only
  (\<open>None\<close>, booleans, integers, strings, lists, and dictionaries with string keys).
\<close>

theorem C9_round_trip_for_json_native_records:
  "prepare_insert_data src env data [] s = (Inr rows, s') \<and> (t, k, js) \<in> set rows \<longrightarrow>
     (\<exists>d \<in> set data.
        k = entity_key src d \<and> json_dumps (PDict d) = Inr js \<and>
        (json_native (PDict d) \<longrightarrow> json_loads js = PDict d))"
proof
  assume a: "prepare_insert_data src env data [] s = (Inr rows, s') \<and> (t, k, js) \<in> set rows"
  then have "rows = staged_rows src env (n_clock s) data"
    by (simp add: prepare_insert_data_eq)
  with a have "(t, k, js) \<in> set (staged_rows src env (n_clock s) data)" by simp
  from staged_row_origin[OF this] obtain d where
    d: "d \<in> set data" "k = entity_key src d" "json_dumps (PDict d) = Inr js" by blast
  have "json_loads js = PDict d" if "json_native (PDict d)"
  proof -
    from json_dumps_native[OF that] d(3) have "js = to_json (PDict d)" by simp
    then show ?thesis using json_loads_native[OF that] by simp
  qed
  with d show "\<exists>d \<in> set data.
        k = entity_key src d \<and> json_dumps (PDict d) = Inr js \<and>
        (json_native (PDict d) \<longrightarrow> json_loads js = PDict d)"
    by blast
qed

text \<open>Claim C9 on a record of a string and a number.\<close>

theorem C9_witness_record_of_strings_and_numbers:
  "prepare_insert_data GitHub quiet_env [example_good ''a''] [] state0 =
     (Inr [(0, PStr ''a'', JObj [(''repo_name'', JStr ''a''), (''stars'', JNum 1)])],
      \<lparr>n_http = 0, n_clock = 1, events = []\<rparr>)
   \<and> json_dumps (PDict (example_good ''a'')) =
       Inr (JObj [(''repo_name'', JStr ''a''), (''stars'', JNum 1)])
   \<and> json_loads (JObj [(''repo_name'', JStr ''a''), (''stars'', JNum 1)]) =
       PDict (example_good ''a'')"
  using C9_round_trip_for_json_native_records
    [of GitHub quiet_env "[example_good ''a'']" state0
        "[(0, PStr ''a'', JObj [(''repo_name'', JStr ''a''), (''stars'', JNum 1)])]"
        "\<lparr>n_http = 0, n_clock = 1, events = []\<rparr>"
        0 "PStr ''a''" "JObj [(''repo_name'', JStr ''a''), (''stars'', JNum 1)]"]
    example_good_row
  by (simp add: example_good_def)

text \<open>
  Claim C9 as stated fails: a record that holds a tuple passes the gate and is put into
  \<open>insert_data\<close>, and reading its text back gives a list in place of the tuple, which
  Python's \<open>==\<close> tells from the tuple.
\<close>

theorem C9_counterexample_tuple_comes_back_as_list:
  "prepare_insert_data GitHub quiet_env [example_tuple] [] state0 =
     (Inr [(0, PStr ''x'', JObj [(''repo_name'', JStr ''x''), (''tags'', JArr [JStr ''a''])])],
      \<lparr>n_http = 0, n_clock = 1, events = []\<rparr>)
   \<and> json_loads (JObj [(''repo_name'', JStr ''x''), (''tags'', JArr [JStr ''a''])]) =
       PDict [(''repo_name'', PStr ''x''), (''tags'', PList [PStr ''a''])]
   \<and> \<not> py_eq (PDict [(''repo_name'', PStr ''x''), (''tags'', PList [PStr ''a''])])
             (PDict example_tuple)
   \<and> PDict [(''repo_name'', PStr ''x''), (''tags'', PList [PStr ''a''])] \<noteq> PDict example_tuple"
proof -
  have sv: "serialize_and_validate example_tuple =
      Inr (JObj [(''repo_name'', JStr ''x''), (''tags'', JArr [JStr ''a''])])"
    by (simp add: serialize_and_validate_def example_tuple_def bind_exn_def)
  have ne: "example_tuple \<noteq> []" by (simp add: example_tuple_def)
  have ek: "entity_key GitHub example_tuple = PStr ''x''"
    by (simp add: entity_key_def key_field_def example_tuple_def)
  have 1: "prepare_insert_data GitHub quiet_env [example_tuple] [] state0 =
     (Inr [(0, PStr ''x'', JObj [(''repo_name'', JStr ''x''), (''tags'', JArr [JStr ''a''])])],
      \<lparr>n_http = 0, n_clock = 1, events = []\<rparr>)"
    by (simp add: and_then_def now_def ret_def sv ne ek quiet_env_def state0_def)
  have 2: "json_loads (JObj [(''repo_name'', JStr ''x''), (''tags'', JArr [JStr ''a''])]) =
       PDict [(''repo_name'', PStr ''x''), (''tags'', PList [PStr ''a''])]"
    by (simp add: dict_of_items_def)
  have 3: "\<not> py_eq (PDict [(''repo_name'', PStr ''x''), (''tags'', PList [PStr ''a''])])
             (PDict example_tuple)"
    by (simp add: example_tuple_def)
  have 4: "PDict [(''repo_name'', PStr ''x''), (''tags'', PList [PStr ''a''])] \<noteq> PDict example_tuple"
    by (simp add: example_tuple_def)
  from 1 2 3 4 show ?thesis by blast
qed

section \<open>The timestamp of a staged row\<close>

text \<open>
  Claim C10, as the code has it. Take any run of either pipeline and any row of a staging
  insert made during the run. The \<open>extracted_at\<close> of the row is a reading of the clock taken
  by the loader: it is not read from the record. The text of the row is the serialization
  of a record whose own \<open>extracted_at\<close> field is the ISO form of an earlier reading of the
  clock, the one taken by the fetch. The code never compares the two values: the row's
  timestamp is later than the payload's when the clock is strictly increasing from one
  reading to the next, which a wall clock is not bound to be.
\<close>

theorem C10_staged_timestamp_is_a_later_reading_of_the_clock:
  "(github_run env github_token catalog s = (r, s') \<or> pypi_run env catalog s = (r, s'))
   \<and> ExecuteMany st rows \<in> set (events s') \<and> ExecuteMany st rows \<notin> set (events s)
   \<and> (t, k, js) \<in> set rows
   \<longrightarrow> (\<exists>d i j. i < j \<and> t = clock env j
          \<and> json_dumps (PDict d) = Inr js
          \<and> map_of d ''extracted_at'' = Some (PStr (isoformat env (clock env i)))
          \<and> (strict_mono (clock env) \<longrightarrow> clock env i < t))"
proof
  assume a: "(github_run env github_token catalog s = (r, s') \<or> pypi_run env catalog s = (r, s'))
   \<and> ExecuteMany st rows \<in> set (events s') \<and> ExecuteMany st rows \<notin> set (events s)
   \<and> (t, k, js) \<in> set rows"
  then have ex: "ExecuteMany st rows \<in> set (events s')" "ExecuteMany st rows \<notin> set (events s)"
    and row: "(t, k, js) \<in> set rows" by simp_all
  have "\<exists>src d i j. i < j \<and> t = clock env j \<and> k = entity_key src d
           \<and> json_dumps (PDict d) = Inr js
           \<and> map_of d ''extracted_at'' = Some (PStr (isoformat env (clock env i)))"
  proof -
    from a consider (g) "github_run env github_token catalog s = (r, s')"
      | (p) "pypi_run env catalog s = (r, s')" by blast
    then show ?thesis
    proof cases
      case g
      show ?thesis
      proof (cases "truthy (getenv_value github_token)")
        case False
        with g have "events s' = events s @ [Log ERROR (RunFailed token_error)]"
          by (auto simp: github_run_def run_handler_def raise_def and_then_def emit_def)
        with ex show ?thesis by simp
      next
        case True
        with g have "run_handler
          (and_then (emit (Log INFO StartingRun)) (\<lambda>_.
           and_then (extract_all (github_get_repo_data env) catalog) (\<lambda>data.
           if data \<noteq> []
           then and_then (save_to_snowflake GitHub env data) (\<lambda>_. emit (Log INFO RunCompleted))
           else emit (Log WARNING NoDataExtracted)))) s = (r, s')"
          by (simp add: github_run_def github_extract_all_repositories_def)
        from run_staged_rows[OF github_well_behaved this ex row] show ?thesis by blast
      qed
    next
      case p
      then have "run_handler
          (and_then (emit (Log INFO StartingRun)) (\<lambda>_.
           and_then (extract_all (pypi_get_package_info env) catalog) (\<lambda>data.
           if data \<noteq> []
           then and_then (save_to_snowflake PyPI env data) (\<lambda>_. emit (Log INFO RunCompleted))
           else emit (Log WARNING NoDataExtracted)))) s = (r, s')"
        by (simp add: pypi_run_def pypi_extract_all_packages_def)
      from run_staged_rows[OF pypi_well_behaved this ex row] show ?thesis by blast
    qed
  qed
  then obtain d i j where f: "i < j" "t = clock env j" "json_dumps (PDict d) = Inr js"
    "map_of d ''extracted_at'' = Some (PStr (isoformat env (clock env i)))" by blast
  have "strict_mono (clock env) \<longrightarrow> clock env i < t"
    using f(1,2) by (auto simp: strict_mono_def)
  with f show "\<exists>d i j. i < j \<and> t = clock env j
          \<and> json_dumps (PDict d) = Inr js
          \<and> map_of d ''extracted_at'' = Some (PStr (isoformat env (clock env i)))
          \<and> (strict_mono (clock env) \<longrightarrow> clock env i < t)"
    by blast
qed

text \<open>
  Claim C10 on a run over one repository with a clock that advances: the fetch stamps the
  record with reading 0 and the loader stamps the row with reading 1.
\<close>

theorem C10_witness_run_with_a_clock_that_advances:
  "github_run (http_env empty_objects) (Some ''ghp_x'') [''a/b''] state0 =
     (Inr PNone,
      \<lparr>n_http = 3, n_clock = 2,
       events =
         [Log INFO StartingRun, Log INFO (StartingExtraction 1),
          Log INFO (Extracting ''a/b''),
          HttpGet ''https://api.github.com/repos/a/b'',
          HttpGet ''https://api.github.com/repos/a/b/contributors'',
          HttpGet ''https://api.github.com/repos/a/b/releases'',
          Log INFO (ExtractedEntity ''a/b''), Sleep 1,
          Log INFO (ExtractionCompleted 1),
          Connect, OpenCursor, Execute UseSchema, Execute (CreateTemp GitHub),
          ExecuteMany (InsertTemp GitHub)
            [(1, PStr ''a/b'',
              JObj [(''repo_name'', JStr ''a/b''), (''full_name'', JNull),
                    (''description'', JNull), (''language'', JNull), (''stars'', JNum 0),
                    (''forks'', JNum 0), (''watchers'', JNum 0), (''open_issues'', JNum 0),
                    (''size'', JNum 0), (''created_at'', JNull), (''updated_at'', JNull),
                    (''pushed_at'', JNull), (''default_branch'', JNull),
                    (''contributors_count'', JNum 0), (''releases_count'', JNum 0),
                    (''latest_release'', JNull), (''topics'', JArr []), (''license'', JNull),
                    (''extracted_at'', JStr (example_isoformat 0))])],
          Execute (Promote GitHub), Commit, Log INFO (SavedRows 1),
          CursorClose, ConnClose, Log INFO RunCompleted]\<rparr>)
   \<and> strict_mono (clock (http_env empty_objects))
   \<and> (\<exists>d i j. i < j \<and> 1 = clock (http_env empty_objects) j
          \<and> json_dumps (PDict d) = Inr (JObj [(''repo_name'', JStr ''a/b''), (''full_name'', JNull),
                    (''description'', JNull), (''language'', JNull), (''stars'', JNum 0),
                    (''forks'', JNum 0), (''watchers'', JNum 0), (''open_issues'', JNum 0),
                    (''size'', JNum 0), (''created_at'', JNull), (''updated_at'', JNull),
                    (''pushed_at'', JNull), (''default_branch'', JNull),
                    (''contributors_count'', JNum 0), (''releases_count'', JNum 0),
                    (''latest_release'', JNull), (''topics'', JArr []), (''license'', JNull),
                    (''extracted_at'', JStr (example_isoformat 0))])
          \<and> map_of d ''extracted_at'' =
              Some (PStr (isoformat (http_env empty_objects)
                             (clock (http_env empty_objects) i)))
          \<and> clock (http_env empty_objects) i < 1)"
proof (intro conjI)
  show "github_run (http_env empty_objects) (Some ''ghp_x'') [''a/b''] state0 =
     (Inr PNone,
      \<lparr>n_http = 3, n_clock = 2,
       events =
         [Log INFO StartingRun, Log INFO (StartingExtraction 1),
          Log INFO (Extracting ''a/b''),
          HttpGet ''https://api.github.com/repos/a/b'',
          HttpGet ''https://api.github.com/repos/a/b/contributors'',
          HttpGet ''https://api.github.com/repos/a/b/releases'',
          Log INFO (ExtractedEntity ''a/b''), Sleep 1,
          Log INFO (ExtractionCompleted 1),
          Connect, OpenCursor, Execute UseSchema, Execute (CreateTemp GitHub),
          ExecuteMany (InsertTemp GitHub)
            [(1, PStr ''a/b'',
              JObj [(''repo_name'', JStr ''a/b''), (''full_name'', JNull),
                    (''description'', JNull), (''language'', JNull), (''stars'', JNum 0),
                    (''forks'', JNum 0), (''watchers'', JNum 0), (''open_issues'', JNum 0),
                    (''size'', JNum 0), (''created_at'', JNull), (''updated_at'', JNull),
                    (''pushed_at'', JNull), (''default_branch'', JNull),
                    (''contributors_count'', JNum 0), (''releases_count'', JNum 0),
                    (''latest_release'', JNull), (''topics'', JArr []), (''license'', JNull),
                    (''extracted_at'', JStr (example_isoformat 0))])],
          Execute (Promote GitHub), Commit, Log INFO (SavedRows 1),
          CursorClose, ConnClose, Log INFO RunCompleted]\<rparr>)"
    by (rule example_run_forward)
  show sm: "strict_mono (clock (http_env empty_objects))"
    by (simp add: http_env_def quiet_env_def strict_mono_def)
  have "(github_run (http_env empty_objects) (Some ''ghp_x'') [''a/b''] state0 =
          (Inr PNone, snd (github_run (http_env empty_objects) (Some ''ghp_x'') [''a/b''] state0))
         \<or> pypi_run (http_env empty_objects) [''a/b''] state0 =
          (Inr PNone, snd (github_run (http_env empty_objects) (Some ''ghp_x'') [''a/b''] state0)))
     \<and> ExecuteMany (InsertTemp GitHub) [(1, PStr ''a/b'',
              JObj [(''repo_name'', JStr ''a/b''), (''full_name'', JNull),
                    (''description'', JNull), (''language'', JNull), (''stars'', JNum 0),
                    (''forks'', JNum 0), (''watchers'', JNum 0), (''open_issues'', JNum 0),
                    (''size'', JNum 0), (''created_at'', JNull), (''updated_at'', JNull),
                    (''pushed_at'', JNull), (''default_branch'', JNull),
                    (''contributors_count'', JNum 0), (''releases_count'', JNum 0),
                    (''latest_release'', JNull), (''topics'', JArr []), (''license'', JNull),
                    (''extracted_at'', JStr (example_isoformat 0))])]
         \<in> set (events (snd (github_run (http_env empty_objects) (Some ''ghp_x'') [''a/b''] state0)))
     \<and> ExecuteMany (InsertTemp GitHub) [(1, PStr ''a/b'',
              JObj [(''repo_name'', JStr ''a/b''), (''full_name'', JNull),
                    (''description'', JNull), (''language'', JNull), (''stars'', JNum 0),
                    (''forks'', JNum 0), (''watchers'', JNum 0), (''open_issues'', JNum 0),
                    (''size'', JNum 0), (''created_at'', JNull), (''updated_at'', JNull),
                    (''pushed_at'', JNull), (''default_branch'', JNull),
                    (''contributors_count'', JNum 0), (''releases_count'', JNum 0),
                    (''latest_release'', JNull), (''topics'', JArr []), (''license'', JNull),
                    (''extracted_at'', JStr (example_isoformat 0))])]
         \<notin> set (events state0)
     \<and> (1, PStr ''a/b'',
              JObj [(''repo_name'', JStr ''a/b''), (''full_name'', JNull),
                    (''description'', JNull), (''language'', JNull), (''stars'', JNum 0),
                    (''forks'', JNum 0), (''watchers'', JNum 0), (''open_issues'', JNum 0),
                    (''size'', JNum 0), (''created_at'', JNull), (''updated_at'', JNull),
                    (''pushed_at'', JNull), (''default_branch'', JNull),
                    (''contributors_count'', JNum 0), (''releases_count'', JNum 0),
                    (''latest_release'', JNull), (''topics'', JArr []), (''license'', JNull),
                    (''extracted_at'', JStr (example_isoformat 0))])
         \<in> set [(1, PStr ''a/b'',
              JObj [(''repo_name'', JStr ''a/b''), (''full_name'', JNull),
                    (''description'', JNull), (''language'', JNull), (''stars'', JNum 0),
                    (''forks'', JNum 0), (''watchers'', JNum 0), (''open_issues'', JNum 0),
                    (''size'', JNum 0), (''created_at'', JNull), (''updated_at'', JNull),
                    (''pushed_at'', JNull), (''default_branch'', JNull),
                    (''contributors_count'', JNum 0), (''releases_count'', JNum 0),
                    (''latest_release'', JNull), (''topics'', JArr []), (''license'', JNull),
                    (''extracted_at'', JStr (example_isoformat 0))])]"
    by (simp add: example_run_forward) (simp add: state0_def)
  from C10_staged_timestamp_is_a_later_reading_of_the_clock[THEN mp, OF this] sm
  show "\<exists>d i j. i < j \<and> 1 = clock (http_env empty_objects) j
          \<and> json_dumps (PDict d) = Inr (JObj [(''repo_name'', JStr ''a/b''), (''full_name'', JNull),
                    (''description'', JNull), (''language'', JNull), (''stars'', JNum 0),
                    (''forks'', JNum 0), (''watchers'', JNum 0), (''open_issues'', JNum 0),
                    (''size'', JNum 0), (''created_at'', JNull), (''updated_at'', JNull),
                    (''pushed_at'', JNull), (''default_branch'', JNull),
                    (''contributors_count'', JNum 0), (''releases_count'', JNum 0),
                    (''latest_release'', JNull), (''topics'', JArr []), (''license'', JNull),
                    (''extracted_at'', JStr (example_isoformat 0))])
          \<and> map_of d ''extracted_at'' =
              Some (PStr (isoformat (http_env empty_objects)
                             (clock (http_env empty_objects) i)))
          \<and> clock (http_env empty_objects) i < 1"
    by blast
qed

text \<open>
  Claim C10 as stated says that the timestamp of the row is always later than the one of
  the payload. With a clock that is set back between the fetch and the load it is
  earlier: the payload carries the reading 9 and the row the reading 8.
\<close>

theorem C10_counterexample_clock_set_back:
  "github_run backwards_clock_env (Some ''ghp_x'') [''a/b''] state0 =
     (Inr PNone,
      \<lparr>n_http = 3, n_clock = 2,
       events =
         [Log INFO StartingRun, Log INFO (StartingExtraction 1),
          Log INFO (Extracting ''a/b''),
          HttpGet ''https://api.github.com/repos/a/b'',
          HttpGet ''https://api.github.com/repos/a/b/contributors'',
          HttpGet ''https://api.github.com/repos/a/b/releases'',
          Log INFO (ExtractedEntity ''a/b''), Sleep 1,
          Log INFO (ExtractionCompleted 1),
          Connect, OpenCursor, Execute UseSchema, Execute (CreateTemp GitHub),
          ExecuteMany (InsertTemp GitHub)
            [(8, PStr ''a/b'',
              JObj [(''repo_name'', JStr ''a/b''), (''full_name'', JNull),
                    (''description'', JNull), (''language'', JNull), (''stars'', JNum 0),
                    (''forks'', JNum 0), (''watchers'', JNum 0), (''open_issues'', JNum 0),
                    (''size'', JNum 0), (''created_at'', JNull), (''updated_at'', JNull),
                    (''pushed_at'', JNull), (''default_branch'', JNull),
                    (''contributors_count'', JNum 0), (''releases_count'', JNum 0),
                    (''latest_release'', JNull), (''topics'', JArr []), (''license'', JNull),
                    (''extracted_at'', JStr (example_isoformat 9))])],
          Execute (Promote GitHub), Commit, Log INFO (SavedRows 1),
          CursorClose, ConnClose, Log INFO RunCompleted]\<rparr>)
   \<and> clock backwards_clock_env 0 = 9 \<and> clock backwards_clock_env 1 = 8"
  by (simp add: example_run_backwards) (simp add: backwards_clock_env_def)

end
